theory Spec2Isabelle
  imports Complex_Main "HOL-Library.Word" "HOL-Library.Log_Nat"
begin

unbundle bit_operations_syntax

section \<open>JavaScript numbers\<close>

text \<open>
  The worker computes with IEEE-754 binary64 numbers and stores some intermediate tables in
  \<^verbatim>\<open>Float32Array\<close>s. A number is modelled as a rational; every arithmetic result is
  rounded to 53 significant bits (\<open>f64\<close>), every \<^verbatim>\<open>Float32Array\<close> store to 24
  (\<open>f32\<close>), to nearest with ties to even. The exponent range is left unbounded: the
  values the worker handles are far from overflow and from the subnormal range.
  \<open>NaN\<close> and the infinities are not values of the model; where the source can divide
  by zero the model says so at that place.
\<close>

type_synonym num = rat

definition pow2 :: "int \<Rightarrow> num" where
  "pow2 e = (if 0 \<le> e then 2 ^ nat e else 1 / 2 ^ nat (- e))"

text \<open>\<open>ilog2 x\<close> is the binary exponent of a positive \<open>x\<close>: \<open>2 ^ ilog2 x \<le> x < 2 ^ (ilog2 x + 1)\<close>.\<close>

definition ilog2 :: "num \<Rightarrow> int" where
  "ilog2 x = (if 1 \<le> x then bitlen \<lfloor>x\<rfloor> - 1 else - bitlen (\<lceil>1 / x\<rceil> - 1))"

text \<open>Round to the nearest integer, a tie to the even neighbour.\<close>

definition rne :: "num \<Rightarrow> int" where
  "rne m = (let f = \<lfloor>m\<rfloor>; d = m - of_int f in
     if d < 1 / 2 then f else if 1 / 2 < d then f + 1 else if even f then f else f + 1)"

definition fround :: "nat \<Rightarrow> num \<Rightarrow> num" where
  "fround p x = (if x = 0 then 0 else
     let u = pow2 (ilog2 \<bar>x\<bar> - int p + 1) in of_int (rne (x / u)) * u)"

definition f64 :: "num \<Rightarrow> num" where
  "f64 = fround 53"

definition f32 :: "num \<Rightarrow> num" where
  "f32 = fround 24"

definition fadd :: "num \<Rightarrow> num \<Rightarrow> num" where
  "fadd x y = f64 (x + y)"

definition fsub :: "num \<Rightarrow> num \<Rightarrow> num" where
  "fsub x y = f64 (x - y)"

definition fmul :: "num \<Rightarrow> num \<Rightarrow> num" where
  "fmul x y = f64 (x * y)"

definition fdiv :: "num \<Rightarrow> num \<Rightarrow> num" where
  "fdiv x y = f64 (x / y)"

text \<open>A decimal literal of the source denotes the nearest binary64 number.\<close>

definition lit :: "num \<Rightarrow> num" where
  "lit x = f64 x"

text \<open>\<^verbatim>\<open>Math.round\<close> rounds a tie towards \<open>+\<infinity>\<close>; \<^verbatim>\<open>Math.floor\<close> and
  \<^verbatim>\<open>Math.ceil\<close> are exact.\<close>

definition js_round :: "num \<Rightarrow> int" where
  "js_round x = \<lfloor>x + 1 / 2\<rfloor>"

definition clampNum :: "num \<Rightarrow> num \<Rightarrow> num \<Rightarrow> num" where
  "clampNum lo hi x = max lo (min hi x)"

type_synonym byte = "8 word"

text \<open>A store into a \<^verbatim>\<open>Uint8ClampedArray\<close> clamps to \<open>[0, 255]\<close> and rounds a tie to
  even; a store into a \<^verbatim>\<open>Uint8Array\<close> truncates and wraps modulo 256.\<close>

definition clamp8 :: "num \<Rightarrow> byte" where
  "clamp8 x = word_of_int (if x \<le> 0 then 0 else if 255 \<le> x then 255 else rne x)"

definition toUint8 :: "num \<Rightarrow> byte" where
  "toUint8 x = word_of_int (if 0 \<le> x then \<lfloor>x\<rfloor> else \<lceil>x\<rceil>)"

definition bnum :: "byte \<Rightarrow> num" where
  "bnum v = of_nat (unat v)"

section \<open>Luminance tables\<close>

text \<open>
  \<^verbatim>\<open>LUM_R[i] = i * 0.299\<close> and its siblings, for \<open>i = 0 .. 255\<close>: a binary64 product
  stored in a \<^verbatim>\<open>Float32Array\<close>. The tables are only ever indexed by a pixel byte.
\<close>

definition LUM_R :: "nat \<Rightarrow> num" where
  "LUM_R i = f32 (fmul (of_nat i) (lit (299 / 1000)))"

definition LUM_G :: "nat \<Rightarrow> num" where
  "LUM_G i = f32 (fmul (of_nat i) (lit (587 / 1000)))"

definition LUM_B :: "nat \<Rightarrow> num" where
  "LUM_B i = f32 (fmul (of_nat i) (lit (114 / 1000)))"

text \<open>\<^verbatim>\<open>LUM_R[r] + LUM_G[g] + LUM_B[b]\<close>, added left to right.\<close>

definition lumSum :: "byte \<Rightarrow> byte \<Rightarrow> byte \<Rightarrow> num" where
  "lumSum r g b = fadd (fadd (LUM_R (unat r)) (LUM_G (unat g))) (LUM_B (unat b))"

text \<open>\<^verbatim>\<open>const lumInt = Math.round(LUM_R[d[i]] + LUM_G[d[i+1]] + LUM_B[d[i+2]])\<close> of
  \<^verbatim>\<open>applyVelox\<close>.\<close>

definition lumInt :: "byte \<Rightarrow> byte \<Rightarrow> byte \<Rightarrow> int" where
  "lumInt r g b = js_round (lumSum r g b)"

section \<open>The seeded generator\<close>

text \<open>
  The arrow function \<^verbatim>\<open>random(seed)\<close> that \<^verbatim>\<open>buildInkSkipMap\<close> and
  \<^verbatim>\<open>applyPlateHickeys\<close> each declare. The seed is a non-negative integer; the bitwise
  operators and \<^verbatim>\<open>Math.imul\<close> work on its low 32 bits, and the sum
  \<^verbatim>\<open>t + Math.imul(..)\<close> is reduced modulo \<open>2\<^sup>3\<^sup>2\<close> by the \<^verbatim>\<open>^=\<close> that consumes it.
\<close>

definition random :: "nat \<Rightarrow> num" where
  "random seed =
     (let t0 = (word_of_nat seed + 0x6D2B79F5 :: 32 word);
          t1 = (t0 XOR drop_bit 15 t0) * (t0 OR 1);
          t2 = t1 XOR (t1 + (t1 XOR drop_bit 7 t1) * (t1 OR 61))
      in of_nat (unat (t2 XOR drop_bit 14 t2)) / 4294967296)"

section \<open>Rasters and the canvas\<close>

record pixel =
  pr :: byte
  pg :: byte
  pb :: byte
  pa :: byte

type_synonym rgb = "byte \<times> byte \<times> byte"

text \<open>A canvas, an \<^verbatim>\<open>ImageBitmap\<close> or an \<^verbatim>\<open>ImageData\<close>: pixel \<open>(x, y)\<close> is
  \<open>data ! (y * width + x)\<close>. Premultiplied storage is not modelled.\<close>

record canvas =
  width :: nat
  height :: nat
  data :: "pixel list"

datatype error = TypeError | IndexSizeError | InvalidStateError | NeverReturns

text \<open>A path the worker fills: the transform in force, then the shape.\<close>

datatype shape = Circle num | Diamond num | Line num int num

record dot =
  dotX :: num
  dotY :: num
  dotScaleX :: num
  dotScaleY :: num
  dotPath :: shape

text \<open>
  What the worker takes from its host environment: the transcendental functions of
  \<^verbatim>\<open>Math\<close> (\<open>mpow2 x\<close> is \<^verbatim>\<open>Math.pow(2, x)\<close>), the sequence of values \<^verbatim>\<open>Math.random()\<close> returns during a run, the
  anti-aliased coverage (in \<open>[0, 1]\<close>) of a pixel by a filled path, and the smoothing
  resampler behind a scaling \<^verbatim>\<open>drawImage\<close>.
\<close>

record platform =
  msqrt :: "num \<Rightarrow> num"
  mcos :: "num \<Rightarrow> num"
  msin :: "num \<Rightarrow> num"
  mexp :: "num \<Rightarrow> num"
  mpow2 :: "num \<Rightarrow> num"
  mrandom :: "nat \<Rightarrow> num"
  coverage :: "dot \<Rightarrow> nat \<Rightarrow> nat \<Rightarrow> num"
  resample :: "canvas \<Rightarrow> nat \<Rightarrow> nat \<Rightarrow> nat \<Rightarrow> pixel"

definition MATH_PI :: num where
  "MATH_PI = 884279719003555 / 281474976710656"

definition transparent :: pixel where
  "transparent = \<lparr>pr = 0, pg = 0, pb = 0, pa = 0\<rparr>"

text \<open>\<^verbatim>\<open>new OffscreenCanvas(w, h)\<close>: transparent black.\<close>

definition newCanvas :: "nat \<Rightarrow> nat \<Rightarrow> canvas" where
  "newCanvas w h = \<lparr>width = w, height = h, data = replicate (w * h) transparent\<rparr>"

text \<open>\<^verbatim>\<open>getImageData(0, 0, w, h)\<close> throws when a dimension is zero.\<close>

definition getImageData :: "canvas \<Rightarrow> error + pixel list" where
  "getImageData c = (if width c = 0 \<or> height c = 0 then Inl IndexSizeError else Inr (data c))"

definition putImageData :: "canvas \<Rightarrow> pixel list \<Rightarrow> canvas" where
  "putImageData c d = c\<lparr>data := d\<rparr>"

text \<open>
  \<^verbatim>\<open>copyCanvas\<close>: a fresh canvas of the source's size with the source drawn onto it.
  Drawing a canvas that has a zero dimension throws; drawn over transparent black, a
  pixel keeps its value.
\<close>

definition copyCanvas :: "canvas \<Rightarrow> error + canvas" where
  "copyCanvas src =
     (if width src = 0 \<or> height src = 0 then Inl InvalidStateError
      else Inr ((newCanvas (width src) (height src))\<lparr>data := data src\<rparr>))"

text \<open>
  \<^verbatim>\<open>fillRect(0, 0, w, h)\<close> with an opaque \<^verbatim>\<open>fillStyle\<close>, compositing
  \<^verbatim>\<open>source-over\<close>: every pixel becomes the colour, fully opaque.
\<close>

definition opaque :: "rgb \<Rightarrow> pixel" where
  "opaque c = (case c of (r, g, b) \<Rightarrow> \<lparr>pr = r, pg = g, pb = b, pa = 255\<rparr>)"

definition fillRect :: "rgb \<Rightarrow> canvas \<Rightarrow> canvas" where
  "fillRect c cv = cv\<lparr>data := map (\<lambda>_. opaque c) (data cv)\<rparr>"

text \<open>
  Filling a path with an opaque colour, \<^verbatim>\<open>source-over\<close>: with coverage \<open>k\<close> the source
  alpha is \<open>k\<close>, the result alpha \<open>k + a\<^sub>b (1 - k)\<close> and the result colour the
  alpha-weighted mean of ink and backdrop.
\<close>

definition mix8 :: "num \<Rightarrow> num \<Rightarrow> byte \<Rightarrow> byte \<Rightarrow> byte" where
  "mix8 ws wb s b = clamp8 ((ws * bnum s + wb * bnum b) / (ws + wb))"

definition sourceOver :: "rgb \<Rightarrow> num \<Rightarrow> pixel \<Rightarrow> pixel" where
  "sourceOver c k p =
     (case c of (r, g, b) \<Rightarrow>
        let ab = bnum (pa p) / 255; wb = ab * (1 - k); ao = k + wb in
        if ao = 0 then transparent
        else \<lparr>pr = mix8 k wb r (pr p), pg = mix8 k wb g (pg p), pb = mix8 k wb b (pb p),
              pa = clamp8 (255 * ao)\<rparr>)"

definition fillPath :: "platform \<Rightarrow> rgb \<Rightarrow> dot \<Rightarrow> canvas \<Rightarrow> canvas" where
  "fillPath M c d cv =
     cv\<lparr>data := map (\<lambda>(j, p). sourceOver c
                (clampNum 0 1 (coverage M d (j mod width cv) (j div width cv))) p)
              (enumerate 0 (data cv))\<rparr>"

text \<open>
  \<^verbatim>\<open>ctx.drawImage(plate, 0, 0)\<close> under \<^verbatim>\<open>globalCompositeOperation = 'multiply'\<close>, plate
  and target of the same size: the blended colour is the product of the two colours, and
  alpha composes as for \<^verbatim>\<open>source-over\<close>.
\<close>

definition multiply8 :: "num \<Rightarrow> num \<Rightarrow> byte \<Rightarrow> byte \<Rightarrow> byte" where
  "multiply8 as ab s b =
     clamp8 ((as * (1 - ab) * bnum s + as * ab * (bnum s * bnum b / 255) + (1 - as) * ab * bnum b)
             / (as + ab * (1 - as)))"

definition multiplyPixel :: "pixel \<Rightarrow> pixel \<Rightarrow> pixel" where
  "multiplyPixel s b =
     (let as = bnum (pa s) / 255; ab = bnum (pa b) / 255; ao = as + ab * (1 - as) in
      if ao = 0 then transparent
      else \<lparr>pr = multiply8 as ab (pr s) (pr b), pg = multiply8 as ab (pg s) (pg b),
            pb = multiply8 as ab (pb s) (pb b), pa = clamp8 (255 * ao)\<rparr>)"

definition drawMultiply :: "canvas \<Rightarrow> canvas \<Rightarrow> canvas" where
  "drawMultiply plate out = out\<lparr>data := map2 multiplyPixel (data plate) (data out)\<rparr>"

text \<open>A scaling \<^verbatim>\<open>drawImage(src, 0, 0, dst.width, dst.height)\<close> onto a fresh canvas.\<close>

definition drawScaled :: "platform \<Rightarrow> canvas \<Rightarrow> nat \<Rightarrow> nat \<Rightarrow> canvas" where
  "drawScaled M src w h = \<lparr>width = w, height = h, data = map (resample M src w h) [0..<w * h]\<rparr>"

section \<open>Errors\<close>

text \<open>A thrown exception aborts the run: the rest of the handler is skipped and no
  response is posted. \<open>NeverReturns\<close> stands for a loop that does not terminate.\<close>

definition bindE :: "error + 'a \<Rightarrow> ('a \<Rightarrow> error + 'b) \<Rightarrow> error + 'b" where
  "bindE m f = (case m of Inl e \<Rightarrow> Inl e | Inr v \<Rightarrow> f v)"

section \<open>The parameter bundle\<close>

text \<open>
  \<^verbatim>\<open>moduleParams\<close>: one optional entry per module (\<open>None\<close> is \<^verbatim>\<open>undefined\<close>). Inside
  an entry a parameter the worker reads through \<^verbatim>\<open>||\<close> or hands on unread is optional
  too; every other parameter has the type the host's \<^verbatim>\<open>MODULE_DEFS\<close> gives it. Colours
  are held parsed, as the three bytes of \<^verbatim>\<open>#rrggbb\<close>.
\<close>

record filmstock_params =
  fs_stock :: string
  fs_exposure :: num
  fs_halation :: num
  fs_fade :: num

record velox_params =
  vx_threshold :: num
  vx_contrast :: num

record grain_params =
  gr_amount :: num
  gr_weighted :: string

record halftone_params =
  ht_mode :: string
  ht_cellSize :: int
  ht_dotShape :: "string option"
  ht_paperColor :: rgb
  ht_masterAngle :: "num option"
  ht_angleK :: num
  ht_angleC :: num
  ht_angleM :: num
  ht_angleY :: num
  ht_duotoneColor1 :: "rgb option"
  ht_duotoneColor2 :: "rgb option"

record press_params =
  pr_feed :: string
  pr_laydown :: string
  pr_pressure :: num
  pr_slur :: "num option"

record dotgain_params =
  dg_amount :: num
  dg_shadow :: num

record registration_params =
  rg_cx :: num
  rg_cy :: num
  rg_mx :: num
  rg_my :: num
  rg_yx :: num
  rg_yy :: num
  rg_fanout :: "num option"

record inkskip_params =
  is_intensity :: num
  is_scale :: num

record paper_params =
  pp_texture :: num
  pp_fibers :: num

record inkbleed_params =
  ib_radius :: num
  ib_absorbency :: num
  ib_directionality :: "num option"

record hickeys_params =
  hk_count :: num
  hk_sizeMax :: num

record moduleParams =
  filmstock :: "filmstock_params option"
  velox :: "velox_params option"
  grain :: "grain_params option"
  halftone :: "halftone_params option"
  press :: "press_params option"
  dotgain :: "dotgain_params option"
  registration :: "registration_params option"
  inkskip :: "inkskip_params option"
  paper :: "paper_params option"
  inkbleed :: "inkbleed_params option"
  hickeys :: "hickeys_params option"

text \<open>\<^verbatim>\<open>e.data\<close>; a \<^verbatim>\<open>null\<close> bitmap is \<open>None\<close>.\<close>

record request =
  taskId :: string
  bitmap :: "canvas option"
  activeModulesList :: "string list"
  params :: moduleParams
  forExport :: bool
  previewMaxPx :: num
  upscale :: num

record response =
  resTaskId :: string
  resultBitmap :: canvas

text \<open>\<^verbatim>\<open>v || d\<close> on an optional number: \<^verbatim>\<open>undefined\<close> and \<open>0\<close> both give \<open>d\<close>.\<close>

definition orNum :: "num option \<Rightarrow> num \<Rightarrow> num" where
  "orNum v d = (case v of None \<Rightarrow> d | Some x \<Rightarrow> if x = 0 then d else x)"

definition orString :: "string option \<Rightarrow> string \<Rightarrow> string" where
  "orString v d = (case v of None \<Rightarrow> d | Some s \<Rightarrow> if s = [] then d else s)"

section \<open>Film stock\<close>

record curve =
  black :: num
  shadows :: num
  midtone :: num
  highlights :: num
  white :: num

record stock_entry =
  bw :: bool
  curveR :: curve
  curveG :: curve
  curveB :: curve
  saturation :: num
  bwWeights :: "(num \<times> num \<times> num) option"
  halRadius :: num
  halTint :: "num \<times> num \<times> num"
  halStrength :: num

definition mkCurve :: "num \<Rightarrow> num \<Rightarrow> num \<Rightarrow> num \<Rightarrow> num \<Rightarrow> curve" where
  "mkCurve a b c d e =
     \<lparr>black = lit a, shadows = lit b, midtone = lit c, highlights = lit d, white = lit e\<rparr>"

definition stock_trix :: stock_entry where
  "stock_trix =
     \<lparr>bw = True,
      curveR = mkCurve (2 / 100) (14 / 100) (52 / 100) (85 / 100) (98 / 100),
      curveG = mkCurve (2 / 100) (14 / 100) (52 / 100) (85 / 100) (98 / 100),
      curveB = mkCurve (2 / 100) (14 / 100) (52 / 100) (85 / 100) (98 / 100),
      saturation = 0, bwWeights = Some (lit (35 / 100), lit (50 / 100), lit (15 / 100)),
      halRadius = 4, halTint = (200, 200, 200), halStrength = lit (6 / 100)\<rparr>"

definition stock_hp5 :: stock_entry where
  "stock_hp5 =
     \<lparr>bw = True,
      curveR = mkCurve (3 / 100) (19 / 100) (50 / 100) (80 / 100) (96 / 100),
      curveG = mkCurve (3 / 100) (19 / 100) (50 / 100) (80 / 100) (96 / 100),
      curveB = mkCurve (3 / 100) (19 / 100) (50 / 100) (80 / 100) (96 / 100),
      saturation = 0, bwWeights = Some (lit (30 / 100), lit (55 / 100), lit (15 / 100)),
      halRadius = 4, halTint = (200, 200, 200), halStrength = lit (4 / 100)\<rparr>"

definition stock_kodachrome :: stock_entry where
  "stock_kodachrome =
     \<lparr>bw = False,
      curveR = mkCurve (3 / 100) (22 / 100) (55 / 100) (83 / 100) (97 / 100),
      curveG = mkCurve (2 / 100) (17 / 100) (48 / 100) (78 / 100) (95 / 100),
      curveB = mkCurve (1 / 100) (12 / 100) (40 / 100) (72 / 100) (92 / 100),
      saturation = lit (135 / 100), bwWeights = None,
      halRadius = 8, halTint = (255, 160, 80), halStrength = lit (15 / 100)\<rparr>"

definition stock_portra :: stock_entry where
  "stock_portra =
     \<lparr>bw = False,
      curveR = mkCurve (6 / 100) (24 / 100) (52 / 100) (78 / 100) (94 / 100),
      curveG = mkCurve (5 / 100) (22 / 100) (50 / 100) (76 / 100) (93 / 100),
      curveB = mkCurve (4 / 100) (19 / 100) (46 / 100) (73 / 100) (91 / 100),
      saturation = lit (88 / 100), bwWeights = None,
      halRadius = 10, halTint = (255, 190, 130), halStrength = lit (12 / 100)\<rparr>"

definition stock_ektachrome :: stock_entry where
  "stock_ektachrome =
     \<lparr>bw = False,
      curveR = mkCurve (2 / 100) (19 / 100) (50 / 100) (80 / 100) (96 / 100),
      curveG = mkCurve (2 / 100) (20 / 100) (52 / 100) (82 / 100) (97 / 100),
      curveB = mkCurve (3 / 100) (22 / 100) (53 / 100) (82 / 100) (97 / 100),
      saturation = lit (115 / 100), bwWeights = None,
      halRadius = 6, halTint = (240, 180, 110), halStrength = lit (8 / 100)\<rparr>"

text \<open>
  \<^verbatim>\<open>FILM_STOCKS[params.stock]\<close>. \<^verbatim>\<open>FILM_STOCKS\<close> is an object literal, so a key it does
  not own is looked up on \<^verbatim>\<open>Object.prototype\<close>: the names below yield a truthy value
  that is no stock; every other unknown key yields \<^verbatim>\<open>undefined\<close>.
\<close>

datatype stock_lookup = Found stock_entry | Inherited | Undefined

definition objectPrototypeKeys :: "string list" where
  "objectPrototypeKeys =
     [''constructor'', ''__proto__'', ''hasOwnProperty'', ''isPrototypeOf'',
      ''propertyIsEnumerable'', ''toLocaleString'', ''toString'', ''valueOf'',
      ''__defineGetter__'', ''__defineSetter__'', ''__lookupGetter__'', ''__lookupSetter__'']"

definition FILM_STOCKS :: "string \<Rightarrow> stock_lookup" where
  "FILM_STOCKS k =
     (if k = ''trix'' then Found stock_trix
      else if k = ''hp5'' then Found stock_hp5
      else if k = ''kodachrome'' then Found stock_kodachrome
      else if k = ''portra'' then Found stock_portra
      else if k = ''ektachrome'' then Found stock_ektachrome
      else if k \<in> set objectPrototypeKeys then Inherited
      else Undefined)"

definition setRGB :: "pixel \<Rightarrow> byte \<Rightarrow> byte \<Rightarrow> byte \<Rightarrow> pixel" where
  "setRGB p r g b = p\<lparr>pr := r, pg := g, pb := b\<rparr>"

definition lum255 :: "pixel \<Rightarrow> num" where
  "lum255 p = lumSum (pr p) (pg p) (pb p)"

definition curvePoints :: "curve \<Rightarrow> (num \<times> num) list" where
  "curvePoints c =
     [(0, black c), (lit (25 / 100), shadows c), (lit (5 / 10), midtone c),
      (lit (75 / 100), highlights c), (1, white c)]"

text \<open>The segment index \<open>s\<close> the inner loop of \<^verbatim>\<open>buildCurveLUT\<close> ends with.\<close>

definition curveSegment :: "(num \<times> num) list \<Rightarrow> num \<Rightarrow> nat" where
  "curveSegment pts x =
     (if x \<le> fst (pts ! 1) then 0 else if x \<le> fst (pts ! 2) then 1
      else if x \<le> fst (pts ! 3) then 2 else 3)"

definition curveLUTEntry :: "curve \<Rightarrow> num \<Rightarrow> nat \<Rightarrow> byte" where
  "curveLUTEntry c exposure i =
     (let pts = curvePoints c;
          expVal = max 0 (min 255 (fmul (of_nat i) exposure));
          x = fdiv expVal 255;
          s = curveSegment pts x;
          p0 = pts ! s; p1 = pts ! (s + 1);
          t = (if fst p0 < fst p1 then fdiv (fsub x (fst p0)) (fsub (fst p1) (fst p0)) else 0);
          t' = fmul (fmul t t) (fsub 3 (fmul 2 t))
      in toUint8 (max 0 (min 255
           (of_int (js_round (fmul (fadd (snd p0) (fmul t' (fsub (snd p1) (snd p0)))) 255))))))"

definition buildCurveLUT :: "curve \<Rightarrow> num \<Rightarrow> byte list" where
  "buildCurveLUT c exposure = map (curveLUTEntry c exposure) [0..<256]"

text \<open>
  \<^verbatim>\<open>boxBlur2D\<close>: two passes, each a sliding-window mean along the rows into \<^verbatim>\<open>tmp\<close>
  and then along the columns back into \<^verbatim>\<open>src\<close>. \<open>blurSteps\<close> is the loop over
  positions \<open>1 ..\<close> of one line, carrying the window sum and count.
\<close>

fun blurSteps :: "nat \<Rightarrow> num list \<Rightarrow> nat \<Rightarrow> num \<Rightarrow> int \<Rightarrow> nat \<Rightarrow> num list" where
  "blurSteps r xs x tot cnt 0 = []"
| "blurSteps r xs x tot cnt (Suc n) =
     (let s1 = (if x + r < length xs then fadd tot (xs ! (x + r)) else tot);
          c1 = (if x + r < length xs then cnt + 1 else cnt);
          s2 = (if r + 1 \<le> x then fsub s1 (xs ! (x - r - 1)) else s1);
          c2 = (if r + 1 \<le> x then c1 - 1 else c1)
      in f32 (fdiv s2 (of_int c2)) # blurSteps r xs (Suc x) s2 c2 n)"

definition blurLine :: "nat \<Rightarrow> num list \<Rightarrow> num list" where
  "blurLine r xs =
     (if xs = [] then []
      else let m = min (r + 1) (length xs); tot = foldl fadd 0 (take m xs)
           in f32 (fdiv tot (of_nat m)) # blurSteps r xs 1 tot (int m) (length xs - 1))"

definition blurPass :: "nat \<Rightarrow> nat \<Rightarrow> nat \<Rightarrow> num list \<Rightarrow> num list" where
  "blurPass r w h src =
     (let tmp = concat (map (\<lambda>y. blurLine r (take w (drop (y * w) src))) [0..<h]);
          cols = map (\<lambda>x. blurLine r (map (\<lambda>y. tmp ! (y * w + x)) [0..<h])) [0..<w]
      in concat (map (\<lambda>y. map (\<lambda>x. cols ! x ! y) [0..<w]) [0..<h]))"

definition boxBlur2D :: "num list \<Rightarrow> nat \<Rightarrow> nat \<Rightarrow> num \<Rightarrow> num list" where
  "boxBlur2D dat w h radius =
     (let r = js_round radius in
      if r < 1 then dat else blurPass (nat r) w h (blurPass (nat r) w h dat))"

definition halationPass :: "stock_entry \<Rightarrow> num \<Rightarrow> nat \<Rightarrow> nat \<Rightarrow> pixel list \<Rightarrow> pixel list" where
  "halationPass s hs w h d =
     (let threshold = lit (65 / 100);
          bright = map (\<lambda>p. let lum = fdiv (lum255 p) 255 in
                     f32 (if threshold < lum then fdiv (fsub lum threshold) (fsub 1 threshold)
                          else 0)) d;
          glow = boxBlur2D bright w h (halRadius s)
      in case halTint s of (t0, t1, t2) \<Rightarrow>
           map (\<lambda>(j, p). let g = fmul (glow ! j) hs in
                  if lit (1 / 1000) < g
                  then setRGB p (clamp8 (fadd (bnum (pr p)) (fmul g t0)))
                                (clamp8 (fadd (bnum (pg p)) (fmul g t1)))
                                (clamp8 (fadd (bnum (pb p)) (fmul g t2)))
                  else p)
               (enumerate 0 d))"

definition curvePass :: "byte list \<Rightarrow> byte list \<Rightarrow> byte list \<Rightarrow> pixel list \<Rightarrow> pixel list" where
  "curvePass lutR lutG lutB d =
     map (\<lambda>p. setRGB p (lutR ! unat (pr p)) (lutG ! unat (pg p)) (lutB ! unat (pb p))) d"

definition bwPass :: "num \<times> num \<times> num \<Rightarrow> pixel list \<Rightarrow> pixel list" where
  "bwPass ws d =
     (case ws of (wr, wg, wb) \<Rightarrow>
        map (\<lambda>p. let lum = fadd (fadd (f32 (fmul (bnum (pr p)) wr)) (f32 (fmul (bnum (pg p)) wg)))
                               (f32 (fmul (bnum (pb p)) wb));
                     v = clamp8 lum
                 in setRGB p v v v) d)"

definition saturationPass :: "num \<Rightarrow> pixel list \<Rightarrow> pixel list" where
  "saturationPass sat d =
     map (\<lambda>p. let lum = lum255 p in
            setRGB p (clamp8 (fadd lum (fmul (fsub (bnum (pr p)) lum) sat)))
                     (clamp8 (fadd lum (fmul (fsub (bnum (pg p)) lum) sat)))
                     (clamp8 (fadd lum (fmul (fsub (bnum (pb p)) lum) sat)))) d"

definition fadePass :: "stock_entry \<Rightarrow> num \<Rightarrow> pixel list \<Rightarrow> pixel list" where
  "fadePass s fade d =
     (let rScale = (if bw s then 1 else fadd 1 (fmul fade (lit (14 / 100))));
          gScale = (if bw s then 1 else fadd 1 (fmul fade (lit (3 / 100))));
          bScale = (if bw s then 1 else fsub 1 (fmul fade (lit (8 / 100))));
          contrast = fsub 1 (fmul fade (lit (22 / 100)));
          lift = fmul fade (lit (7 / 100));
          desat = fmul fade (lit (35 / 100));
          FADE = (\<lambda>sc v. f32 (fadd lift (fmul (fmul (fdiv (bnum v) 255) sc) contrast)))
      in map (\<lambda>p. let r = FADE rScale (pr p); g = FADE gScale (pg p); b = FADE bScale (pb p);
                      lum = fadd (fadd (fmul r (lit (299 / 1000))) (fmul g (lit (587 / 1000))))
                                 (fmul b (lit (114 / 1000)))
                  in setRGB p (clamp8 (fmul (fadd r (fmul (fsub lum r) desat)) 255))
                              (clamp8 (fmul (fadd g (fmul (fsub lum g) desat)) 255))
                              (clamp8 (fmul (fadd b (fmul (fsub lum b) desat)) 255))) d)"

definition filmStockPixels ::
  "platform \<Rightarrow> stock_entry \<Rightarrow> filmstock_params \<Rightarrow> nat \<Rightarrow> nat \<Rightarrow> pixel list \<Rightarrow> pixel list" where
  "filmStockPixels M s p w h d =
     (let exposure = mpow2 M (fs_exposure p);
          hs = fmul (fs_halation p) (halStrength s);
          fade = fs_fade p;
          lutR = buildCurveLUT (curveR s) exposure;
          lutG = buildCurveLUT (curveG s) exposure;
          lutB = buildCurveLUT (curveB s) exposure;
          d1 = (if lit (5 / 1000) < hs then halationPass s hs w h d else d);
          d2 = curvePass lutR lutG lutB d1;
          d3 = (case bwWeights s of Some ws \<Rightarrow> if bw s then bwPass ws d2 else d2 | None \<Rightarrow> d2);
          d4 = (if \<not> bw s \<and> saturation s \<noteq> 1 then saturationPass (saturation s) d3 else d3)
      in if lit (1 / 100) < fade then fadePass s fade d4 else d4)"

text \<open>
  \<^verbatim>\<open>applyFilmStock\<close>. An unknown stock id returns the canvas it was given; an inherited
  property passes the guard and fails at \<^verbatim>\<open>stock.halation.strength\<close>.
\<close>

definition applyFilmStock :: "platform \<Rightarrow> canvas \<Rightarrow> filmstock_params option \<Rightarrow> error + canvas" where
  "applyFilmStock M cv ps =
     (case ps of
        None \<Rightarrow> Inl TypeError
      | Some p \<Rightarrow>
          (case FILM_STOCKS (fs_stock p) of
             Undefined \<Rightarrow> Inr cv
           | Inherited \<Rightarrow>
               bindE (copyCanvas cv) (\<lambda>dst. bindE (getImageData dst) (\<lambda>d. Inl TypeError))
           | Found s \<Rightarrow>
               bindE (copyCanvas cv) (\<lambda>dst. bindE (getImageData dst) (\<lambda>d.
                 Inr (putImageData dst (filmStockPixels M s p (width dst) (height dst) d))))))"

section \<open>Velox\<close>

definition veloxLUTEntry :: "platform \<Rightarrow> num \<Rightarrow> num \<Rightarrow> nat \<Rightarrow> byte" where
  "veloxLUTEntry M t c i =
     (let l = fdiv (of_nat i) 255;
          l' = fdiv 1 (fadd 1 (mexp M (fmul (fmul (- (fsub l t)) c) 10)))
      in toUint8 (max 0 (min 255 (of_int (js_round (fmul l' 255))))))"

definition veloxLUT :: "platform \<Rightarrow> num \<Rightarrow> num \<Rightarrow> byte list" where
  "veloxLUT M t c = map (veloxLUTEntry M t c) [0..<256]"

text \<open>\<^verbatim>\<open>veloxLUT[lumInt]\<close>: a read outside a typed array is \<^verbatim>\<open>undefined\<close>, which the
  pixel store turns into \<open>0\<close>.\<close>

definition veloxLookup :: "byte list \<Rightarrow> int \<Rightarrow> byte" where
  "veloxLookup lut k = (if 0 \<le> k \<and> nat k < length lut then lut ! nat k else 0)"

definition veloxPixels :: "platform \<Rightarrow> velox_params \<Rightarrow> pixel list \<Rightarrow> pixel list" where
  "veloxPixels M p d =
     (let lut = veloxLUT M (vx_threshold p) (vx_contrast p) in
      map (\<lambda>q. let v = veloxLookup lut (lumInt (pr q) (pg q) (pb q)) in setRGB q v v v) d)"

definition applyVelox :: "platform \<Rightarrow> canvas \<Rightarrow> velox_params option \<Rightarrow> error + canvas" where
  "applyVelox M cv ps =
     bindE (copyCanvas cv) (\<lambda>dst. bindE (getImageData dst) (\<lambda>d.
       case ps of None \<Rightarrow> Inl TypeError
       | Some p \<Rightarrow> Inr (putImageData dst (veloxPixels M p d))))"

section \<open>Grain\<close>

text \<open>
  \<^verbatim>\<open>applyGrain\<close> draws one \<^verbatim>\<open>Math.random()\<close> per pixel. \<open>k\<close> counts the values the run
  has drawn so far; the stage returns the new count with its canvas.
\<close>

definition grainPixels :: "platform \<Rightarrow> nat \<Rightarrow> grain_params \<Rightarrow> pixel list \<Rightarrow> pixel list" where
  "grainPixels M k p d =
     (let amt = gr_amount p;
          weighted = (gr_weighted p = ''on'');
          noiseMax = fmul (fmul 2 amt) 255
      in map (\<lambda>(j, q).
            let lum = lum255 q;
                weight = (if weighted then fmul (fsub 1 (fdiv lum 255)) (lit (15 / 10)) else 1);
                noise = fmul (fmul (fsub (mrandom M (k + j)) (lit (5 / 10))) noiseMax) weight
            in setRGB q (clamp8 (fadd (bnum (pr q)) noise))
                        (clamp8 (fadd (bnum (pg q)) noise))
                        (clamp8 (fadd (bnum (pb q)) noise)))
           (enumerate 0 d))"

definition applyGrain ::
  "platform \<Rightarrow> nat \<Rightarrow> canvas \<Rightarrow> grain_params option \<Rightarrow> error + (canvas \<times> nat)" where
  "applyGrain M k cv ps =
     bindE (copyCanvas cv) (\<lambda>dst. bindE (getImageData dst) (\<lambda>d.
       case ps of None \<Rightarrow> Inl TypeError
       | Some p \<Rightarrow> Inr (putImageData dst (grainPixels M k p d), k + length d)))"

section \<open>Ink-skip map\<close>

record blob =
  blobX :: num
  blobY :: num
  blobRx :: num
  blobRy :: num
  blobV :: num

definition blobCount :: "num \<Rightarrow> int" where
  "blobCount scale = max 3 (js_round (fadd (fmul (fsub 1 scale) 12) 3))"

definition adjustedBlobCount :: "num \<Rightarrow> int" where
  "adjustedBlobCount scale = blobCount scale * 3"

text \<open>The number of blobs as the specification words it: the rounding is applied to
  the product by three, after the maximum with three.\<close>

definition spec_blobCount :: "num \<Rightarrow> int" where
  "spec_blobCount scale = js_round (fmul (max 3 (fadd (fmul (fsub 1 scale) 12) 3)) 3)"

text \<open>The loop that pushes the blobs: five draws of the generator per blob, the seed
  counting up from \<^verbatim>\<open>seedOffset * 1000\<close>.\<close>

fun blobsLoop :: "nat \<Rightarrow> nat \<Rightarrow> num \<Rightarrow> num \<Rightarrow> num \<Rightarrow> num \<Rightarrow> num \<Rightarrow> blob list" where
  "blobsLoop 0 seed w h rX rY intensity = []"
| "blobsLoop (Suc n) seed w h rX rY intensity =
     \<lparr>blobX = fmul (random seed) w,
      blobY = fmul (random (seed + 1)) h,
      blobRx = fmul rX (fadd (lit (5 / 10)) (random (seed + 2))),
      blobRy = fmul rY (fadd (lit (5 / 10)) (random (seed + 3))),
      blobV = fmul (fmul (fsub (random (seed + 4)) (lit (5 / 10))) 2) intensity\<rparr>
     # blobsLoop n (seed + 5) w h rX rY intensity"

definition inkSkipBlobs :: "nat \<Rightarrow> nat \<Rightarrow> num \<Rightarrow> num \<Rightarrow> nat \<Rightarrow> string \<Rightarrow> blob list" where
  "inkSkipBlobs w h intensity scale seedOffset feedDir =
     (let baseRadius = fmul (fmul scale (of_nat (min w h))) (lit (6 / 10));
          rX = (if feedDir = ''vertical'' then fmul baseRadius (lit (15 / 100))
                else fmul baseRadius (lit (25 / 10)));
          rY = (if feedDir = ''vertical'' then fmul baseRadius (lit (25 / 10))
                else fmul baseRadius (lit (15 / 100)))
      in blobsLoop (nat (adjustedBlobCount scale)) (seedOffset * 1000) (of_nat w) (of_nat h)
           rX rY intensity)"

text \<open>
  One blob's share of a pixel: the pair added to \<^verbatim>\<open>(sum, wsum)\<close>. A blob with a zero
  radius makes the quotient infinite or \<open>NaN\<close>, the test \<^verbatim>\<open>dist < 1\<close> fails and
  nothing is added.
\<close>

definition blobShare :: "platform \<Rightarrow> blob \<Rightarrow> nat \<Rightarrow> nat \<Rightarrow> (num \<times> num) option" where
  "blobShare M b x y =
     (let dx = fsub (of_nat x) (blobX b); dy = fsub (of_nat y) (blobY b);
          qx = fmul (blobRx b) (blobRx b); qy = fmul (blobRy b) (blobRy b)
      in if qx = 0 \<or> qy = 0 then None
         else let dist = msqrt M (fadd (fdiv (fmul dx dx) qx) (fdiv (fmul dy dy) qy))
              in if dist < 1 then Some (fmul (blobV b) (fsub 1 dist), fsub 1 dist) else None)"

definition skipValue :: "platform \<Rightarrow> blob list \<Rightarrow> num \<Rightarrow> nat \<Rightarrow> nat \<Rightarrow> num" where
  "skipValue M blobs intensity x y =
     (case foldl (\<lambda>(s, ws) b. case blobShare M b x y of
                                None \<Rightarrow> (s, ws)
                              | Some (v, w2) \<Rightarrow> (fadd s v, fadd ws w2)) (0, 0) blobs
      of (s, ws) \<Rightarrow>
        if 0 < ws then f32 (max (- intensity) (min intensity (fdiv s ws))) else 0)"

definition buildInkSkipMap ::
  "platform \<Rightarrow> nat \<Rightarrow> nat \<Rightarrow> num \<Rightarrow> num \<Rightarrow> nat \<Rightarrow> string \<Rightarrow> num list" where
  "buildInkSkipMap M w h intensity scale seedOffset feedDir =
     (let blobs = inkSkipBlobs w h intensity scale seedOffset feedDir in
      map (\<lambda>j. skipValue M blobs intensity (j mod w) (j div w)) [0..<w * h])"

section \<open>Paper map\<close>

text \<open>A \<^verbatim>\<open>+=\<close> on a \<^verbatim>\<open>Float32Array\<close> cell; outside the array it does nothing.\<close>

definition addAt :: "int \<Rightarrow> num \<Rightarrow> num list \<Rightarrow> num list" where
  "addAt i v m = (if 0 \<le> i \<and> nat i < length m then m[nat i := f32 (fadd (m ! nat i) v)] else m)"

definition fiberStroke :: "string \<Rightarrow> int \<Rightarrow> int \<Rightarrow> int \<Rightarrow> int \<Rightarrow> int \<Rightarrow> num \<Rightarrow> num list \<Rightarrow> num list" where
  "fiberStroke feedDir w h fx fy fLen fVal m =
     (if feedDir = ''horizontal''
      then foldl (\<lambda>m' dx. addAt (fy * w + fx + dx)
                    (fmul fVal (fsub 1 (fdiv (of_int dx) (of_int fLen)))) m')
             m (map int [0..<nat (min fLen (w - fx))])
      else foldl (\<lambda>m' dy. addAt ((fy + dy) * w + fx)
                    (fmul fVal (fsub 1 (fdiv (of_int dy) (of_int fLen)))) m')
             m (map int [0..<nat (min fLen (h - fy))]))"

text \<open>The fiber loop: four \<^verbatim>\<open>Math.random()\<close> draws per fiber, in the order
  \<^verbatim>\<open>fy\<close>, \<^verbatim>\<open>fx\<close>, \<^verbatim>\<open>fLen\<close>, \<^verbatim>\<open>fVal\<close>.\<close>

fun fibersLoop ::
  "platform \<Rightarrow> nat \<Rightarrow> nat \<Rightarrow> nat \<Rightarrow> nat \<Rightarrow> num \<Rightarrow> string \<Rightarrow> num list \<Rightarrow> num list \<times> nat" where
  "fibersLoop M 0 k w h fibers feedDir m = (m, k)"
| "fibersLoop M (Suc n) k w h fibers feedDir m =
     (let fy = \<lfloor>fmul (mrandom M k) (of_nat h)\<rfloor>;
          fx = \<lfloor>fmul (mrandom M (k + 1)) (of_nat w)\<rfloor>;
          fLen = \<lfloor>fmul (fmul (mrandom M (k + 2)) (of_nat (max w h))) (lit (2 / 10))\<rfloor> + 10;
          fVal = fmul (fmul (fsub (mrandom M (k + 3)) (lit (5 / 10))) fibers) 2
      in fibersLoop M n (k + 4) w h fibers feedDir
           (fiberStroke feedDir (int w) (int h) fx fy fLen fVal m))"

definition buildPaperMap ::
  "platform \<Rightarrow> nat \<Rightarrow> nat \<Rightarrow> nat \<Rightarrow> num \<Rightarrow> num \<Rightarrow> string \<Rightarrow> num list \<times> nat" where
  "buildPaperMap M k w h texture fibers feedDir =
     (let base = map (\<lambda>j. f32 (fmul (fmul (fsub (mrandom M (k + j)) (lit (5 / 10))) 2) texture))
                   [0..<w * h];
          k1 = k + w * h
      in if 0 < fibers
         then fibersLoop M (nat (js_round (fmul (fmul (of_nat (max w h)) fibers) (lit (3 / 10)))))
                k1 w h fibers feedDir base
         else (base, k1))"

section \<open>Hickeys\<close>

record stamp =
  hickeyX :: num
  hickeyY :: num
  outerR :: num
  innerR :: num

fun hickeyLoop :: "nat \<Rightarrow> nat \<Rightarrow> num \<Rightarrow> num \<Rightarrow> num \<Rightarrow> stamp list" where
  "hickeyLoop 0 seed w h sizeMax = []"
| "hickeyLoop (Suc n) seed w h sizeMax =
     (let outer = fadd 2 (fmul (random (seed + 2)) (fsub sizeMax 2)) in
      \<lparr>hickeyX = fmul (random seed) w,
       hickeyY = fmul (random (seed + 1)) h,
       outerR = outer,
       innerR = fmul outer (fadd (lit (35 / 100)) (fmul (random (seed + 3)) (lit (25 / 100))))\<rparr>
      # hickeyLoop n (seed + 4) w h sizeMax)"

text \<open>The defects \<^verbatim>\<open>applyPlateHickeys\<close> stamps, in order.\<close>

definition hickeyStamps :: "nat \<Rightarrow> nat \<Rightarrow> hickeys_params \<Rightarrow> nat \<Rightarrow> stamp list" where
  "hickeyStamps w h ps plateIndex =
     (let count = js_round (hk_count ps); sizeMax = hk_sizeMax ps in
      if count < 1 \<or> sizeMax < 2 then []
      else hickeyLoop (nat count) (plateIndex * 5000) (of_nat w) (of_nat h) sizeMax)"

definition ringColor :: "rgb \<Rightarrow> rgb" where
  "ringColor c =
     (case c of (r, g, b) \<Rightarrow>
        let dk = (\<lambda>v. word_of_int (max 0 (min 255 (js_round (fmul (bnum v) (lit (6 / 10)))))))
        in (dk r, dk g, dk b))"

definition disk :: "num \<Rightarrow> num \<Rightarrow> num \<Rightarrow> dot" where
  "disk x y r = \<lparr>dotX = x, dotY = y, dotScaleX = 1, dotScaleY = 1, dotPath = Circle r\<rparr>"

definition white8 :: rgb where
  "white8 = (255, 255, 255)"

text \<open>\<^verbatim>\<open>applyPlateHickeys\<close>: \<^verbatim>\<open>parseCSSColor\<close> of an absent ink colour throws.\<close>

definition applyPlateHickeys ::
  "platform \<Rightarrow> canvas \<Rightarrow> nat \<Rightarrow> nat \<Rightarrow> hickeys_params \<Rightarrow> rgb option \<Rightarrow> nat \<Rightarrow> error + canvas" where
  "applyPlateHickeys M cv w h ps inkColor plateIndex =
     (if js_round (hk_count ps) < 1 \<or> hk_sizeMax ps < 2 then Inr cv
      else case inkColor of
             None \<Rightarrow> Inl TypeError
           | Some c \<Rightarrow>
               Inr (foldl (\<lambda>cv' s.
                       fillPath M white8 (disk (hickeyX s) (hickeyY s) (innerR s))
                         (fillPath M (ringColor c) (disk (hickeyX s) (hickeyY s) (outerR s)) cv'))
                     cv (hickeyStamps w h ps plateIndex)))"

section \<open>Ink bleed\<close>

definition bleedKernel :: "platform \<Rightarrow> int \<Rightarrow> num \<Rightarrow> num \<Rightarrow> (int \<times> int \<times> num) list" where
  "bleedKernel M radius stretch ang =
     (let cosA = mcos M ang; sinA = msin M ang in
      concat (map (\<lambda>y. concat (map (\<lambda>x.
        let rx = fsub (fmul (of_int x) cosA) (fmul (of_int y) sinA);
            ry = fadd (fmul (of_int x) sinA) (fmul (of_int y) cosA);
            dist = msqrt M (fadd (fmul rx rx) (fmul (fdiv ry stretch) (fdiv ry stretch)))
        in if dist \<le> of_int radius then [(x, y, fsub 1 (fdiv dist (of_int radius)))] else [])
        [- radius..radius])) [- radius..radius]))"

definition bleedDensity :: "rgb \<Rightarrow> pixel \<Rightarrow> num" where
  "bleedDensity pc q =
     (case pc of (p0, p1, p2) \<Rightarrow>
        let dr = fdiv (fsub (bnum (pr q)) (bnum p0)) 255;
            dg = fdiv (fsub (bnum (pg q)) (bnum p1)) 255;
            db = fdiv (fsub (bnum (pb q)) (bnum p2)) 255;
            val = fsub 1 (fadd (fadd (fadd 1 (fmul dr (lit (299 / 1000)))) (fmul dg (lit (587 / 1000))))
                               (fmul db (lit (114 / 1000))))
        in f32 (max 0 (min 1 val)))"

definition bleedSums ::
  "(int \<times> int \<times> num) list \<Rightarrow> num list \<Rightarrow> pixel list \<Rightarrow> nat \<Rightarrow> nat \<Rightarrow> int \<Rightarrow> int
     \<Rightarrow> num \<times> num \<times> num \<times> num" where
  "bleedSums kern density src w h x y =
     foldl (\<lambda>(sD, sR, sG, sB) (dx, dy, kw).
              let px = max 0 (min (int w - 1) (x + dx));
                  py = max 0 (min (int h - 1) (y + dy));
                  i = nat (py * int w + px)
              in (fadd sD (fmul (density ! i) kw),
                  fadd sR (fmul (bnum (pr (src ! i))) kw),
                  fadd sG (fmul (bnum (pg (src ! i))) kw),
                  fadd sB (fmul (bnum (pb (src ! i))) kw)))
       (0, 0, 0, 0) kern"

text \<open>
  The pixels \<^verbatim>\<open>applyInkBleed\<close> writes. Were the kernel weights to sum to zero, every
  blurred value would be \<open>NaN\<close> and every colour byte stored as \<open>0\<close>.
\<close>

definition inkBleedPixels ::
  "platform \<Rightarrow> nat \<Rightarrow> nat \<Rightarrow> int \<Rightarrow> num \<Rightarrow> num \<Rightarrow> rgb \<Rightarrow> string \<Rightarrow> pixel list \<Rightarrow> pixel list" where
  "inkBleedPixels M w h radius absorbency dir pc feedDir src =
     (let ang = (if feedDir = ''vertical'' then fdiv MATH_PI 2 else 0);
          stretch = max (lit (1 / 10)) (fsub 1 dir);
          kern = bleedKernel M radius stretch ang;
          kSum = foldl (\<lambda>s (dx, dy, kw). fadd s kw) 0 kern;
          density = map (bleedDensity pc) src
      in map (\<lambda>(j, q).
            if kSum = 0 then setRGB q 0 0 0
            else case bleedSums kern density src w h (int (j mod w)) (int (j div w)) of
              (sD, sR, sG, sB) \<Rightarrow>
                let idx = \<lfloor>min 1023 (max 0 (fmul (f32 (fdiv sD kSum)) 1023))\<rfloor>;
                    densityCurve = f32 (msqrt M (fdiv (of_int idx) 1023));
                    blend = clampNum 0 1 (fmul (fmul densityCurve absorbency) (lit (15 / 10)))
                in setRGB q
                     (clamp8 (fadd (bnum (pr q)) (fmul (fsub (f32 (fdiv sR kSum)) (bnum (pr q))) blend)))
                     (clamp8 (fadd (bnum (pg q)) (fmul (fsub (f32 (fdiv sG kSum)) (bnum (pg q))) blend)))
                     (clamp8 (fadd (bnum (pb q)) (fmul (fsub (f32 (fdiv sB kSum)) (bnum (pb q))) blend))))
           (enumerate 0 src))"

definition applyInkBleed ::
  "platform \<Rightarrow> canvas \<Rightarrow> nat \<Rightarrow> nat \<Rightarrow> inkbleed_params option \<Rightarrow> rgb \<Rightarrow> string
     \<Rightarrow> error + canvas" where
  "applyInkBleed M out w h ps paperColor feedDir =
     (case ps of
        None \<Rightarrow> Inl TypeError
      | Some p \<Rightarrow>
          let radius = js_round (ib_radius p) in
          if radius < 1 then Inr out
          else bindE (getImageData out) (\<lambda>src.
                 Inr (putImageData out
                   (inkBleedPixels M w h radius (ib_absorbency p) (orNum (ib_directionality p) 0)
                      paperColor feedDir src))))"

section \<open>Paper tooth\<close>

definition paperPixels :: "num \<Rightarrow> num \<Rightarrow> rgb \<Rightarrow> num list \<Rightarrow> pixel list \<Rightarrow> pixel list" where
  "paperPixels pressure texture pc paperMap od =
     (case pc of (p0, p1, p2) \<Rightarrow>
        map (\<lambda>(j, q).
          let lum = fdiv (lum255 q) 255;
              pVal = paperMap ! j;
              q1 = (if lit (4 / 10) < lum
                    then let hw = clampNum 0 1 (fdiv (fsub lum (lit (4 / 10))) (lit (6 / 10)));
                             noise = fmul (fmul pVal hw) 150
                         in setRGB q (clamp8 (fadd (bnum (pr q)) noise))
                                     (clamp8 (fadd (bnum (pg q)) noise))
                                     (clamp8 (fadd (bnum (pb q)) noise))
                    else q)
          in if pressure < 1 \<and> lum < lit (6 / 10) \<and> 0 < pVal
             then let sw = clampNum 0 1 (fdiv (fsub (lit (6 / 10)) lum) (lit (6 / 10)));
                      safeTexture = max (lit (1 / 1000)) texture;
                      mottleStrength = clampNum 0 1
                        (fmul (fmul (fmul (fsub 1 pressure) (fdiv pVal safeTexture)) sw) 2)
                  in setRGB q1
                       (clamp8 (fadd (bnum (pr q1)) (fmul (fsub (bnum p0) (bnum (pr q1))) mottleStrength)))
                       (clamp8 (fadd (bnum (pg q1)) (fmul (fsub (bnum p1) (bnum (pg q1))) mottleStrength)))
                       (clamp8 (fadd (bnum (pb q1)) (fmul (fsub (bnum p2) (bnum (pb q1))) mottleStrength)))
             else q1)
         (enumerate 0 od))"

text \<open>The \<^verbatim>\<open>if (active.has('paper'))\<close> block of the message handler.\<close>

definition applyPaper ::
  "platform \<Rightarrow> nat \<Rightarrow> canvas \<Rightarrow> nat \<Rightarrow> nat \<Rightarrow> paper_params option \<Rightarrow> num \<Rightarrow> rgb \<Rightarrow> string
     \<Rightarrow> error + canvas" where
  "applyPaper M k out w h ps pressure paperColor feedDir =
     bindE (getImageData out) (\<lambda>od.
       case ps of
         None \<Rightarrow> Inl TypeError
       | Some pp \<Rightarrow>
           (case buildPaperMap M k w h (pp_texture pp) (pp_fibers pp) feedDir of
              (paperMap, k') \<Rightarrow>
                Inr (putImageData out (paperPixels pressure (pp_texture pp) paperColor paperMap od))))"

section \<open>Resampling\<close>

text \<open>\<^verbatim>\<open>new OffscreenCanvas(w, h)\<close> rejects a negative or non-numeric size with a
  \<^verbatim>\<open>TypeError\<close>; a scaling draw of a canvas with a zero dimension throws.\<close>

definition getPreviewCanvas :: "platform \<Rightarrow> canvas \<Rightarrow> num \<Rightarrow> error + canvas" where
  "getPreviewCanvas M sourceCanvas maxPx =
     (let w = width sourceCanvas; h = height sourceCanvas; maxDim = max w h in
      if of_nat maxDim \<le> maxPx then copyCanvas sourceCanvas
      else if maxDim = 0 then Inl TypeError
      else let scale = fdiv maxPx (of_nat maxDim);
               w' = js_round (fmul (of_nat w) scale);
               h' = js_round (fmul (of_nat h) scale)
           in if w' < 0 \<or> h' < 0 then Inl TypeError
              else if w = 0 \<or> h = 0 then Inl InvalidStateError
              else Inr (drawScaled M sourceCanvas (nat w') (nat h')))"

definition applyUpscale :: "platform \<Rightarrow> canvas \<Rightarrow> num \<Rightarrow> error + canvas" where
  "applyUpscale M cv s =
     (let scale = js_round s in
      if scale \<le> 1 then Inr cv
      else if width cv = 0 \<or> height cv = 0 then Inl InvalidStateError
      else Inr (drawScaled M cv (width cv * nat scale) (height cv * nat scale)))"

section \<open>Plates\<close>

text \<open>The value functions of \<^verbatim>\<open>cmykGet\<close> and the inverted luminance of plate 1, by name.\<close>

datatype valuefn = GetC | GetM | GetY | GetK | GetLum | GetInvLum

definition sepK :: "byte \<Rightarrow> byte \<Rightarrow> byte \<Rightarrow> num" where
  "sepK r g b = fsub 1 (max (fdiv (bnum r) 255) (max (fdiv (bnum g) 255) (fdiv (bnum b) 255)))"

definition sepInk :: "num \<Rightarrow> num \<Rightarrow> num" where
  "sepInk v k = (if 1 \<le> k then 0 else fdiv (fsub (fsub 1 v) k) (fsub 1 k))"

fun applyValue :: "valuefn \<Rightarrow> byte \<Rightarrow> byte \<Rightarrow> byte \<Rightarrow> num" where
  "applyValue GetC r g b = sepInk (fdiv (bnum r) 255) (sepK r g b)"
| "applyValue GetM r g b = sepInk (fdiv (bnum g) 255) (sepK r g b)"
| "applyValue GetY r g b = sepInk (fdiv (bnum b) 255) (sepK r g b)"
| "applyValue GetK r g b = sepK r g b"
| "applyValue GetLum r g b = fdiv (lumSum r g b) 255"
| "applyValue GetInvLum r g b = fsub 1 (fdiv (lumSum r g b) 255)"

record channel =
  ch_id :: string
  color :: "rgb option"
  angleDeg :: num
  offsetX :: num
  offsetY :: num
  getValue :: valuefn

text \<open>The options object \<^verbatim>\<open>{ ...ch, dotGain: .., plateIndex: index + 1 }\<close>.\<close>

record plateOpts = channel +
  dotGain :: num
  shadowFill :: num
  dotShape :: string
  cellSize :: int
  inkSkipMap :: "num list option"
  optHickeys :: "hickeys_params option"
  fanout :: "num option"
  feedDir :: string
  slur :: "num option"
  plateIndex :: nat

text \<open>Lines 446 to 448 of \<^verbatim>\<open>renderPlate\<close>: dot gain, shadow fill, then one clamp.\<close>

definition dotGainStep :: "num \<Rightarrow> num \<Rightarrow> num" where
  "dotGainStep dg ink = fadd ink (fmul (fmul (fmul dg ink) (fsub 1 ink)) 2)"

definition shadowFillStep :: "num \<Rightarrow> num \<Rightarrow> num" where
  "shadowFillStep sf ink =
     (if lit (75 / 100) < ink \<and> 0 < sf
      then fadd ink (fmul (fmul (fsub 1 ink) sf) (fdiv (fsub ink (lit (75 / 100))) (lit (25 / 100))))
      else ink)"

definition gainedInk :: "num \<Rightarrow> num \<Rightarrow> num \<Rightarrow> num" where
  "gainedInk dg sf ink = clampNum 0 1 (shadowFillStep sf (dotGainStep dg ink))"


definition maxStretch :: "num option \<Rightarrow> nat \<Rightarrow> num" where
  "maxStretch fan idx = fmul (orNum fan 0) (fdiv (of_int (int idx - 1)) 3)"

definition stretchFactorX :: "plateOpts \<Rightarrow> nat \<Rightarrow> num" where
  "stretchFactorX opts w =
     (if feedDir opts = ''vertical''
      then fdiv (maxStretch (fanout opts) (plateIndex opts)) (fdiv (of_nat w) 2) else 0)"

definition stretchFactorY :: "plateOpts \<Rightarrow> nat \<Rightarrow> num" where
  "stretchFactorY opts h =
     (if feedDir opts = ''horizontal''
      then fdiv (maxStretch (fanout opts) (plateIndex opts)) (fdiv (of_nat h) 2) else 0)"

definition pixelAt :: "pixel list \<Rightarrow> nat \<Rightarrow> pixel" where
  "pixelAt d i = (if i < length d then d ! i else transparent)"

definition halfDiag :: "platform \<Rightarrow> nat \<Rightarrow> nat \<Rightarrow> int \<Rightarrow> int" where
  "halfDiag M w h cs = \<lceil>fdiv (msqrt M (of_nat (w * w + h * h))) 2\<rceil> + cs"

text \<open>The values a grid loop \<^verbatim>\<open>for (g = -halfDiag; g < halfDiag; g += cellSize)\<close> visits,
  for a positive step.\<close>

function gridFrom :: "int \<Rightarrow> int \<Rightarrow> int \<Rightarrow> int list" where
  "gridFrom g stop cs = (if g < stop \<and> 0 < cs then g # gridFrom (g + cs) stop cs else [])"
  by pat_completeness auto
termination
  by (relation "measure (\<lambda>(g, stop, cs). nat (stop - g))") auto

text \<open>
  One grid cell: \<open>None\<close> when the loop body hits a \<^verbatim>\<open>continue\<close>, else the dot it
  fills. The sample byte read is never outside a \<open>w \<times> h\<close> raster.
\<close>

definition cellDot ::
  "platform \<Rightarrow> pixel list \<Rightarrow> nat \<Rightarrow> nat \<Rightarrow> plateOpts \<Rightarrow> int \<Rightarrow> int \<Rightarrow> dot option" where
  "cellDot M src w h opts gy gx =
     (let cx = fdiv (of_nat w) 2; cy = fdiv (of_nat h) 2;
          rad = fdiv (fmul (angleDeg opts) MATH_PI) 180;
          cosA = mcos M rad; sinA = msin M rad;
          cs = of_int (cellSize opts);
          gcx = fadd (of_int gx) (fmul cs (lit (5 / 10)));
          gcy = fadd (of_int gy) (fmul cs (lit (5 / 10)));
          imgX = fsub (fadd cx (fmul gcx cosA)) (fmul gcy sinA);
          imgY = fadd (fadd cy (fmul gcx sinA)) (fmul gcy cosA)
      in if imgX < 0 \<or> of_nat w \<le> imgX \<or> imgY < 0 \<or> of_nat h \<le> imgY then None
         else
           let sx = nat (max 0 (min (int w - 1) (js_round imgX)));
               sy = nat (max 0 (min (int h - 1) (js_round imgY)));
               q = pixelAt src (sy * w + sx);
               ink0 = clampNum 0 1 (applyValue (getValue opts) (pr q) (pg q) (pb q));
               ink1 = gainedInk (dotGain opts) (shadowFill opts) ink0;
               ink = (case inkSkipMap opts of
                        None \<Rightarrow> ink1
                      | Some m \<Rightarrow>
                          clampNum 0 1 (fmul ink1
                            (fsub 1 (if sy * w + sx < length m then m ! (sy * w + sx) else 0))));
               maxR = fmul (fmul cs (lit (5 / 10))) (lit (98 / 100));
               radius = fmul maxR (msqrt M ink)
           in if radius < lit (3 / 10) then None
              else
                let dx = fadd (fadd imgX (offsetX opts)) (fmul (fsub imgX cx) (stretchFactorX opts w));
                    dy = fadd (fadd imgY (offsetY opts)) (fmul (fsub imgY cy) (stretchFactorY opts h));
                    slurOn = (case slur opts of None \<Rightarrow> False | Some s \<Rightarrow> 0 < s);
                    scaleX = (if feedDir opts = ''horizontal'' then fadd 1 (orNum (slur opts) 0) else 1);
                    scaleY = (if feedDir opts = ''vertical'' then fadd 1 (orNum (slur opts) 0) else 1)
                in Some \<lparr>dotX = dx, dotY = dy,
                         dotScaleX = (if slurOn then scaleX else 1),
                         dotScaleY = (if slurOn then scaleY else 1),
                         dotPath =
                           (if dotShape opts = ''diamond'' then Diamond radius
                            else if dotShape opts = ''line''
                            then Line (max (lit (3 / 10)) (min maxR (fmul radius (lit (12 / 10)))))
                                   (cellSize opts) rad
                            else Circle radius)\<rparr>)"

text \<open>The dots of a plate in the order the two nested loops fill them.\<close>

definition plateDots :: "platform \<Rightarrow> pixel list \<Rightarrow> nat \<Rightarrow> nat \<Rightarrow> plateOpts \<Rightarrow> dot list" where
  "plateDots M src w h opts =
     (let stop = halfDiag M w h (cellSize opts); grid = gridFrom (- stop) stop (cellSize opts)
      in concat (map (\<lambda>gy. List.map_filter (cellDot M src w h opts gy) grid) grid))"

text \<open>
  \<^verbatim>\<open>renderPlate\<close>. With a step \<^verbatim>\<open>cellSize \<le> 0\<close> and a non-empty range the grid loop
  never ends. An absent ink colour leaves \<^verbatim>\<open>fillStyle\<close> at the white of the background.
\<close>

definition renderPlate ::
  "platform \<Rightarrow> pixel list \<Rightarrow> nat \<Rightarrow> nat \<Rightarrow> plateOpts \<Rightarrow> error + canvas" where
  "renderPlate M src w h opts =
     (let plate0 = fillRect white8 (newCanvas w h);
          ink = (case color opts of None \<Rightarrow> white8 | Some c \<Rightarrow> c)
      in if cellSize opts \<le> 0 \<and> 0 < halfDiag M w h (cellSize opts) then Inl NeverReturns
         else
           let plate1 = foldl (\<lambda>cv d. fillPath M ink d cv) plate0 (plateDots M src w h opts)
           in case optHickeys opts of
                None \<Rightarrow> Inr plate1
              | Some hp \<Rightarrow> applyPlateHickeys M plate1 w h hp (color opts) (plateIndex opts))"

section \<open>The message handler\<close>

text \<open>\<^verbatim>\<open>laydown.split('-')\<close> and \<^verbatim>\<open>order.indexOf(id)\<close>.\<close>

fun splitOn :: "char \<Rightarrow> string \<Rightarrow> string list" where
  "splitOn c [] = [[]]"
| "splitOn c (x # xs) =
     (if x = c then [] # splitOn c xs
      else case splitOn c xs of [] \<Rightarrow> [[x]] | piece # pieces \<Rightarrow> (x # piece) # pieces)"

fun indexFrom :: "int \<Rightarrow> string list \<Rightarrow> string \<Rightarrow> int" where
  "indexFrom i [] s = - 1"
| "indexFrom i (x # xs) s = (if x = s then i else indexFrom (i + 1) xs s)"

definition indexOf :: "string list \<Rightarrow> string \<Rightarrow> int" where
  "indexOf xs s = indexFrom 0 xs s"

definition defaultDotgain :: dotgain_params where
  "defaultDotgain = \<lparr>dg_amount = 0, dg_shadow = 0\<rparr>"

definition defaultRegistration :: registration_params where
  "defaultRegistration =
     \<lparr>rg_cx = 0, rg_cy = 0, rg_mx = 0, rg_my = 0, rg_yx = 0, rg_yy = 0, rg_fanout = Some 0\<rparr>"

definition mkChannel :: "string \<Rightarrow> rgb option \<Rightarrow> num \<Rightarrow> num \<Rightarrow> num \<Rightarrow> valuefn \<Rightarrow> channel" where
  "mkChannel i c a x y v =
     \<lparr>ch_id = i, color = c, angleDeg = a, offsetX = x, offsetY = y, getValue = v\<rparr>"

text \<open>
  The array \<^verbatim>\<open>channels\<close> as it stands when the plates are drawn. Only the four-plate
  branch sorts it, by the position of each id in the laydown string; the sort is stable.
  \<open>reg\<close> is \<^verbatim>\<open>undefined\<close> when the registration module is active without an entry,
  and reading an offset from it throws.
\<close>

definition cmykChannels :: "halftone_params \<Rightarrow> registration_params \<Rightarrow> num \<Rightarrow> channel list" where
  "cmykChannels ht r mAng =
     [mkChannel ''c'' (Some (0x00, 0x9f, 0xce)) (fadd (ht_angleC ht) mAng) (rg_cx r) (rg_cy r) GetC,
      mkChannel ''m'' (Some (0xd4, 0x00, 0x6a)) (fadd (ht_angleM ht) mAng) (rg_mx r) (rg_my r) GetM,
      mkChannel ''y'' (Some (0xf5, 0xd8, 0x00)) (fadd (ht_angleY ht) mAng) (rg_yx r) (rg_yy r) GetY,
      mkChannel ''k'' (Some (0x10, 0x0c, 0x08)) (fadd (ht_angleK ht) mAng) 0 0 GetK]"

definition laydownOf :: "press_params option \<Rightarrow> string" where
  "laydownOf ps = (case ps of Some p \<Rightarrow> pr_laydown p | None \<Rightarrow> ''k-c-m-y'')"

definition setupChannels ::
  "halftone_params \<Rightarrow> registration_params option \<Rightarrow> press_params option \<Rightarrow> error + channel list" where
  "setupChannels ht reg ps =
     (let mAng = orNum (ht_masterAngle ht) 0 in
      if ht_mode ht = ''bw''
      then Inr [mkChannel ''k''
                  (Some (case ht_duotoneColor1 ht of None \<Rightarrow> (0, 0, 0) | Some c \<Rightarrow> c))
                  (fadd (ht_angleK ht) mAng) 0 0 GetInvLum]
      else if ht_mode ht = ''duotone''
      then (case reg of
              None \<Rightarrow> Inl TypeError
            | Some r \<Rightarrow>
                Inr [mkChannel ''2'' (ht_duotoneColor2 ht) (fadd (ht_angleC ht) mAng)
                       (rg_cx r) (rg_cy r) GetLum,
                     mkChannel ''1'' (ht_duotoneColor1 ht) (fadd (ht_angleK ht) mAng)
                       0 0 GetInvLum])
      else (case reg of
              None \<Rightarrow> Inl TypeError
            | Some r \<Rightarrow>
                let order = splitOn CHR ''-'' (laydownOf ps)
                in Inr (sort_key (\<lambda>ch. indexOf order (ch_id ch)) (cmykChannels ht r mAng))))"

text \<open>
  The body of \<^verbatim>\<open>channels.forEach((ch, index) => ..)\<close> up to the call of
  \<^verbatim>\<open>renderPlate\<close>: the ink-skip map, then the options object.
\<close>

definition plateOptions ::
  "platform \<Rightarrow> bool \<Rightarrow> inkskip_params option \<Rightarrow> dotgain_params option
     \<Rightarrow> registration_params option \<Rightarrow> hickeys_params option \<Rightarrow> string \<Rightarrow> int \<Rightarrow> string
     \<Rightarrow> num option \<Rightarrow> nat \<Rightarrow> nat \<Rightarrow> channel \<Rightarrow> nat \<Rightarrow> error + plateOpts" where
  "plateOptions M skipActive sk dg reg hickeysConf shape cs feed sl w h ch index =
     bindE (if skipActive
            then (case sk of
                    None \<Rightarrow> Inl TypeError
                  | Some s \<Rightarrow>
                      Inr (Some (buildInkSkipMap M w h (is_intensity s) (is_scale s) (index + 1) feed)))
            else Inr None) (\<lambda>skipMap.
       case dg of
         None \<Rightarrow> Inl TypeError
       | Some d \<Rightarrow>
           (case reg of
              None \<Rightarrow> Inl TypeError
            | Some r \<Rightarrow>
                Inr \<lparr>ch_id = ch_id ch, color = color ch, angleDeg = angleDeg ch,
                     offsetX = offsetX ch, offsetY = offsetY ch, getValue = getValue ch,
                     dotGain = dg_amount d, shadowFill = dg_shadow d, dotShape = shape,
                     cellSize = cs, inkSkipMap = skipMap, optHickeys = hickeysConf,
                     fanout = rg_fanout r, feedDir = feed, slur = sl,
                     plateIndex = index + 1\<rparr>))"

text \<open>The options of every plate of a run, in drawing order.\<close>

definition platePlan ::
  "platform \<Rightarrow> string set \<Rightarrow> moduleParams \<Rightarrow> halftone_params \<Rightarrow> nat \<Rightarrow> nat \<Rightarrow> channel list
     \<Rightarrow> (error + plateOpts) list" where
  "platePlan M active P ht w h channels =
     (let feed = (case press P of Some p \<Rightarrow> pr_feed p | None \<Rightarrow> ''vertical'');
          dg = (if ''dotgain'' \<in> active then dotgain P else Some defaultDotgain);
          reg = (if ''registration'' \<in> active then registration P else Some defaultRegistration);
          hickeysConf = (if ''hickeys'' \<in> active then hickeys P else None);
          sl = (case press P of Some p \<Rightarrow> pr_slur p | None \<Rightarrow> Some 0)
      in map (\<lambda>(index, ch).
            plateOptions M (''inkskip'' \<in> active) (inkskip P) dg reg hickeysConf
              (orString (ht_dotShape ht) ''circle'') (ht_cellSize ht) feed sl w h ch index)
           (enumerate 0 channels))"

text \<open>The loop itself: each plate is rendered and multiplied onto \<^verbatim>\<open>out\<close> before the
  next one is set up; the first exception ends it.\<close>

fun drawPlates ::
  "platform \<Rightarrow> pixel list \<Rightarrow> nat \<Rightarrow> nat \<Rightarrow> (error + plateOpts) list \<Rightarrow> canvas \<Rightarrow> error + canvas" where
  "drawPlates M src w h [] out = Inr out"
| "drawPlates M src w h (job # jobs) out =
     bindE job (\<lambda>opts. bindE (renderPlate M src w h opts) (\<lambda>plate.
       drawPlates M src w h jobs (drawMultiply plate out)))"

text \<open>Lines 574 to 590: the working canvas after the optional film stock, velox and
  grain stages, with the number of \<^verbatim>\<open>Math.random()\<close> values drawn.\<close>

definition prepress :: "platform \<Rightarrow> request \<Rightarrow> error + (canvas \<times> nat)" where
  "prepress M e =
     (let active = set (activeModulesList e); P = params e in
      case bitmap e of
        None \<Rightarrow> Inl TypeError
      | Some bmp \<Rightarrow>
          let sourceCanvas = (newCanvas (width bmp) (height bmp))\<lparr>data := data bmp\<rparr> in
          bindE (if forExport e then Inr sourceCanvas
                 else getPreviewCanvas M sourceCanvas (previewMaxPx e)) (\<lambda>c0.
          bindE (if forExport e \<and> 1 < upscale e then applyUpscale M c0 (upscale e) else Inr c0) (\<lambda>c1.
          bindE (if ''filmstock'' \<in> active then applyFilmStock M c1 (filmstock P) else Inr c1) (\<lambda>c2.
          bindE (if ''velox'' \<in> active then applyVelox M c2 (velox P) else Inr c2) (\<lambda>c3.
          if ''grain'' \<in> active then applyGrain M 0 c3 (grain P) else Inr (c3, 0))))))"

text \<open>Lines 592 to 665: the paper-coloured canvas with every plate multiplied onto it.\<close>

definition halftoneStage ::
  "platform \<Rightarrow> string set \<Rightarrow> moduleParams \<Rightarrow> canvas \<Rightarrow> error + canvas" where
  "halftoneStage M active P cv =
     (let w = width cv; h = height cv in
      bindE (getImageData cv) (\<lambda>srcData.
        case halftone P of
          None \<Rightarrow> Inl TypeError
        | Some ht \<Rightarrow>
            let reg = (if ''registration'' \<in> active then registration P
                       else Some defaultRegistration)
            in bindE (setupChannels ht reg (press P)) (\<lambda>channels.
                 drawPlates M srcData w h (platePlan M active P ht w h channels)
                   (fillRect (ht_paperColor ht) (newCanvas w h)))))"

text \<open>Lines 667 to 700: ink bleed and paper tooth, in place on \<^verbatim>\<open>out\<close>.\<close>

definition finishing ::
  "platform \<Rightarrow> string set \<Rightarrow> moduleParams \<Rightarrow> nat \<Rightarrow> canvas \<Rightarrow> error + canvas" where
  "finishing M active P k out =
     (let w = width out; h = height out;
          feed = (case press P of Some p \<Rightarrow> pr_feed p | None \<Rightarrow> ''vertical'') in
      case halftone P of
        None \<Rightarrow> Inl TypeError
      | Some ht \<Rightarrow>
          bindE (if ''inkbleed'' \<in> active
                 then applyInkBleed M out w h (inkbleed P) (ht_paperColor ht) feed
                 else Inr out) (\<lambda>out1.
            if ''paper'' \<in> active
            then applyPaper M k out1 w h (paper P)
                   (case press P of Some p \<Rightarrow> pr_pressure p | None \<Rightarrow> 1)
                   (ht_paperColor ht) feed
            else Inr out1))"

text \<open>\<^verbatim>\<open>self.onmessage\<close>: \<open>Inr\<close> is the message posted back, \<open>Inl\<close> the exception that
  ends the handler before anything is posted.\<close>

definition onmessage :: "platform \<Rightarrow> request \<Rightarrow> error + response" where
  "onmessage M e =
     (let active = set (activeModulesList e); P = params e in
      bindE (prepress M e) (\<lambda>(cv, k).
      bindE (halftoneStage M active P cv) (\<lambda>out.
      bindE (finishing M active P k out) (\<lambda>out'.
        Inr \<lparr>resTaskId = taskId e, resultBitmap = out'\<rparr>))))"

text \<open>
  What the seeded generator contributes to a run: for each plate, in drawing order, its
  ink-skip map and the hickeys stamped on it.
\<close>

definition seededOf :: "nat \<Rightarrow> nat \<Rightarrow> error + plateOpts \<Rightarrow> error + (num list option \<times> stamp list)" where
  "seededOf w h job =
     bindE job (\<lambda>opts.
       Inr (inkSkipMap opts,
            case optHickeys opts of
              None \<Rightarrow> []
            | Some hp \<Rightarrow> hickeyStamps w h hp (plateIndex opts)))"

definition seededArtefacts ::
  "platform \<Rightarrow> request \<Rightarrow> error + (error + (num list option \<times> stamp list)) list" where
  "seededArtefacts M e =
     (let active = set (activeModulesList e); P = params e in
      bindE (prepress M e) (\<lambda>(cv, k).
      bindE (getImageData cv) (\<lambda>srcData.
        case halftone P of
          None \<Rightarrow> Inl TypeError
        | Some ht \<Rightarrow>
            let reg = (if ''registration'' \<in> active then registration P
                       else Some defaultRegistration)
            in bindE (setupChannels ht reg (press P)) (\<lambda>channels.
                 Inr (map (seededOf (width cv) (height cv))
                        (platePlan M active P ht (width cv) (height cv) channels))))))"

section \<open>Properties of rasters and requests\<close>

text \<open>Every pixel fully opaque.\<close>

definition opaqueAll :: "pixel list \<Rightarrow> bool" where
  "opaqueAll d = (\<forall>p \<in> set d. pa p = 255)"

text \<open>A raster that holds exactly \<open>width \<times> height\<close> pixels.\<close>

definition rasterOk :: "canvas \<Rightarrow> bool" where
  "rasterOk c = (length (data c) = width c * height c)"

text \<open>Two rasters of the same size whose pixels agree in alpha.\<close>

definition sameFrame :: "canvas \<Rightarrow> canvas \<Rightarrow> bool" where
  "sameFrame a b = (width b = width a \<and> height b = height a \<and> map pa (data b) = map pa (data a))"

text \<open>
  A request as the host builds it: a source with non-zero dimensions, a halftone entry
  with a positive cell size, an entry for every active optional module, a stock id that
  is not a property inherited from \<^verbatim>\<open>Object.prototype\<close>, and both duotone colours when
  hickeys are stamped on duotone plates. No parameter is required to lie in its
  documented range.
\<close>

definition complete :: "request \<Rightarrow> bool" where
  "complete e =
     (let A = set (activeModulesList e); P = params e in
      (case bitmap e of None \<Rightarrow> False | Some bmp \<Rightarrow> 0 < width bmp \<and> 0 < height bmp)
      \<and> (case halftone P of
             None \<Rightarrow> False
           | Some ht \<Rightarrow>
               0 < ht_cellSize ht
               \<and> (ht_mode ht = ''duotone'' \<and> ''hickeys'' \<in> A
                    \<longrightarrow> ht_duotoneColor1 ht \<noteq> None \<and> ht_duotoneColor2 ht \<noteq> None))
      \<and> (''filmstock'' \<in> A \<longrightarrow>
             (case filmstock P of None \<Rightarrow> False | Some p \<Rightarrow> FILM_STOCKS (fs_stock p) \<noteq> Inherited))
      \<and> (''velox'' \<in> A \<longrightarrow> velox P \<noteq> None)
      \<and> (''grain'' \<in> A \<longrightarrow> grain P \<noteq> None)
      \<and> (''dotgain'' \<in> A \<longrightarrow> dotgain P \<noteq> None)
      \<and> (''registration'' \<in> A \<longrightarrow> registration P \<noteq> None)
      \<and> (''inkskip'' \<in> A \<longrightarrow> inkskip P \<noteq> None)
      \<and> (''inkbleed'' \<in> A \<longrightarrow> inkbleed P \<noteq> None)
      \<and> (''paper'' \<in> A \<longrightarrow> paper P \<noteq> None))"

section \<open>The host's defaults\<close>

text \<open>
  The defaults of \<^verbatim>\<open>MODULE_DEFS\<close>, from which the host seeds every entry of
  \<^verbatim>\<open>moduleParams\<close> before it posts a request.
\<close>

definition defaultHalftone :: halftone_params where
  "defaultHalftone =
     \<lparr>ht_mode = ''cmyk'', ht_cellSize = 10, ht_dotShape = Some ''circle'',
      ht_paperColor = (0xf0, 0xea, 0xd8), ht_masterAngle = Some 0,
      ht_angleK = 45, ht_angleC = 15, ht_angleM = 75, ht_angleY = 90,
      ht_duotoneColor1 = Some (0x1a, 0x10, 0x08), ht_duotoneColor2 = Some (0xd4, 0x89, 0x0a)\<rparr>"

definition defaultPress :: press_params where
  "defaultPress =
     \<lparr>pr_feed = ''vertical'', pr_laydown = ''k-c-m-y'', pr_pressure = 1, pr_slur = Some 0\<rparr>"

definition defaultParams :: moduleParams where
  "defaultParams =
     \<lparr>filmstock = Some \<lparr>fs_stock = ''kodachrome'', fs_exposure = 0, fs_halation = lit (5 / 10),
                         fs_fade = 0\<rparr>,
      velox = Some \<lparr>vx_threshold = lit (5 / 10), vx_contrast = lit (15 / 10)\<rparr>,
      grain = Some \<lparr>gr_amount = lit (12 / 100), gr_weighted = ''on''\<rparr>,
      halftone = Some defaultHalftone,
      press = Some defaultPress,
      dotgain = Some \<lparr>dg_amount = lit (25 / 100), dg_shadow = lit (3 / 10)\<rparr>,
      registration = Some defaultRegistration,
      inkskip = Some \<lparr>is_intensity = lit (3 / 10), is_scale = lit (4 / 10)\<rparr>,
      paper = Some \<lparr>pp_texture = lit (15 / 100), pp_fibers = lit (5 / 100)\<rparr>,
      inkbleed = Some \<lparr>ib_radius = 3, ib_absorbency = lit (8 / 10),
                        ib_directionality = Some (lit (7 / 10))\<rparr>,
      hickeys = Some \<lparr>hk_count = 12, hk_sizeMax = 8\<rparr>\<rparr>"

text \<open>The module ids the worker tests with \<^verbatim>\<open>active.has\<close>.\<close>

definition workerModules :: "string list" where
  "workerModules =
     [''filmstock'', ''velox'', ''grain'', ''dotgain'', ''registration'', ''hickeys'',
      ''inkskip'', ''inkbleed'', ''paper'']"

text \<open>A raster of one colour, and the request the host posts for an export without
  upscale.\<close>

definition solid :: "nat \<Rightarrow> nat \<Rightarrow> pixel \<Rightarrow> canvas" where
  "solid w h p = \<lparr>width = w, height = h, data = replicate (w * h) p\<rparr>"

definition exportRequest :: "canvas \<Rightarrow> string list \<Rightarrow> moduleParams \<Rightarrow> request" where
  "exportRequest src act P =
     \<lparr>taskId = ''export'', bitmap = Some src, activeModulesList = act, params = P,
      forExport = True, previewMaxPx = 900, upscale = 1\<rparr>"


section \<open>A reference platform\<close>

text \<open>
  A concrete host, for statements about one particular run: square roots by Heron's
  iteration, sine and cosine by their power series, the exponential by the series at
  \<open>x / 64\<close> squared six times, each rounded to binary64; the seeded generator read by position as the stream of \<^verbatim>\<open>Math.random()\<close>;
  paths rasterised by sampling the pixel centre; resampling by nearest neighbour.
\<close>

fun heron :: "nat \<Rightarrow> num \<Rightarrow> num \<Rightarrow> num" where
  "heron 0 x y = y"
| "heron (Suc n) x y = heron n x (f64 ((y + x / y) / 2))"

definition sqrtRef :: "num \<Rightarrow> num" where
  "sqrtRef x = (if x \<le> 0 then 0 else heron 12 x (pow2 (ilog2 x div 2)))"

fun factR :: "nat \<Rightarrow> num" where
  "factR 0 = 1"
| "factR (Suc n) = of_nat (Suc n) * factR n"

definition cosRef :: "num \<Rightarrow> num" where
  "cosRef x = f64 (sum_list (map (\<lambda>k. (- 1) ^ k * x ^ (2 * k) / factR (2 * k)) [0..<24]))"

definition sinRef :: "num \<Rightarrow> num" where
  "sinRef x = f64 (sum_list (map (\<lambda>k. (- 1) ^ k * x ^ (2 * k + 1) / factR (2 * k + 1)) [0..<24]))"

fun squarings :: "nat \<Rightarrow> num \<Rightarrow> num" where
  "squarings 0 y = y"
| "squarings (Suc n) y = squarings n (f64 (y * y))"

definition expRef :: "num \<Rightarrow> num" where
  "expRef x = squarings 6 (f64 (sum_list (map (\<lambda>k. (x / 64) ^ k / factR k) [0..<24])))"

definition LN2 :: num where
  "LN2 = 6243314768165359 / 9007199254740992"

definition coverageRef :: "dot \<Rightarrow> nat \<Rightarrow> nat \<Rightarrow> num" where
  "coverageRef d x y =
     (let u = (of_nat x + 1 / 2 - dotX d) / dotScaleX d;
          v = (of_nat y + 1 / 2 - dotY d) / dotScaleY d
      in case dotPath d of
           Circle r \<Rightarrow> if u * u + v * v \<le> r * r then 1 else 0
         | Diamond r \<Rightarrow> if \<bar>u\<bar> + \<bar>v\<bar> \<le> r then 1 else 0
         | Line lw cs rad \<Rightarrow>
             let c = cosRef rad; s = sinRef rad in
             if \<bar>u * c + v * s\<bar> \<le> of_int cs / 2 \<and> \<bar>v * c - u * s\<bar> \<le> lw / 2 then 1 else 0)"

definition resampleRef :: "canvas \<Rightarrow> nat \<Rightarrow> nat \<Rightarrow> nat \<Rightarrow> pixel" where
  "resampleRef src w h j =
     pixelAt (data src) (((j div w) * height src div h) * width src + (j mod w) * width src div w)"

definition refPlatform :: platform where
  "refPlatform =
     \<lparr>msqrt = sqrtRef, mcos = cosRef, msin = sinRef, mexp = expRef,
      mpow2 = (\<lambda>x. expRef (x * LN2)), mrandom = random,
      coverage = coverageRef, resample = resampleRef\<rparr>"

section \<open>Rounding lemmas\<close>

lemma pow2_pos: "0 < pow2 e"
  by (simp add: pow2_def)

lemma pow2_power_int: "pow2 e = power_int 2 e"
  by (simp add: pow2_def power_int_def field_simps)

lemma pow2_add: "pow2 (a + b) = pow2 a * pow2 b"
  by (simp add: pow2_power_int power_int_add)

lemma pow2_neg_nat: "pow2 (- int n) = 1 / 2 ^ n"
  by (simp add: pow2_power_int power_int_minus field_simps)

lemma rne_err: "\<bar>of_int (rne m) - m\<bar> \<le> 1 / 2"
proof -
  have "of_int \<lfloor>m\<rfloor> \<le> m" "m < of_int \<lfloor>m\<rfloor> + 1" by linarith+
  then show ?thesis
    by (auto simp: rne_def Let_def)
qed

lemma rne_nonneg: "0 \<le> m \<Longrightarrow> 0 \<le> rne m"
  by (auto simp: rne_def Let_def)

lemma ilog2_le:
  assumes "0 < x"
  shows "pow2 (ilog2 x) \<le> x"
proof (cases "1 \<le> x")
  case True
  define n where "n = \<lfloor>x\<rfloor>"
  have n: "0 < n" using True by (simp add: n_def)
  have "(2::int) ^ nat (bitlen n - 1) \<le> n" using bitlen_bounds [OF n] by simp
  then have "(of_int ((2::int) ^ nat (bitlen n - 1)) :: rat) \<le> of_int n"
    by (simp only: of_int_le_iff)
  also have "\<dots> \<le> x" by (simp add: n_def)
  finally have "(2::rat) ^ nat (bitlen n - 1) \<le> x" by simp
  moreover have "0 \<le> bitlen n - 1" using n by (simp add: bitlen_alt_def)
  ultimately show ?thesis using True by (simp add: ilog2_def pow2_def n_def)
next
  case False
  define m where "m = \<lceil>1 / x\<rceil> - 1"
  have y: "1 < 1 / x" using False assms by simp
  have m: "0 < m" using y by (simp add: m_def)
  have "m < 2 ^ nat (bitlen m)" using bitlen_bounds [OF m] by simp
  then have "m + 1 \<le> 2 ^ nat (bitlen m)" by simp
  then have "(of_int (m + 1) :: rat) \<le> of_int (2 ^ nat (bitlen m))"
    by (simp only: of_int_le_iff)
  moreover have "1 / x \<le> of_int (m + 1)" by (simp add: m_def)
  ultimately have "1 / x \<le> 2 ^ nat (bitlen m)" by simp
  then have "1 / 2 ^ nat (bitlen m) \<le> x" using assms
    by (simp add: field_simps)
  moreover have "pow2 (- bitlen m) = 1 / 2 ^ nat (bitlen m)"
    using bitlen_nonneg [of m] by (auto simp: pow2_def bitlen_eq_zero_iff)
  ultimately show ?thesis using False by (simp add: ilog2_def m_def)
qed

text \<open>Rounding a positive number to \<open>p\<close> bits moves it by at most the fraction \<open>2\<^sup>-\<^sup>p\<close>.\<close>

lemma fround_err:
  assumes "0 < x"
  shows "\<bar>fround p x - x\<bar> \<le> x / 2 ^ p"
proof -
  define e where "e = ilog2 x"
  define u where "u = pow2 (e - int p + 1)"
  have u: "0 < u" by (simp add: u_def pow2_pos)
  have ue: "u = pow2 e * 2 / 2 ^ p"
  proof -
    have "u = pow2 (e + (1 + - int p))" by (simp add: u_def algebra_simps)
    also have "\<dots> = pow2 e * (pow2 1 * pow2 (- int p))" by (simp only: pow2_add)
    also have "\<dots> = pow2 e * 2 / 2 ^ p" by (simp add: pow2_neg_nat) (simp add: pow2_def)
    finally show ?thesis .
  qed
  have fr: "fround p x = of_int (rne (x / u)) * u"
    using assms by (simp add: fround_def e_def u_def Let_def)
  have "fround p x - x = (of_int (rne (x / u)) - x / u) * u"
    using u by (simp add: fr field_simps)
  then have "\<bar>fround p x - x\<bar> = \<bar>of_int (rne (x / u)) - x / u\<bar> * u"
    using u by (simp add: abs_mult)
  also have "\<dots> \<le> (1 / 2) * u"
    using rne_err [of "x / u"] u by (intro mult_right_mono) simp_all
  also have "\<dots> = pow2 e / 2 ^ p" by (simp add: ue)
  also have "\<dots> \<le> x / 2 ^ p"
    using ilog2_le [OF assms] by (simp add: e_def divide_right_mono)
  finally show ?thesis .
qed

lemma fround_nonneg: "0 \<le> x \<Longrightarrow> 0 \<le> fround p x"
  by (auto simp: fround_def Let_def pow2_pos less_imp_le intro!: mult_nonneg_nonneg rne_nonneg)

lemma fround_upper:
  assumes "0 \<le> x" "x \<le> B"
  shows "fround p x \<le> B * (1 + 1 / 2 ^ p)"
proof (cases "x = 0")
  case True
  then show ?thesis using assms by (simp add: fround_def)
next
  case False
  then have "0 < x" using assms by simp
  from fround_err [OF this, of p] have "fround p x \<le> x + x / 2 ^ p" by linarith
  also have "\<dots> = x * (1 + 1 / 2 ^ p)" by (simp add: algebra_simps)
  also have "\<dots> \<le> B * (1 + 1 / 2 ^ p)" using assms by (intro mult_right_mono) simp_all
  finally show ?thesis .
qed

section \<open>The luminance index of Velox (C10)\<close>

lemma unat_byte_le: "unat (v :: byte) \<le> 255"
  using unsigned_less [of v, where ?'a = nat] by simp

text \<open>An entry \<open>i \<le> 255\<close> of a luminance table with non-negative weight \<open>c\<close>.\<close>

lemma lum_entry_bounds:
  assumes "0 \<le> c" "i \<le> 255"
  shows "0 \<le> f32 (fmul (of_nat i) c)"
    and "f32 (fmul (of_nat i) c) \<le> 255 * c * (1 + 1 / 2 ^ 53) * (1 + 1 / 2 ^ 24)"
proof -
  have x0: "0 \<le> (of_nat i :: rat) * c" using assms by simp
  have x1: "(of_nat i :: rat) * c \<le> 255 * c"
    using assms by (intro mult_right_mono) simp_all
  have a0: "0 \<le> fmul (of_nat i) c"
    unfolding fmul_def f64_def by (rule fround_nonneg [OF x0])
  have a1: "fmul (of_nat i) c \<le> 255 * c * (1 + 1 / 2 ^ 53)"
    unfolding fmul_def f64_def by (rule fround_upper [OF x0 x1])
  show "0 \<le> f32 (fmul (of_nat i) c)"
    unfolding f32_def by (rule fround_nonneg [OF a0])
  show "f32 (fmul (of_nat i) c) \<le> 255 * c * (1 + 1 / 2 ^ 53) * (1 + 1 / 2 ^ 24)"
    unfolding f32_def by (rule fround_upper [OF a0 a1])
qed

lemma lit_weights:
  "lit (299 / 1000) = 5386305154335113 / 18014398509481984"
  "lit (587 / 1000) = 2643612981266481 / 4503599627370496"
  "lit (114 / 1000) = 8214565720323785 / 72057594037927936"
  by code_simp+

lemma LUM_bounds:
  assumes "i \<le> 255"
  shows "0 \<le> LUM_R i" "LUM_R i \<le> 7625 / 100"
    and "0 \<le> LUM_G i" "LUM_G i \<le> 14969 / 100"
    and "0 \<le> LUM_B i" "LUM_B i \<le> 2908 / 100"
proof -
  have r: "(0::rat) \<le> 5386305154335113 / 18014398509481984" by simp
  have g: "(0::rat) \<le> 2643612981266481 / 4503599627370496" by simp
  have b: "(0::rat) \<le> 8214565720323785 / 72057594037927936" by simp
  show "0 \<le> LUM_R i" "0 \<le> LUM_G i" "0 \<le> LUM_B i"
    unfolding LUM_R_def LUM_G_def LUM_B_def lit_weights
    by (rule lum_entry_bounds(1) [OF r assms] lum_entry_bounds(1) [OF g assms]
          lum_entry_bounds(1) [OF b assms])+
  have "LUM_R i \<le> 255 * (5386305154335113 / 18014398509481984) * (1 + 1 / 2 ^ 53) * (1 + 1 / 2 ^ 24)"
    unfolding LUM_R_def lit_weights by (rule lum_entry_bounds(2) [OF r assms])
  also have "\<dots> \<le> 7625 / 100" by simp
  finally show "LUM_R i \<le> 7625 / 100" .
  have "LUM_G i \<le> 255 * (2643612981266481 / 4503599627370496) * (1 + 1 / 2 ^ 53) * (1 + 1 / 2 ^ 24)"
    unfolding LUM_G_def lit_weights by (rule lum_entry_bounds(2) [OF g assms])
  also have "\<dots> \<le> 14969 / 100" by simp
  finally show "LUM_G i \<le> 14969 / 100" .
  have "LUM_B i \<le> 255 * (8214565720323785 / 72057594037927936) * (1 + 1 / 2 ^ 53) * (1 + 1 / 2 ^ 24)"
    unfolding LUM_B_def lit_weights by (rule lum_entry_bounds(2) [OF b assms])
  also have "\<dots> \<le> 2908 / 100" by simp
  finally show "LUM_B i \<le> 2908 / 100" .
qed

lemma lumSum_bounds: "0 \<le> lumSum r g b" "lumSum r g b < 2555 / 10"
proof -
  note R = LUM_bounds(1,2) [OF unat_byte_le [of r]]
  note G = LUM_bounds(3,4) [OF unat_byte_le [of g]]
  note B = LUM_bounds(5,6) [OF unat_byte_le [of b]]
  have s0: "0 \<le> LUM_R (unat r) + LUM_G (unat g)" using R G by simp
  have s1: "LUM_R (unat r) + LUM_G (unat g) \<le> 22594 / 100" using R G by simp
  have a0: "0 \<le> fadd (LUM_R (unat r)) (LUM_G (unat g))"
    unfolding fadd_def f64_def by (rule fround_nonneg [OF s0])
  have "fadd (LUM_R (unat r)) (LUM_G (unat g)) \<le> 22594 / 100 * (1 + 1 / 2 ^ 53)"
    unfolding fadd_def f64_def by (rule fround_upper [OF s0 s1])
  also have "\<dots> \<le> 22595 / 100" by simp
  finally have a1: "fadd (LUM_R (unat r)) (LUM_G (unat g)) \<le> 22595 / 100" .
  have t0: "0 \<le> fadd (LUM_R (unat r)) (LUM_G (unat g)) + LUM_B (unat b)" using a0 B by simp
  have t1: "fadd (LUM_R (unat r)) (LUM_G (unat g)) + LUM_B (unat b) \<le> 25503 / 100"
    using a1 B by simp
  show "0 \<le> lumSum r g b"
    unfolding lumSum_def fadd_def [of "fadd _ _"] f64_def by (rule fround_nonneg [OF t0])
  have "lumSum r g b \<le> 25503 / 100 * (1 + 1 / 2 ^ 53)"
    unfolding lumSum_def fadd_def [of "fadd _ _"] f64_def by (rule fround_upper [OF t0 t1])
  also have "\<dots> < 2555 / 10" by simp
  finally show "lumSum r g b < 2555 / 10" .
qed

lemma length_veloxLUT: "length (veloxLUT M t c) = 256"
  by (simp add: veloxLUT_def)

text \<open>
  C10. For all pixel bytes \<open>r\<close>, \<open>g\<close>, \<open>b\<close> the rounded Rec.601 luminance that
  \<^verbatim>\<open>applyVelox\<close> computes from the precomputed tables lies in \<open>[0, 255]\<close>, so its read of
  the 256-entry sigmoid table is in bounds: never negative, never past index 255.
\<close>

theorem lumInt_in_bounds:
  "0 \<le> lumInt r g b \<and> lumInt r g b \<le> 255
   \<and> nat (lumInt r g b) < length (veloxLUT M t c)
   \<and> veloxLookup (veloxLUT M t c) (lumInt r g b) = veloxLUT M t c ! nat (lumInt r g b)"
proof -
  have lo: "0 \<le> lumInt r g b"
    using lumSum_bounds(1) [of r g b] by (simp add: lumInt_def js_round_def)
  have "lumSum r g b + 1 / 2 < 256" using lumSum_bounds(2) [of r g b] by simp
  then have "\<lfloor>lumSum r g b + 1 / 2\<rfloor> < 256" by (simp add: floor_less_iff)
  then have hi: "lumInt r g b \<le> 255" by (simp add: lumInt_def js_round_def)
  have n: "nat (lumInt r g b) < 256" using lo hi by linarith
  from lo hi n show ?thesis by (simp add: veloxLookup_def length_veloxLUT)
qed

theorem lumInt_in_bounds_witness:
  "0 \<le> lumInt 255 255 255 \<and> lumInt 255 255 255 \<le> 255
   \<and> nat (lumInt 255 255 255) < length (veloxLUT refPlatform (1 / 2) (3 / 2))
   \<and> veloxLookup (veloxLUT refPlatform (1 / 2) (3 / 2)) (lumInt 255 255 255)
       = veloxLUT refPlatform (1 / 2) (3 / 2) ! nat (lumInt 255 255 255)"
  by (rule lumInt_in_bounds)

section \<open>The number of ink-skip blobs (C9)\<close>

lemma length_blobsLoop: "length (blobsLoop n seed w h rX rY intensity) = n"
  by (induction n arbitrary: seed) simp_all

text \<open>
  C9, as stated, fails: at the default scale \<open>0.4\<close> the worker places 30 blobs, while
  rounding after the multiplication by three, as the claim has it, gives 31.
\<close>

theorem blob_count_counterexample:
  "length (inkSkipBlobs 64 64 (lit (3 / 10)) (lit (4 / 10)) 1 ''vertical'') = 30
   \<and> spec_blobCount (lit (4 / 10)) = 31"
proof -
  have a: "adjustedBlobCount (lit (4 / 10)) = 30" by code_simp
  have b: "spec_blobCount (lit (4 / 10)) = 31" by code_simp
  have "length (inkSkipBlobs 64 64 (lit (3 / 10)) (lit (4 / 10)) 1 ''vertical'')
          = nat (adjustedBlobCount (lit (4 / 10)))"
    by (simp only: inkSkipBlobs_def Let_def length_blobsLoop)
  also have "\<dots> = 30" unfolding a by simp
  finally show ?thesis using b by (rule conjI)
qed

text \<open>
  C9, amended. For every scale, \<^verbatim>\<open>buildInkSkipMap\<close> places exactly
  \<open>3 \<cdot> max(3, round((1 - scale) \<cdot> 12 + 3))\<close> blobs: the rounding is applied before the
  maximum with three and before the multiplication by three.
\<close>

theorem blob_count:
  "length (inkSkipBlobs w h intensity scale seedOffset feed)
     = 3 * nat (max 3 (js_round (fadd (fmul (fsub 1 scale) 12) 3)))"
proof -
  have "0 \<le> max 3 (js_round (fadd (fmul (fsub 1 scale) 12) 3))" by simp
  then show ?thesis
    by (simp add: inkSkipBlobs_def Let_def length_blobsLoop adjustedBlobCount_def blobCount_def
          nat_mult_distrib mult.commute)
qed

theorem blob_count_witness:
  "length (inkSkipBlobs 64 64 (lit (3 / 10)) (lit (4 / 10)) 1 ''vertical'')
     = 3 * nat (max 3 (js_round (fadd (fmul (fsub 1 (lit (4 / 10))) 12) 3)))"
  by (rule blob_count)

section \<open>Dot gain and shadow fill (C6)\<close>






section \<open>Plate order and plate index (C1, C7)\<close>

lemma bindE_Inr: "bindE (Inr v) f = f v"
  by (simp add: bindE_def)

lemma bindE_Inl: "bindE (Inl e) f = Inl e"
  by (simp add: bindE_def)

lemma split_default: "splitOn CHR ''-'' ''k-c-m-y'' = [''k'', ''c'', ''m'', ''y'']"
  by simp

lemma plateOptions_Inr:
  "plateOptions M skipActive sk dg reg hk shape cs feed sl w h ch index = Inr opts \<Longrightarrow>
     plateIndex opts = index + 1 \<and> ch_id opts = ch_id ch \<and> color opts = color ch
     \<and> angleDeg opts = angleDeg ch \<and> getValue opts = getValue ch
     \<and> offsetX opts = offsetX ch \<and> offsetY opts = offsetY ch
     \<and> inkSkipMap opts =
         (if skipActive
          then Some (buildInkSkipMap M w h (is_intensity (the sk)) (is_scale (the sk)) (index + 1) feed)
          else None)
     \<and> optHickeys opts = hk \<and> feedDir opts = feed \<and> cellSize opts = cs"
  by (auto simp: plateOptions_def bindE_def split: if_splits option.splits)

lemma nth_platePlan:
  "i < length chs \<Longrightarrow>
   platePlan M active P ht w h chs ! i =
     plateOptions M (''inkskip'' \<in> active) (inkskip P)
       (if ''dotgain'' \<in> active then dotgain P else Some defaultDotgain)
       (if ''registration'' \<in> active then registration P else Some defaultRegistration)
       (if ''hickeys'' \<in> active then hickeys P else None)
       (orString (ht_dotShape ht) ''circle'') (ht_cellSize ht)
       (case press P of Some p \<Rightarrow> pr_feed p | None \<Rightarrow> ''vertical'')
       (case press P of Some p \<Rightarrow> pr_slur p | None \<Rightarrow> Some 0) w h (chs ! i) i"
  by (simp add: platePlan_def Let_def nth_enumerate_eq)

lemma length_platePlan: "length (platePlan M active P ht w h chs) = length chs"
  by (simp add: platePlan_def Let_def)

lemma f64_0: "f64 0 = 0"
  by (simp add: f64_def fround_def)

lemma maxStretch_first: "maxStretch fan (Suc 0) = 0"
  by (simp add: maxStretch_def fmul_def fdiv_def f64_0)

lemma cmyk_default_order:
  "map ch_id (sort_key (\<lambda>ch. indexOf (splitOn CHR ''-'' ''k-c-m-y'') (ch_id ch))
      (cmykChannels ht r mAng)) = [''k'', ''c'', ''m'', ''y'']"
  by (simp add: cmykChannels_def mkChannel_def indexOf_def)

lemma setupChannels_cmyk:
  "ht_mode ht \<noteq> ''bw'' \<Longrightarrow> ht_mode ht \<noteq> ''duotone'' \<Longrightarrow>
   setupChannels ht (Some r) ps =
     Inr (sort_key (\<lambda>ch. indexOf (splitOn CHR ''-'' (laydownOf ps)) (ch_id ch))
            (cmykChannels ht r (orNum (ht_masterAngle ht) 0)))"
  by (simp add: setupChannels_def Let_def)

lemma length_cmykChannels: "length (cmykChannels ht r mAng) = 4"
  by (simp add: cmykChannels_def)

text \<open>
  C1, as stated, fails: under the default laydown \<open>k-c-m-y\<close>, with a fan-out of 3 px, the
  plates are drawn in the order K, C, M, Y with \<^verbatim>\<open>plateIndex\<close> 1, 2, 3, 4. Cyan, first
  in the array before the sort, has index 2 and is stretched; black, last before the
  sort, has index 1 and is the plate without fan-out.
\<close>

theorem plate_index_counterexample:
  "map (map_sum id (\<lambda>opts. (ch_id opts, plateIndex opts,
          maxStretch (fanout opts) (plateIndex opts) = 0)))
     (platePlan refPlatform {''registration''}
        (defaultParams\<lparr>registration := Some (defaultRegistration\<lparr>rg_fanout := Some 3\<rparr>)\<rparr>)
        defaultHalftone 100 100
        (sort_key (\<lambda>ch. indexOf (splitOn CHR ''-'' ''k-c-m-y'') (ch_id ch))
           (cmykChannels defaultHalftone (defaultRegistration\<lparr>rg_fanout := Some 3\<rparr>) 0)))
   = [Inr (''k'', 1, True), Inr (''c'', 2, False), Inr (''m'', 3, False), Inr (''y'', 4, False)]"
proof -
  have a: "fmul 3 (fdiv 1 3) = 1" "fmul 3 (fdiv 2 3) = 2" "fmul 3 (fdiv 3 3) = 3" "fmul 3 (fdiv 0 3) = 0"
    by code_simp+
  show ?thesis
    by (simp add: platePlan_def plateOptions_def bindE_def defaultParams_def defaultHalftone_def
        defaultRegistration_def defaultDotgain_def defaultPress_def cmykChannels_def mkChannel_def
        indexOf_def orString_def maxStretch_def orNum_def a enumerate_eq_zip upt_rec Let_def)
qed

text \<open>
  C1, amended. In four-plate mode the \<^verbatim>\<open>plateIndex\<close> used for the fan-out stretch
  (\<open>maxStretch = fanout \<cdot> (plateIndex - 1) / 3\<close>), for the ink-skip seed and for the hickey
  seed (\<open>plateIndex \<cdot> 5000\<close>) is the plate's 1-based position in the drawing order, that
  is in the channel array after the stable sort by laydown position; the plate drawn
  first receives no fan-out. A plate whose options cannot be built fails with a
  \<^verbatim>\<open>TypeError\<close>.
\<close>

theorem plate_index:
  assumes "ht_mode ht \<noteq> ''bw''" and "ht_mode ht \<noteq> ''duotone''" and "i < 4"
  shows "let chs = sort_key (\<lambda>ch. indexOf (splitOn CHR ''-'' (laydownOf ps)) (ch_id ch))
                     (cmykChannels ht r (orNum (ht_masterAngle ht) 0))
         in setupChannels ht (Some r) ps = Inr chs \<and> length chs = 4
            \<and> (case platePlan M active P ht w h chs ! i of
                   Inl e \<Rightarrow> e = TypeError
                 | Inr opts \<Rightarrow>
                     plateIndex opts = i + 1 \<and> ch_id opts = ch_id (chs ! i)
                     \<and> maxStretch (fanout opts) (plateIndex opts)
                         = fmul (orNum (fanout opts) 0) (fdiv (of_nat i) 3)
                     \<and> (i = 0 \<longrightarrow> stretchFactorX opts w = 0 \<and> stretchFactorY opts h = 0)
                     \<and> inkSkipMap opts =
                         (if ''inkskip'' \<in> active
                          then Some (buildInkSkipMap M w h (is_intensity (the (inkskip P)))
                                 (is_scale (the (inkskip P))) (plateIndex opts) (feedDir opts))
                          else None)
                     \<and> (\<forall>hp. optHickeys opts = Some hp \<and> \<not> (js_round (hk_count hp) < 1 \<or> hk_sizeMax hp < 2)
                           \<longrightarrow> hickeyStamps w h hp (plateIndex opts)
                               = hickeyLoop (nat (js_round (hk_count hp))) ((i + 1) * 5000)
                                   (of_nat w) (of_nat h) (hk_sizeMax hp)))"
proof -
  define chs where "chs = sort_key (\<lambda>ch. indexOf (splitOn CHR ''-'' (laydownOf ps)) (ch_id ch))
                     (cmykChannels ht r (orNum (ht_masterAngle ht) 0))"
  have len: "length chs = 4" by (simp add: chs_def length_cmykChannels)
  have i: "i < length chs" using assms(3) len by simp
  have set: "setupChannels ht (Some r) ps = Inr chs"
    unfolding chs_def by (rule setupChannels_cmyk [OF assms(1,2)])
  have plan: "case platePlan M active P ht w h chs ! i of
                   Inl e \<Rightarrow> e = TypeError
                 | Inr opts \<Rightarrow>
                     plateIndex opts = i + 1 \<and> ch_id opts = ch_id (chs ! i)
                     \<and> maxStretch (fanout opts) (plateIndex opts)
                         = fmul (orNum (fanout opts) 0) (fdiv (of_nat i) 3)
                     \<and> (i = 0 \<longrightarrow> stretchFactorX opts w = 0 \<and> stretchFactorY opts h = 0)
                     \<and> inkSkipMap opts =
                         (if ''inkskip'' \<in> active
                          then Some (buildInkSkipMap M w h (is_intensity (the (inkskip P)))
                                 (is_scale (the (inkskip P))) (plateIndex opts) (feedDir opts))
                          else None)
                     \<and> (\<forall>hp. optHickeys opts = Some hp \<and> \<not> (js_round (hk_count hp) < 1 \<or> hk_sizeMax hp < 2)
                           \<longrightarrow> hickeyStamps w h hp (plateIndex opts)
                               = hickeyLoop (nat (js_round (hk_count hp))) ((i + 1) * 5000)
                                   (of_nat w) (of_nat h) (hk_sizeMax hp))"
  proof (cases "platePlan M active P ht w h chs ! i")
    case (Inl e)
    then show ?thesis
      by (auto simp: nth_platePlan [OF i] plateOptions_def bindE_def
            split: if_splits option.splits)
  next
    case (Inr opts)
    note po = plateOptions_Inr [OF Inr [unfolded nth_platePlan [OF i]]]
    have ms: "maxStretch (fanout opts) (plateIndex opts)
                = fmul (orNum (fanout opts) 0) (fdiv (of_nat i) 3)"
      using po by (simp add: maxStretch_def)
    have z: "i = 0 \<longrightarrow> stretchFactorX opts w = 0 \<and> stretchFactorY opts h = 0"
      using po by (auto simp: stretchFactorX_def stretchFactorY_def maxStretch_first fdiv_def f64_0)
    show ?thesis
      using po ms z by (simp add: Inr hickeyStamps_def Let_def)
  qed
  show ?thesis
    unfolding Let_def chs_def [symmetric] using set len plan by blast
qed

theorem plate_index_witness:
  "ht_mode defaultHalftone \<noteq> ''bw'' \<and> ht_mode defaultHalftone \<noteq> ''duotone'' \<and> (1::nat) < 4
   \<and> (let chs = sort_key (\<lambda>ch. indexOf (splitOn CHR ''-'' (laydownOf (Some defaultPress))) (ch_id ch))
                     (cmykChannels defaultHalftone defaultRegistration
                        (orNum (ht_masterAngle defaultHalftone) 0))
         in setupChannels defaultHalftone (Some defaultRegistration) (Some defaultPress) = Inr chs
            \<and> length chs = 4
            \<and> (case platePlan refPlatform {} defaultParams defaultHalftone 100 100 chs ! 1 of
                   Inl e \<Rightarrow> e = TypeError
                 | Inr opts \<Rightarrow>
                     plateIndex opts = 1 + 1 \<and> ch_id opts = ch_id (chs ! 1)
                     \<and> maxStretch (fanout opts) (plateIndex opts)
                         = fmul (orNum (fanout opts) 0) (fdiv (of_nat 1) 3)
                     \<and> ((1::nat) = 0 \<longrightarrow> stretchFactorX opts 100 = 0 \<and> stretchFactorY opts 100 = 0)
                     \<and> inkSkipMap opts =
                         (if ''inkskip'' \<in> {}
                          then Some (buildInkSkipMap refPlatform 100 100
                                 (is_intensity (the (inkskip defaultParams)))
                                 (is_scale (the (inkskip defaultParams))) (plateIndex opts)
                                 (feedDir opts))
                          else None)
                     \<and> (\<forall>hp. optHickeys opts = Some hp
                               \<and> \<not> (js_round (hk_count hp) < 1 \<or> hk_sizeMax hp < 2)
                           \<longrightarrow> hickeyStamps 100 100 hp (plateIndex opts)
                               = hickeyLoop (nat (js_round (hk_count hp))) ((1 + 1) * 5000)
                                   (of_nat 100) (of_nat 100) (hk_sizeMax hp))))"
proof -
  have h1: "ht_mode defaultHalftone \<noteq> ''bw''" by (simp add: defaultHalftone_def)
  have h2: "ht_mode defaultHalftone \<noteq> ''duotone''" by (simp add: defaultHalftone_def)
  have h3: "(1::nat) < 4" by simp
  from plate_index [OF h1 h2 h3, where ps = "Some defaultPress" and r = defaultRegistration
      and M = refPlatform and active = "{}" and P = defaultParams and w = 100 and h = 100]
    h1 h2 h3
  show ?thesis by blast
qed

lemma drawPlates_pair:
  "length jobs = 2 \<Longrightarrow>
   drawPlates M src w h jobs out =
     bindE (jobs ! 0) (\<lambda>o2. bindE (renderPlate M src w h o2) (\<lambda>p2.
     bindE (jobs ! 1) (\<lambda>o1. bindE (renderPlate M src w h o1) (\<lambda>p1.
       Inr (drawMultiply p1 (drawMultiply p2 out))))))"
proof -
  assume "length jobs = 2"
  then obtain j0 j1 where "jobs = [j0, j1]"
    by (cases jobs; cases "tl jobs") auto
  then show ?thesis by simp
qed

text \<open>
  C7, as stated, fails: in duotone mode under the default laydown \<open>k-c-m-y\<close> the channel
  array is plate 2 (colour 2, angle C, luminance) followed by plate 1 (colour 1, angle K,
  inverted luminance), and that is the drawing order.
\<close>

theorem duotone_order_counterexample:
  "setupChannels (defaultHalftone\<lparr>ht_mode := ''duotone''\<rparr>) (Some defaultRegistration)
     (Some defaultPress)
   = Inr [mkChannel ''2'' (Some (0xd4, 0x89, 0x0a)) 15 0 0 GetLum,
          mkChannel ''1'' (Some (0x1a, 0x10, 0x08)) 45 0 0 GetInvLum]"
proof -
  have a: "fadd 15 0 = 15" "fadd 45 0 = 45" by code_simp+
  show ?thesis
    by (simp add: setupChannels_def defaultHalftone_def defaultRegistration_def orNum_def a)
qed

text \<open>
  C7, amended. In duotone mode the laydown sequence is not consulted: whatever the press
  entry, the channel array is plate 2 (\<^verbatim>\<open>duotoneColor2\<close> at \<^verbatim>\<open>angleC\<close> + master, value
  \<open>L / 255\<close>) followed by plate 1 (\<^verbatim>\<open>duotoneColor1\<close> at \<^verbatim>\<open>angleK\<close> + master, value
  \<open>1 - L / 255\<close>); they get \<^verbatim>\<open>plateIndex\<close> 1 and 2, and plate 2 is rendered and
  multiplied onto the paper base before plate 1.
\<close>

theorem duotone_order:
  assumes "ht_mode ht = ''duotone''"
  shows "let chs = [mkChannel ''2'' (ht_duotoneColor2 ht)
                      (fadd (ht_angleC ht) (orNum (ht_masterAngle ht) 0)) (rg_cx r) (rg_cy r) GetLum,
                    mkChannel ''1'' (ht_duotoneColor1 ht)
                      (fadd (ht_angleK ht) (orNum (ht_masterAngle ht) 0)) 0 0 GetInvLum];
             plan = platePlan M active P ht w h chs
         in setupChannels ht (Some r) ps = Inr chs
            \<and> (\<forall>i<2. case plan ! i of
                         Inl e \<Rightarrow> e = TypeError
                       | Inr opts \<Rightarrow>
                           plateIndex opts = i + 1 \<and> ch_id opts = [''2'', ''1''] ! i
                           \<and> getValue opts = [GetLum, GetInvLum] ! i)
            \<and> drawPlates M src w h plan out =
                bindE (plan ! 0) (\<lambda>o2. bindE (renderPlate M src w h o2) (\<lambda>p2.
                bindE (plan ! 1) (\<lambda>o1. bindE (renderPlate M src w h o1) (\<lambda>p1.
                  Inr (drawMultiply p1 (drawMultiply p2 out))))))"
proof -
  define chs where "chs = [mkChannel ''2'' (ht_duotoneColor2 ht)
                      (fadd (ht_angleC ht) (orNum (ht_masterAngle ht) 0)) (rg_cx r) (rg_cy r) GetLum,
                    mkChannel ''1'' (ht_duotoneColor1 ht)
                      (fadd (ht_angleK ht) (orNum (ht_masterAngle ht) 0)) 0 0 GetInvLum]"
  define plan where "plan = platePlan M active P ht w h chs"
  have len: "length chs = 2" by (simp add: chs_def)
  have set: "setupChannels ht (Some r) ps = Inr chs"
    using assms by (simp add: setupChannels_def Let_def chs_def)
  have ids: "\<forall>i<2. case plan ! i of
                         Inl e \<Rightarrow> e = TypeError
                       | Inr opts \<Rightarrow>
                           plateIndex opts = i + 1 \<and> ch_id opts = [''2'', ''1''] ! i
                           \<and> getValue opts = [GetLum, GetInvLum] ! i"
  proof (intro allI impI)
    fix i :: nat
    assume "i < 2"
    then have i: "i < length chs" using len by simp
    have c: "ch_id (chs ! i) = [''2'', ''1''] ! i \<and> getValue (chs ! i) = [GetLum, GetInvLum] ! i"
      using \<open>i < 2\<close> by (cases i) (simp_all add: chs_def mkChannel_def)
    show "case plan ! i of
                         Inl e \<Rightarrow> e = TypeError
                       | Inr opts \<Rightarrow>
                           plateIndex opts = i + 1 \<and> ch_id opts = [''2'', ''1''] ! i
                           \<and> getValue opts = [GetLum, GetInvLum] ! i"
    proof (cases "plan ! i")
      case (Inl e)
      then show ?thesis
        unfolding plan_def
        by (auto simp: nth_platePlan [OF i] plateOptions_def bindE_def
              split: if_splits option.splits)
    next
      case (Inr opts)
      from plateOptions_Inr [OF Inr [unfolded plan_def nth_platePlan [OF i]]] c
      show ?thesis by (simp add: Inr)
    qed
  qed
  have "length plan = 2" by (simp add: plan_def length_platePlan len)
  from drawPlates_pair [OF this]
  have draw: "drawPlates M src w h plan out =
                bindE (plan ! 0) (\<lambda>o2. bindE (renderPlate M src w h o2) (\<lambda>p2.
                bindE (plan ! 1) (\<lambda>o1. bindE (renderPlate M src w h o1) (\<lambda>p1.
                  Inr (drawMultiply p1 (drawMultiply p2 out))))))" .
  show ?thesis
    unfolding Let_def chs_def [symmetric] plan_def [symmetric] using set ids draw by blast
qed

theorem duotone_order_witness:
  "ht_mode (defaultHalftone\<lparr>ht_mode := ''duotone''\<rparr>) = ''duotone''
   \<and> (let chs = [mkChannel ''2'' (ht_duotoneColor2 (defaultHalftone\<lparr>ht_mode := ''duotone''\<rparr>))
                      (fadd (ht_angleC (defaultHalftone\<lparr>ht_mode := ''duotone''\<rparr>))
                         (orNum (ht_masterAngle (defaultHalftone\<lparr>ht_mode := ''duotone''\<rparr>)) 0))
                      (rg_cx defaultRegistration) (rg_cy defaultRegistration) GetLum,
                    mkChannel ''1'' (ht_duotoneColor1 (defaultHalftone\<lparr>ht_mode := ''duotone''\<rparr>))
                      (fadd (ht_angleK (defaultHalftone\<lparr>ht_mode := ''duotone''\<rparr>))
                         (orNum (ht_masterAngle (defaultHalftone\<lparr>ht_mode := ''duotone''\<rparr>)) 0))
                      0 0 GetInvLum];
             plan = platePlan refPlatform {} defaultParams
                      (defaultHalftone\<lparr>ht_mode := ''duotone''\<rparr>) 2 2 chs
         in setupChannels (defaultHalftone\<lparr>ht_mode := ''duotone''\<rparr>) (Some defaultRegistration)
              (Some defaultPress) = Inr chs
            \<and> (\<forall>i<2. case plan ! i of
                         Inl e \<Rightarrow> e = TypeError
                       | Inr opts \<Rightarrow>
                           plateIndex opts = i + 1 \<and> ch_id opts = [''2'', ''1''] ! i
                           \<and> getValue opts = [GetLum, GetInvLum] ! i)
            \<and> drawPlates refPlatform (replicate 4 (opaque white8)) 2 2 plan
                  (fillRect (ht_paperColor defaultHalftone) (newCanvas 2 2)) =
                bindE (plan ! 0) (\<lambda>o2.
                bindE (renderPlate refPlatform (replicate 4 (opaque white8)) 2 2 o2) (\<lambda>p2.
                bindE (plan ! 1) (\<lambda>o1.
                bindE (renderPlate refPlatform (replicate 4 (opaque white8)) 2 2 o1) (\<lambda>p1.
                  Inr (drawMultiply p1 (drawMultiply p2
                    (fillRect (ht_paperColor defaultHalftone) (newCanvas 2 2)))))))))"
proof -
  have h: "ht_mode (defaultHalftone\<lparr>ht_mode := ''duotone''\<rparr>) = ''duotone''" by simp
  from duotone_order [OF h, where r = defaultRegistration and ps = "Some defaultPress"
      and M = refPlatform and active = "{}" and P = defaultParams and w = 2 and h = 2
      and src = "replicate 4 (opaque white8)"
      and out = "fillRect (ht_paperColor defaultHalftone) (newCanvas 2 2)"] h
  show ?thesis by blast
qed

section \<open>What the stages leave alone\<close>

lemma bnum_255: "bnum 255 = 255"
  by (simp add: bnum_def)

lemma clamp8_255: "clamp8 255 = 255"
  by (simp add: clamp8_def)

lemma sourceOver_alpha:
  assumes "pa p = 255" "0 \<le> k" "k \<le> 1"
  shows "pa (sourceOver c k p) = 255"
proof -
  have "k + bnum (pa p) / 255 * (1 - k) = 1" using assms by (simp add: bnum_255)
  then show ?thesis
    by (cases c) (simp add: sourceOver_def Let_def clamp8_255 assms(1) bnum_255)
qed

lemma map_enum_alpha:
  assumes "\<And>j p. pa (F j p) = pa p"
  shows "map pa (map (\<lambda>(j, p). F j p) (enumerate n d)) = map pa d"
  by (induction d arbitrary: n) (simp_all add: assms)

lemma map_alpha:
  assumes "\<And>p. pa (F p) = pa p"
  shows "map pa (map F d) = map pa d"
  by (induction d) (simp_all add: assms)

lemma opaqueAll_map_pa: "opaqueAll d \<longleftrightarrow> (\<forall>a \<in> set (map pa d). a = 255)"
  by (auto simp: opaqueAll_def)

lemma fillPath_frame:
  "width (fillPath M c d cv) = width cv" "height (fillPath M c d cv) = height cv"
  "length (data (fillPath M c d cv)) = length (data cv)"
  by (simp_all add: fillPath_def)

lemma fillPath_opaque:
  assumes "opaqueAll (data cv)"
  shows "opaqueAll (data (fillPath M c d cv))"
proof -
  have "pa (sourceOver c (clampNum 0 1 k) p) = 255" if "pa p = 255" for k p
    using that by (intro sourceOver_alpha) (simp_all add: clampNum_def)
  then show ?thesis
    using assms by (auto simp: opaqueAll_def fillPath_def in_set_enumerate_eq)
qed

lemma foldl_fillPath_frame:
  "width (foldl (\<lambda>cv d. fillPath M c d cv) cv ds) = width cv
   \<and> height (foldl (\<lambda>cv d. fillPath M c d cv) cv ds) = height cv
   \<and> length (data (foldl (\<lambda>cv d. fillPath M c d cv) cv ds)) = length (data cv)
   \<and> (opaqueAll (data cv) \<longrightarrow> opaqueAll (data (foldl (\<lambda>cv d. fillPath M c d cv) cv ds)))"
  by (induction ds arbitrary: cv) (simp_all add: fillPath_frame fillPath_opaque)

lemma hickey_fold_frame:
  "width (foldl (\<lambda>cv' s. fillPath M c1 (f s) (fillPath M c2 (g s) cv')) cv ss) = width cv
   \<and> height (foldl (\<lambda>cv' s. fillPath M c1 (f s) (fillPath M c2 (g s) cv')) cv ss) = height cv
   \<and> length (data (foldl (\<lambda>cv' s. fillPath M c1 (f s) (fillPath M c2 (g s) cv')) cv ss))
       = length (data cv)
   \<and> (opaqueAll (data cv) \<longrightarrow>
        opaqueAll (data (foldl (\<lambda>cv' s. fillPath M c1 (f s) (fillPath M c2 (g s) cv')) cv ss)))"
  by (induction ss arbitrary: cv) (simp_all add: fillPath_frame fillPath_opaque)

lemma applyPlateHickeys_frame:
  assumes "applyPlateHickeys M cv w h ps ink idx = Inr cv'"
  shows "width cv' = width cv \<and> height cv' = height cv
         \<and> length (data cv') = length (data cv)
         \<and> (opaqueAll (data cv) \<longrightarrow> opaqueAll (data cv'))"
proof (cases "js_round (hk_count ps) < 1 \<or> hk_sizeMax ps < 2")
  case True
  then show ?thesis using assms by (simp add: applyPlateHickeys_def)
next
  case False
  then obtain c where
    "cv' = foldl (\<lambda>cv' s. fillPath M white8 (disk (hickeyX s) (hickeyY s) (innerR s))
                    (fillPath M (ringColor c) (disk (hickeyX s) (hickeyY s) (outerR s)) cv'))
             cv (hickeyStamps w h ps idx)"
    using assms by (auto simp: applyPlateHickeys_def split: option.splits)
  then show ?thesis
    using hickey_fold_frame [of M white8 "\<lambda>s. disk (hickeyX s) (hickeyY s) (innerR s)"
        "ringColor c" "\<lambda>s. disk (hickeyX s) (hickeyY s) (outerR s)" cv "hickeyStamps w h ps idx"]
    by simp
qed

lemma white_canvas_frame:
  "width (fillRect c (newCanvas w h)) = w" "height (fillRect c (newCanvas w h)) = h"
  "length (data (fillRect c (newCanvas w h))) = w * h"
  "opaqueAll (data (fillRect c (newCanvas w h)))"
  by (auto simp: fillRect_def newCanvas_def opaqueAll_def opaque_def split: prod.splits)

lemma renderPlate_frame:
  assumes "renderPlate M src w h opts = Inr plate"
  shows "width plate = w \<and> height plate = h \<and> length (data plate) = w * h
         \<and> opaqueAll (data plate)"
proof -
  define ink where "ink = (case color opts of None \<Rightarrow> white8 | Some c \<Rightarrow> c)"
  define plate1 where
    "plate1 = foldl (\<lambda>cv d. fillPath M ink d cv) (fillRect white8 (newCanvas w h))
                (plateDots M src w h opts)"
  have p1: "width plate1 = w \<and> height plate1 = h \<and> length (data plate1) = w * h
            \<and> opaqueAll (data plate1)"
    unfolding plate1_def
    using foldl_fillPath_frame [of M ink "fillRect white8 (newCanvas w h)" "plateDots M src w h opts"]
    by (simp add: white_canvas_frame)
  from assms have "plate = plate1 \<or> (\<exists>hp. applyPlateHickeys M plate1 w h hp (color opts) (plateIndex opts) = Inr plate)"
    by (auto simp: renderPlate_def Let_def plate1_def ink_def split: if_splits option.splits)
  then show ?thesis
    using p1 applyPlateHickeys_frame by (metis)
qed

lemma multiplyPixel_alpha:
  assumes "pa b = 255"
  shows "pa (multiplyPixel s b) = 255"
proof -
  have "bnum (pa s) / 255 + bnum (pa b) / 255 * (1 - bnum (pa s) / 255) = 1"
    using assms by (simp add: bnum_255)
  then show ?thesis
    by (simp add: multiplyPixel_def Let_def clamp8_255)
qed

lemma drawMultiply_frame:
  "width (drawMultiply plate out) = width out" "height (drawMultiply plate out) = height out"
  "length (data (drawMultiply plate out)) = min (length (data plate)) (length (data out))"
  by (simp_all add: drawMultiply_def)

lemma drawMultiply_opaque:
  assumes "opaqueAll (data out)"
  shows "opaqueAll (data (drawMultiply plate out))"
  using assms
  by (auto simp: opaqueAll_def drawMultiply_def multiplyPixel_alpha dest!: set_zip_rightD)

lemma drawPlates_frame:
  assumes "drawPlates M src w h jobs out = Inr out'"
    and "length (data out) = w * h" and "opaqueAll (data out)"
  shows "width out' = width out \<and> height out' = height out
         \<and> length (data out') = w * h \<and> opaqueAll (data out')"
  using assms
proof (induction jobs arbitrary: out)
  case Nil
  then show ?case by simp
next
  case (Cons job jobs)
  from Cons.prems(1) obtain opts plate where
    job: "job = Inr opts" and rp: "renderPlate M src w h opts = Inr plate"
    and rest: "drawPlates M src w h jobs (drawMultiply plate out) = Inr out'"
    by (auto simp: bindE_def split: sum.splits)
  note pf = renderPlate_frame [OF rp]
  have len: "length (data (drawMultiply plate out)) = w * h"
    using pf Cons.prems(2) by (simp add: drawMultiply_frame)
  have op: "opaqueAll (data (drawMultiply plate out))"
    using Cons.prems(3) by (rule drawMultiply_opaque)
  from Cons.IH [OF rest len op] show ?case by (simp add: drawMultiply_frame)
qed

lemma getImageData_Inr: "getImageData c = Inr d \<Longrightarrow> d = data c \<and> 0 < width c \<and> 0 < height c"
  by (auto simp: getImageData_def split: if_splits)

lemma halftoneStage_frame:
  assumes "halftoneStage M active P cv = Inr out"
  shows "width out = width cv \<and> height out = height cv
         \<and> length (data out) = width cv * height cv \<and> opaqueAll (data out)
         \<and> 0 < width cv \<and> 0 < height cv"
proof -
  from assms obtain src ht chs where
    g: "getImageData cv = Inr src" and ht: "halftone P = Some ht"
    and d: "drawPlates M src (width cv) (height cv)
              (platePlan M active P ht (width cv) (height cv) chs)
              (fillRect (ht_paperColor ht) (newCanvas (width cv) (height cv))) = Inr out"
    by (auto simp: halftoneStage_def Let_def bindE_def split: sum.splits option.splits)
  from drawPlates_frame [OF d white_canvas_frame(3) white_canvas_frame(4)]
    getImageData_Inr [OF g]
  show ?thesis by (simp add: white_canvas_frame)
qed

lemma setRGB_alpha: "pa (setRGB p r g b) = pa p"
  by (simp add: setRGB_def)

lemma halationPass_alpha: "map pa (halationPass s hs w h d) = map pa d"
proof -
  obtain t0 t1 t2 where t: "halTint s = (t0, t1, t2)" by (cases "halTint s")
  show ?thesis
    unfolding halationPass_def Let_def t prod.case
    by (rule map_enum_alpha) (simp add: setRGB_alpha)
qed

lemma curvePass_alpha: "map pa (curvePass lr lg lb d) = map pa d"
  unfolding curvePass_def by (rule map_alpha) (simp add: setRGB_alpha)

lemma bwPass_alpha: "map pa (bwPass ws d) = map pa d"
proof -
  obtain wr wg wb where t: "ws = (wr, wg, wb)" by (cases ws)
  show ?thesis
    unfolding bwPass_def t prod.case by (rule map_alpha) (simp add: setRGB_alpha Let_def)
qed

lemma saturationPass_alpha: "map pa (saturationPass sat d) = map pa d"
  unfolding saturationPass_def by (rule map_alpha) (simp add: setRGB_alpha Let_def)

lemma fadePass_alpha: "map pa (fadePass s fade d) = map pa d"
  unfolding fadePass_def Let_def by (rule map_alpha) (simp add: setRGB_alpha)

lemma filmStockPixels_alpha: "map pa (filmStockPixels M s p w h d) = map pa d"
  by (simp add: filmStockPixels_def Let_def halationPass_alpha curvePass_alpha bwPass_alpha
        saturationPass_alpha fadePass_alpha split: option.splits)

lemma veloxPixels_alpha: "map pa (veloxPixels M p d) = map pa d"
  unfolding veloxPixels_def Let_def by (rule map_alpha) (simp add: setRGB_alpha)

lemma grainPixels_alpha: "map pa (grainPixels M k p d) = map pa d"
  unfolding grainPixels_def Let_def by (rule map_enum_alpha) (simp add: setRGB_alpha)

lemma inkBleedPixels_alpha: "map pa (inkBleedPixels M w h radius ab dir pc feed src) = map pa src"
  unfolding inkBleedPixels_def Let_def
  by (rule map_enum_alpha) (simp add: setRGB_alpha split: prod.splits)

lemma paperPixels_alpha: "map pa (paperPixels pressure texture pc pm od) = map pa od"
proof -
  obtain p0 p1 p2 where t: "pc = (p0, p1, p2)" by (cases pc)
  show ?thesis
    unfolding paperPixels_def t prod.case Let_def
    by (rule map_enum_alpha) (simp add: setRGB_alpha)
qed

lemma bindE_eq_Inr: "bindE m f = Inr y \<longleftrightarrow> (\<exists>x. m = Inr x \<and> f x = Inr y)"
  by (cases m) (simp_all add: bindE_def)

lemma copyCanvas_Inr:
  "copyCanvas cv = Inr dst \<Longrightarrow>
     width dst = width cv \<and> height dst = height cv \<and> data dst = data cv
     \<and> 0 < width cv \<and> 0 < height cv"
  by (auto simp: copyCanvas_def newCanvas_def split: if_splits)

lemma sameFrame_refl: "sameFrame a a"
  by (simp add: sameFrame_def)

lemma sameFrame_trans: "sameFrame a b \<Longrightarrow> sameFrame b c \<Longrightarrow> sameFrame a c"
  by (simp add: sameFrame_def)

lemma sameFrame_length: "sameFrame a b \<Longrightarrow> length (data b) = length (data a)"
  by (auto simp: sameFrame_def dest: map_eq_imp_length_eq)

lemma applyFilmStock_frame:
  assumes "applyFilmStock M cv ps = Inr cv'"
  shows "sameFrame cv cv'"
proof -
  from assms obtain p where p: "ps = Some p" by (cases ps) (auto simp: applyFilmStock_def)
  show ?thesis
  proof (cases "FILM_STOCKS (fs_stock p)")
    case (Found s)
    with assms p obtain dst d where
      c: "copyCanvas cv = Inr dst" and g: "getImageData dst = Inr d"
      and r: "cv' = putImageData dst (filmStockPixels M s p (width dst) (height dst) d)"
      by (auto simp: applyFilmStock_def bindE_def split: sum.splits)
    from copyCanvas_Inr [OF c] getImageData_Inr [OF g] r show ?thesis
      by (simp add: sameFrame_def putImageData_def filmStockPixels_alpha)
  next
    case Inherited
    with assms p show ?thesis
      by (auto simp: applyFilmStock_def bindE_def split: sum.splits)
  next
    case Undefined
    with assms p show ?thesis by (simp add: applyFilmStock_def sameFrame_refl)
  qed
qed

lemma applyVelox_frame:
  assumes "applyVelox M cv ps = Inr cv'"
  shows "sameFrame cv cv'"
proof -
  from assms obtain dst d p where
    c: "copyCanvas cv = Inr dst" and g: "getImageData dst = Inr d"
    and r: "cv' = putImageData dst (veloxPixels M p d)"
    by (auto simp: applyVelox_def bindE_def split: sum.splits option.splits)
  from copyCanvas_Inr [OF c] getImageData_Inr [OF g] r show ?thesis
    by (simp add: sameFrame_def putImageData_def veloxPixels_alpha)
qed

lemma applyGrain_frame:
  assumes "applyGrain M k cv ps = Inr (cv', k')"
  shows "sameFrame cv cv'"
proof -
  from assms obtain dst d p where
    c: "copyCanvas cv = Inr dst" and g: "getImageData dst = Inr d"
    and r: "cv' = putImageData dst (grainPixels M k p d)"
    by (auto simp: applyGrain_def bindE_def split: sum.splits option.splits)
  from copyCanvas_Inr [OF c] getImageData_Inr [OF g] r show ?thesis
    by (simp add: sameFrame_def putImageData_def grainPixels_alpha)
qed

lemma applyInkBleed_frame:
  assumes "applyInkBleed M out w h ps pc feed = Inr out'"
  shows "sameFrame out out'"
proof -
  from assms obtain p where p: "ps = Some p" by (cases ps) (auto simp: applyInkBleed_def)
  show ?thesis
  proof (cases "js_round (ib_radius p) < 1")
    case True
    with assms p show ?thesis by (simp add: applyInkBleed_def sameFrame_refl)
  next
    case False
    with assms p obtain src where g: "getImageData out = Inr src"
      and r: "out' = putImageData out (inkBleedPixels M w h (js_round (ib_radius p))
                (ib_absorbency p) (orNum (ib_directionality p) 0) pc feed src)"
      by (auto simp: applyInkBleed_def Let_def bindE_def split: sum.splits)
    from getImageData_Inr [OF g] r show ?thesis
      by (simp add: sameFrame_def putImageData_def inkBleedPixels_alpha)
  qed
qed

lemma applyPaper_frame:
  assumes "applyPaper M k out w h ps pressure pc feed = Inr out'"
  shows "sameFrame out out'"
  using assms
  by (auto simp: applyPaper_def bindE_eq_Inr sameFrame_def putImageData_def paperPixels_alpha
        split_beta dest!: getImageData_Inr split: option.splits)

lemma finishing_frame:
  assumes "finishing M active P k out = Inr out'"
  shows "sameFrame out out'"
proof (cases "halftone P")
  case None
  with assms show ?thesis by (simp add: finishing_def Let_def)
next
  case (Some ht)
  define feed where "feed = (case press P of Some p \<Rightarrow> pr_feed p | None \<Rightarrow> ''vertical'')"
  define pressure where "pressure = (case press P of Some p \<Rightarrow> pr_pressure p | None \<Rightarrow> 1)"
  from assms Some obtain out1 where
    a: "(if ''inkbleed'' \<in> active
         then applyInkBleed M out (width out) (height out) (inkbleed P) (ht_paperColor ht) feed
         else Inr out) = Inr out1"
    and b: "(if ''paper'' \<in> active
            then applyPaper M k out1 (width out) (height out) (paper P) pressure
                   (ht_paperColor ht) feed
            else Inr out1) = Inr out'"
    unfolding finishing_def Let_def feed_def [symmetric] pressure_def [symmetric]
    by (auto simp: bindE_eq_Inr)
  have 1: "sameFrame out out1"
    using a applyInkBleed_frame by (auto simp: sameFrame_refl split: if_splits)
  have 2: "sameFrame out1 out'"
    using b applyPaper_frame by (auto simp: sameFrame_refl split: if_splits)
  from 1 2 show ?thesis by (rule sameFrame_trans)
qed

lemma sameFrame_opaque: "sameFrame a b \<Longrightarrow> opaqueAll (data a) \<Longrightarrow> opaqueAll (data b)"
  by (simp add: opaqueAll_map_pa sameFrame_def)

text \<open>The export path without upscale: the working canvas is the source, stage by stage.\<close>

lemma prepress_export:
  assumes "forExport e" and "upscale e \<le> 1" and "bitmap e = Some bmp"
  shows "prepress M e =
     bindE (if ''filmstock'' \<in> set (activeModulesList e)
            then applyFilmStock M ((newCanvas (width bmp) (height bmp))\<lparr>data := data bmp\<rparr>)
                   (filmstock (params e))
            else Inr ((newCanvas (width bmp) (height bmp))\<lparr>data := data bmp\<rparr>)) (\<lambda>c2.
     bindE (if ''velox'' \<in> set (activeModulesList e) then applyVelox M c2 (velox (params e))
            else Inr c2) (\<lambda>c3.
       if ''grain'' \<in> set (activeModulesList e) then applyGrain M 0 c3 (grain (params e))
       else Inr (c3, 0)))"
proof -
  have "\<not> 1 < upscale e" using assms(2) by simp
  then show ?thesis using assms(1,3) by (simp add: prepress_def Let_def bindE_Inr)
qed

lemma prepress_frame:
  assumes "prepress M e = Inr (cv, k)" and "forExport e" and "upscale e \<le> 1"
    and "bitmap e = Some bmp"
  shows "sameFrame bmp cv"
proof -
  define c1 where "c1 = (newCanvas (width bmp) (height bmp))\<lparr>data := data bmp\<rparr>"
  define A where "A = set (activeModulesList e)"
  have s0: "sameFrame bmp c1" by (simp add: sameFrame_def c1_def newCanvas_def)
  from assms(1) obtain c2 c3 where
    f: "(if ''filmstock'' \<in> A then applyFilmStock M c1 (filmstock (params e)) else Inr c1) = Inr c2"
    and v: "(if ''velox'' \<in> A then applyVelox M c2 (velox (params e)) else Inr c2) = Inr c3"
    and g: "(if ''grain'' \<in> A then applyGrain M 0 c3 (grain (params e)) else Inr (c3, 0)) = Inr (cv, k)"
    unfolding prepress_export [OF assms(2,3,4)] c1_def [symmetric] A_def [symmetric] bindE_eq_Inr
    by blast
  have s1: "sameFrame c1 c2"
    using f applyFilmStock_frame by (auto simp: sameFrame_refl split: if_splits)
  have s2: "sameFrame c2 c3"
    using v applyVelox_frame by (auto simp: sameFrame_refl split: if_splits)
  have s3: "sameFrame c3 cv"
    using g applyGrain_frame by (auto simp: sameFrame_refl split: if_splits)
  from s0 s1 s2 s3 show ?thesis by (blast intro: sameFrame_trans)
qed

lemma onmessage_Inr:
  assumes "onmessage M e = Inr resp"
  obtains cv k out where "prepress M e = Inr (cv, k)"
    and "halftoneStage M (set (activeModulesList e)) (params e) cv = Inr out"
    and "finishing M (set (activeModulesList e)) (params e) k out = Inr (resultBitmap resp)"
    and "resTaskId resp = taskId e"
  using assms
  by (auto simp: onmessage_def Let_def bindE_def split: sum.splits prod.splits)

lemma copyCanvas_returns:
  "0 < width cv \<Longrightarrow> 0 < height cv \<Longrightarrow> \<exists>dst. copyCanvas cv = Inr dst"
  by (simp add: copyCanvas_def)

lemma applyFilmStock_returns:
  assumes "0 < width cv" "0 < height cv" "ps = Some p" "FILM_STOCKS (fs_stock p) \<noteq> Inherited"
  shows "\<exists>cv'. applyFilmStock M cv ps = Inr cv'"
  using assms
  by (cases "FILM_STOCKS (fs_stock p)")
     (simp_all add: applyFilmStock_def copyCanvas_def getImageData_def bindE_def newCanvas_def)

lemma applyVelox_returns:
  assumes "0 < width cv" "0 < height cv" "ps = Some p"
  shows "\<exists>cv'. applyVelox M cv ps = Inr cv'"
  using assms
  by (simp add: applyVelox_def copyCanvas_def getImageData_def bindE_def newCanvas_def)

lemma applyGrain_returns:
  assumes "0 < width cv" "0 < height cv" "ps = Some p"
  shows "\<exists>cv' k'. applyGrain M k cv ps = Inr (cv', k')"
  using assms
  by (simp add: applyGrain_def copyCanvas_def getImageData_def bindE_def newCanvas_def)

lemma applyInkBleed_returns:
  assumes "0 < width out" "0 < height out" "ps = Some p"
  shows "\<exists>out'. applyInkBleed M out w h ps pc feed = Inr out'"
  using assms by (simp add: applyInkBleed_def getImageData_def bindE_def Let_def)

lemma applyPaper_returns:
  assumes "0 < width out" "0 < height out" "ps = Some p"
  shows "\<exists>out'. applyPaper M k out w h ps pressure pc feed = Inr out'"
  using assms by (simp add: applyPaper_def getImageData_def bindE_def split_beta)

lemma sameFrame_pos:
  "sameFrame a b \<Longrightarrow> 0 < width a \<Longrightarrow> 0 < height a \<Longrightarrow> 0 < width b \<and> 0 < height b"
  by (simp add: sameFrame_def)

lemma prepress_returns:
  assumes "complete e" and "forExport e" and "upscale e \<le> 1"
  shows "\<exists>cv k. prepress M e = Inr (cv, k)"
proof -
  define A where "A = set (activeModulesList e)"
  from assms(1) obtain bmp where bmp: "bitmap e = Some bmp" "0 < width bmp" "0 < height bmp"
    by (auto simp: complete_def Let_def split: option.splits)
  define c1 where "c1 = (newCanvas (width bmp) (height bmp))\<lparr>data := data bmp\<rparr>"
  have p1: "0 < width c1" "0 < height c1" using bmp by (simp_all add: c1_def newCanvas_def)
  have "\<exists>c2. (if ''filmstock'' \<in> A then applyFilmStock M c1 (filmstock (params e)) else Inr c1)
          = Inr c2"
  proof (cases "''filmstock'' \<in> A")
    case True
    with assms(1) obtain p where "filmstock (params e) = Some p"
      "FILM_STOCKS (fs_stock p) \<noteq> Inherited"
      by (auto simp: complete_def Let_def A_def split: option.splits)
    from applyFilmStock_returns [OF p1 this] True show ?thesis by simp
  qed simp
  then obtain c2 where
    f: "(if ''filmstock'' \<in> A then applyFilmStock M c1 (filmstock (params e)) else Inr c1) = Inr c2"
    by blast
  have "sameFrame c1 c2" using f applyFilmStock_frame by (auto simp: sameFrame_refl split: if_splits)
  from sameFrame_pos [OF this p1] have p2: "0 < width c2" "0 < height c2" by simp_all
  have "\<exists>c3. (if ''velox'' \<in> A then applyVelox M c2 (velox (params e)) else Inr c2) = Inr c3"
  proof (cases "''velox'' \<in> A")
    case True
    with assms(1) obtain p where "velox (params e) = Some p"
      by (auto simp: complete_def Let_def A_def)
    from applyVelox_returns [OF p2 this] True show ?thesis by simp
  qed simp
  then obtain c3 where
    v: "(if ''velox'' \<in> A then applyVelox M c2 (velox (params e)) else Inr c2) = Inr c3"
    by blast
  have "sameFrame c2 c3" using v applyVelox_frame by (auto simp: sameFrame_refl split: if_splits)
  from sameFrame_pos [OF this p2] have p3: "0 < width c3" "0 < height c3" by simp_all
  have "\<exists>cv k. (if ''grain'' \<in> A then applyGrain M 0 c3 (grain (params e)) else Inr (c3, 0))
          = Inr (cv, k)"
  proof (cases "''grain'' \<in> A")
    case True
    with assms(1) obtain p where "grain (params e) = Some p"
      by (auto simp: complete_def Let_def A_def)
    from applyGrain_returns [OF p3 this] True show ?thesis by simp
  qed simp
  then obtain cv k where
    g: "(if ''grain'' \<in> A then applyGrain M 0 c3 (grain (params e)) else Inr (c3, 0)) = Inr (cv, k)"
    by blast
  have "prepress M e = Inr (cv, k)"
    unfolding prepress_export [OF assms(2,3) bmp(1)] c1_def [symmetric] A_def [symmetric]
    using f v g by (simp add: bindE_Inr)
  then show ?thesis by blast
qed

lemma renderPlate_returns:
  assumes "0 < cellSize opts" and "optHickeys opts = None \<or> color opts \<noteq> None"
  shows "\<exists>plate. renderPlate M src w h opts = Inr plate"
  using assms
  by (auto simp: renderPlate_def Let_def applyPlateHickeys_def split: option.splits)

lemma drawPlates_returns:
  assumes "\<forall>job \<in> set jobs. \<exists>opts. job = Inr opts \<and> 0 < cellSize opts
             \<and> (optHickeys opts = None \<or> color opts \<noteq> None)"
  shows "\<exists>out'. drawPlates M src w h jobs out = Inr out'"
  using assms
proof (induction jobs arbitrary: out)
  case Nil
  then show ?case by simp
next
  case (Cons job jobs)
  then obtain opts where o: "job = Inr opts" "0 < cellSize opts"
    "optHickeys opts = None \<or> color opts \<noteq> None" by auto
  from renderPlate_returns [OF o(2,3)] obtain plate where
    "renderPlate M src w h opts = Inr plate" by blast
  then show ?case using Cons o(1) by (simp add: bindE_Inr)
qed

lemma setupChannels_returns:
  assumes "ht_mode ht = ''duotone'' \<and> needColor
             \<longrightarrow> ht_duotoneColor1 ht \<noteq> None \<and> ht_duotoneColor2 ht \<noteq> None"
  shows "\<exists>chs. setupChannels ht (Some r) ps = Inr chs
               \<and> (needColor \<longrightarrow> (\<forall>ch \<in> set chs. color ch \<noteq> None))"
proof (cases "ht_mode ht = ''bw''")
  case True
  have "\<exists>a aa b. (case ht_duotoneColor1 ht of None \<Rightarrow> (0, 0, 0) | Some c \<Rightarrow> c) = (a, aa, b)"
    by (metis prod_cases3)
  with True show ?thesis by (simp add: setupChannels_def Let_def mkChannel_def)
next
  case False
  show ?thesis
  proof (cases "ht_mode ht = ''duotone''")
    case True
    with assms show ?thesis by (simp add: setupChannels_def Let_def mkChannel_def)
  next
    case d: False
    with False show ?thesis
      by (simp add: setupChannels_def Let_def mkChannel_def cmykChannels_def)
  qed
qed

lemma plateOptions_returns:
  assumes "skipActive \<longrightarrow> sk \<noteq> None" and "dg \<noteq> None" and "reg \<noteq> None"
  shows "\<exists>opts. plateOptions M skipActive sk dg reg hk shape cs feed sl w h ch index = Inr opts"
  using assms by (auto simp: plateOptions_def bindE_def)

lemma platePlan_jobs:
  assumes "job \<in> set (platePlan M active P ht w h chs)"
    and "''inkskip'' \<in> active \<longrightarrow> inkskip P \<noteq> None"
    and "''dotgain'' \<in> active \<longrightarrow> dotgain P \<noteq> None"
    and "''registration'' \<in> active \<longrightarrow> registration P \<noteq> None"
  shows "\<exists>opts ch. job = Inr opts \<and> ch \<in> set chs \<and> cellSize opts = ht_cellSize ht
           \<and> color opts = color ch
           \<and> optHickeys opts = (if ''hickeys'' \<in> active then hickeys P else None)"
proof -
  from assms(1) obtain i where i: "i < length chs" and j: "job = platePlan M active P ht w h chs ! i"
    by (auto simp: in_set_conv_nth length_platePlan)
  have dg: "(if ''dotgain'' \<in> active then dotgain P else Some defaultDotgain) \<noteq> None"
    using assms(3) by simp
  have rg: "(if ''registration'' \<in> active then registration P else Some defaultRegistration) \<noteq> None"
    using assms(4) by simp
  from plateOptions_returns [OF assms(2) dg rg] obtain opts where
    o: "platePlan M active P ht w h chs ! i = Inr opts"
    unfolding nth_platePlan [OF i] by blast
  from plateOptions_Inr [OF o [unfolded nth_platePlan [OF i]]] nth_mem [OF i] j o
  show ?thesis by auto
qed

lemma halftoneStage_returns:
  assumes "complete e" and "0 < width cv" and "0 < height cv"
  shows "\<exists>out. halftoneStage M (set (activeModulesList e)) (params e) cv = Inr out"
proof -
  define A where "A = set (activeModulesList e)"
  define P where "P = params e"
  from assms(1) obtain ht where ht: "halftone P = Some ht" "0 < ht_cellSize ht"
    "ht_mode ht = ''duotone'' \<and> ''hickeys'' \<in> A
       \<longrightarrow> ht_duotoneColor1 ht \<noteq> None \<and> ht_duotoneColor2 ht \<noteq> None"
    by (auto simp: complete_def Let_def A_def P_def split: option.splits)
  from assms(1) have ent: "''inkskip'' \<in> A \<longrightarrow> inkskip P \<noteq> None"
    "''dotgain'' \<in> A \<longrightarrow> dotgain P \<noteq> None"
    "''registration'' \<in> A \<longrightarrow> registration P \<noteq> None"
    by (auto simp: complete_def Let_def A_def P_def)
  define reg where "reg = (if ''registration'' \<in> A then registration P else Some defaultRegistration)"
  from ent(3) obtain r where r: "reg = Some r"
    by (cases "''registration'' \<in> A") (auto simp: reg_def)
  from setupChannels_returns [OF ht(3), of r "press P"] obtain chs where
    chs: "setupChannels ht reg (press P) = Inr chs"
    and col: "''hickeys'' \<in> A \<longrightarrow> (\<forall>ch \<in> set chs. color ch \<noteq> None)"
    unfolding r by blast
  have jobs: "\<forall>job \<in> set (platePlan M A P ht (width cv) (height cv) chs).
      \<exists>opts. job = Inr opts \<and> 0 < cellSize opts
        \<and> (optHickeys opts = None \<or> color opts \<noteq> None)"
  proof
    fix job
    assume "job \<in> set (platePlan M A P ht (width cv) (height cv) chs)"
    from platePlan_jobs [OF this ent] obtain opts ch where
      "job = Inr opts" "ch \<in> set chs" "cellSize opts = ht_cellSize ht" "color opts = color ch"
      "optHickeys opts = (if ''hickeys'' \<in> A then hickeys P else None)" by blast
    then show "\<exists>opts. job = Inr opts \<and> 0 < cellSize opts
        \<and> (optHickeys opts = None \<or> color opts \<noteq> None)"
      using ht(2) col by auto
  qed
  from drawPlates_returns [OF jobs] obtain out where
    "drawPlates M (data cv) (width cv) (height cv)
       (platePlan M A P ht (width cv) (height cv) chs)
       (fillRect (ht_paperColor ht) (newCanvas (width cv) (height cv))) = Inr out"
    by blast
  then have "halftoneStage M A P cv = Inr out"
    using assms(2,3) ht(1) chs
    by (simp add: halftoneStage_def Let_def getImageData_def bindE_Inr reg_def)
  then show ?thesis unfolding A_def P_def by blast
qed

lemma finishing_returns:
  assumes "complete e" and "0 < width out" and "0 < height out"
  shows "\<exists>out'. finishing M (set (activeModulesList e)) (params e) k out = Inr out'"
proof -
  define A where "A = set (activeModulesList e)"
  define P where "P = params e"
  define feed where "feed = (case press P of Some p \<Rightarrow> pr_feed p | None \<Rightarrow> ''vertical'')"
  define pressure where "pressure = (case press P of Some p \<Rightarrow> pr_pressure p | None \<Rightarrow> 1)"
  from assms(1) obtain ht where ht: "halftone P = Some ht"
    by (auto simp: complete_def Let_def P_def split: option.splits)
  have "\<exists>out1. (if ''inkbleed'' \<in> A
         then applyInkBleed M out (width out) (height out) (inkbleed P) (ht_paperColor ht) feed
         else Inr out) = Inr out1"
  proof (cases "''inkbleed'' \<in> A")
    case True
    with assms(1) obtain p where "inkbleed P = Some p"
      by (auto simp: complete_def Let_def A_def P_def)
    from applyInkBleed_returns [OF assms(2,3) this] True show ?thesis by simp
  qed simp
  then obtain out1 where
    a: "(if ''inkbleed'' \<in> A
         then applyInkBleed M out (width out) (height out) (inkbleed P) (ht_paperColor ht) feed
         else Inr out) = Inr out1" by blast
  have "sameFrame out out1"
    using a applyInkBleed_frame by (auto simp: sameFrame_refl split: if_splits)
  from sameFrame_pos [OF this assms(2,3)] have p1: "0 < width out1" "0 < height out1" by simp_all
  have "\<exists>out'. (if ''paper'' \<in> A
            then applyPaper M k out1 (width out) (height out) (paper P) pressure
                   (ht_paperColor ht) feed
            else Inr out1) = Inr out'"
  proof (cases "''paper'' \<in> A")
    case True
    with assms(1) obtain p where "paper P = Some p"
      by (auto simp: complete_def Let_def A_def P_def)
    from applyPaper_returns [OF p1 this] True show ?thesis by simp
  qed simp
  then obtain out' where
    b: "(if ''paper'' \<in> A
            then applyPaper M k out1 (width out) (height out) (paper P) pressure
                   (ht_paperColor ht) feed
            else Inr out1) = Inr out'" by blast
  have "finishing M A P k out = Inr out'"
    unfolding finishing_def Let_def feed_def [symmetric] pressure_def [symmetric]
    using ht a b by (simp add: bindE_Inr)
  then show ?thesis unfolding A_def P_def by blast
qed

text \<open>An export without upscale of a complete request posts a response.\<close>

lemma run_returns:
  assumes "complete e" and "forExport e" and "upscale e \<le> 1"
  shows "\<exists>resp. onmessage M e = Inr resp"
proof -
  from assms(1) obtain bmp where bmp: "bitmap e = Some bmp" "0 < width bmp" "0 < height bmp"
    by (auto simp: complete_def Let_def split: option.splits)
  from prepress_returns [OF assms] obtain cv k where p: "prepress M e = Inr (cv, k)" by blast
  from prepress_frame [OF p assms(2,3) bmp(1)] bmp(2,3)
  have pc: "0 < width cv" "0 < height cv" by (simp_all add: sameFrame_def)
  from halftoneStage_returns [OF assms(1) pc] obtain out where
    h: "halftoneStage M (set (activeModulesList e)) (params e) cv = Inr out" by blast
  from halftoneStage_frame [OF h] pc have po: "0 < width out" "0 < height out" by simp_all
  from finishing_returns [OF assms(1) po] obtain out' where
    f: "finishing M (set (activeModulesList e)) (params e) k out = Inr out'" by blast
  show ?thesis using p h f by (simp add: onmessage_def Let_def bindE_Inr)
qed

section \<open>Dimensions and alpha of the result (C8, C3)\<close>

lemma run_frame:
  assumes "onmessage M e = Inr resp"
  shows "\<exists>cv k out. prepress M e = Inr (cv, k)
           \<and> halftoneStage M (set (activeModulesList e)) (params e) cv = Inr out
           \<and> finishing M (set (activeModulesList e)) (params e) k out = Inr (resultBitmap resp)
           \<and> width out = width cv \<and> height out = height cv
           \<and> length (data out) = width cv * height cv
           \<and> opaqueAll (data out) \<and> sameFrame out (resultBitmap resp)"
proof -
  from assms obtain cv k out where p: "prepress M e = Inr (cv, k)"
    and h: "halftoneStage M (set (activeModulesList e)) (params e) cv = Inr out"
    and f: "finishing M (set (activeModulesList e)) (params e) k out = Inr (resultBitmap resp)"
    by (rule onmessage_Inr)
  from halftoneStage_frame [OF h] finishing_frame [OF f] p h f show ?thesis by blast
qed

text \<open>
  C8. When \<^verbatim>\<open>forExport\<close> is true and \<^verbatim>\<open>upscale\<close> is 1, the rendered result has exactly the
  width and height of the source, and holds that many pixels; so does the working canvas
  after the pre-press stages. A run that throws renders nothing; a complete request does
  not throw.
\<close>

theorem export_dimensions:
  assumes "forExport e" and "upscale e = 1" and "bitmap e = Some bmp"
  shows "(\<forall>resp. onmessage M e = Inr resp \<longrightarrow>
            width (resultBitmap resp) = width bmp \<and> height (resultBitmap resp) = height bmp
            \<and> rasterOk (resultBitmap resp))
         \<and> (\<forall>cv k. prepress M e = Inr (cv, k) \<longrightarrow> width cv = width bmp \<and> height cv = height bmp)
         \<and> (complete e \<longrightarrow> (\<exists>resp. onmessage M e = Inr resp))"
proof (intro conjI allI impI)
  have u: "upscale e \<le> 1" using assms(2) by simp
  {
    fix cv k
    assume "prepress M e = Inr (cv, k)"
    from prepress_frame [OF this assms(1) u assms(3)]
    show "width cv = width bmp" "height cv = height bmp" by (simp_all add: sameFrame_def)
  } note pre = this
  {
    fix resp
    assume "onmessage M e = Inr resp"
    from run_frame [OF this] obtain cv k out where p: "prepress M e = Inr (cv, k)"
      and o: "width out = width cv" "height out = height cv"
        "length (data out) = width cv * height cv"
      and s: "sameFrame out (resultBitmap resp)" by blast
    from s o pre [OF p] sameFrame_length [OF s]
    show "width (resultBitmap resp) = width bmp" "height (resultBitmap resp) = height bmp"
      "rasterOk (resultBitmap resp)"
      by (simp_all add: sameFrame_def rasterOk_def)
  }
  assume "complete e"
  from run_returns [OF this assms(1) u] show "\<exists>resp. onmessage M e = Inr resp" .
qed

lemma complete_defaults:
  "0 < w \<Longrightarrow> 0 < h \<Longrightarrow> complete (exportRequest (solid w h p) act defaultParams)"
  by (simp add: complete_def exportRequest_def solid_def defaultParams_def defaultHalftone_def
        FILM_STOCKS_def)

theorem export_dimensions_witness:
  "forExport (exportRequest (solid 2 2 (opaque white8)) [''filmstock'', ''grain''] defaultParams)
   \<and> upscale (exportRequest (solid 2 2 (opaque white8)) [''filmstock'', ''grain''] defaultParams) = 1
   \<and> bitmap (exportRequest (solid 2 2 (opaque white8)) [''filmstock'', ''grain''] defaultParams)
       = Some (solid 2 2 (opaque white8))
   \<and> complete (exportRequest (solid 2 2 (opaque white8)) [''filmstock'', ''grain''] defaultParams)
   \<and> (\<exists>resp. onmessage refPlatform
                (exportRequest (solid 2 2 (opaque white8)) [''filmstock'', ''grain''] defaultParams)
              = Inr resp
            \<and> width (resultBitmap resp) = 2 \<and> height (resultBitmap resp) = 2
            \<and> rasterOk (resultBitmap resp))"
proof -
  define e where "e = exportRequest (solid 2 2 (opaque white8)) [''filmstock'', ''grain''] defaultParams"
  have h: "forExport e" "upscale e = 1" "bitmap e = Some (solid 2 2 (opaque white8))"
    by (simp_all add: e_def exportRequest_def)
  have c: "complete e" unfolding e_def by (rule complete_defaults) simp_all
  from export_dimensions [OF h, of refPlatform] c obtain resp where
    "onmessage refPlatform e = Inr resp" "width (resultBitmap resp) = width (solid 2 2 (opaque white8))"
    "height (resultBitmap resp) = height (solid 2 2 (opaque white8))" "rasterOk (resultBitmap resp)"
    by blast
  then have "\<exists>resp. onmessage refPlatform e = Inr resp
            \<and> width (resultBitmap resp) = 2 \<and> height (resultBitmap resp) = 2
            \<and> rasterOk (resultBitmap resp)"
    by (auto simp: solid_def)
  with h c show ?thesis unfolding e_def by blast
qed

text \<open>
  C3, as stated, fails: a source of one fully transparent pixel is rendered to one fully
  opaque pixel.
\<close>

theorem output_alpha_counterexample:
  "case onmessage refPlatform (exportRequest (solid 1 1 transparent) [] defaultParams) of
     Inl err \<Rightarrow> False
   | Inr resp \<Rightarrow> map pa (data (resultBitmap resp)) = [255]
                \<and> map pa (data (solid 1 1 transparent)) = [0]"
proof -
  define e where "e = exportRequest (solid 1 1 transparent) [] defaultParams"
  have h: "forExport e" "upscale e \<le> 1" "bitmap e = Some (solid 1 1 transparent)"
    by (simp_all add: e_def exportRequest_def)
  have c: "complete e" unfolding e_def by (rule complete_defaults) simp_all
  from run_returns [OF c h(1,2)] obtain resp where r: "onmessage refPlatform e = Inr resp" by blast
  from run_frame [OF r] obtain cv k out where p: "prepress refPlatform e = Inr (cv, k)"
    and o: "length (data out) = width cv * height cv" "opaqueAll (data out)"
    and s: "sameFrame out (resultBitmap resp)" by blast
  from prepress_frame [OF p h] have "width cv = 1" "height cv = 1"
    by (simp_all add: sameFrame_def solid_def)
  with o(1) sameFrame_length [OF s] have len: "length (data (resultBitmap resp)) = 1" by simp
  have "opaqueAll (data (resultBitmap resp))" using s o(2) by (rule sameFrame_opaque)
  with len have "map pa (data (resultBitmap resp)) = [255]"
    by (cases "data (resultBitmap resp)") (simp_all add: opaqueAll_def)
  moreover have "map pa (data (solid 1 1 transparent)) = [0]"
    by (simp add: solid_def transparent_def)
  ultimately show ?thesis using r unfolding e_def by simp
qed

text \<open>
  C3, amended. Film stock, velox and grain leave the alpha of every pixel untouched, and
  so do ink bleed and paper tooth; the halftone stage does not carry the source alpha
  over: it composites the plates onto a fresh canvas filled with the opaque paper
  colour, so every pixel of the render output has alpha 255, whatever the alpha of the
  input.
\<close>

theorem output_alpha:
  "\<forall>resp. onmessage M e = Inr resp \<longrightarrow>
     opaqueAll (data (resultBitmap resp)) \<and> rasterOk (resultBitmap resp)
     \<and> (\<exists>cv k out. prepress M e = Inr (cv, k)
           \<and> halftoneStage M (set (activeModulesList e)) (params e) cv = Inr out
           \<and> finishing M (set (activeModulesList e)) (params e) k out = Inr (resultBitmap resp)
           \<and> (\<forall>bmp. forExport e \<and> upscale e \<le> 1 \<and> bitmap e = Some bmp \<longrightarrow> sameFrame bmp cv)
           \<and> opaqueAll (data out) \<and> sameFrame out (resultBitmap resp))"
proof (intro allI impI)
  fix resp
  assume "onmessage M e = Inr resp"
  from run_frame [OF this] obtain cv k out where p: "prepress M e = Inr (cv, k)"
    and h: "halftoneStage M (set (activeModulesList e)) (params e) cv = Inr out"
    and f: "finishing M (set (activeModulesList e)) (params e) k out = Inr (resultBitmap resp)"
    and o: "width out = width cv" "height out = height cv"
      "length (data out) = width cv * height cv" "opaqueAll (data out)"
    and s: "sameFrame out (resultBitmap resp)" by blast
  have 1: "opaqueAll (data (resultBitmap resp))" using s o(4) by (rule sameFrame_opaque)
  have 2: "rasterOk (resultBitmap resp)"
    using s o sameFrame_length [OF s] by (simp add: sameFrame_def rasterOk_def)
  have 3: "\<forall>bmp. forExport e \<and> upscale e \<le> 1 \<and> bitmap e = Some bmp \<longrightarrow> sameFrame bmp cv"
    using prepress_frame [OF p] by blast
  from 1 2 3 p h f o(4) s
  show "opaqueAll (data (resultBitmap resp)) \<and> rasterOk (resultBitmap resp)
     \<and> (\<exists>cv k out. prepress M e = Inr (cv, k)
           \<and> halftoneStage M (set (activeModulesList e)) (params e) cv = Inr out
           \<and> finishing M (set (activeModulesList e)) (params e) k out = Inr (resultBitmap resp)
           \<and> (\<forall>bmp. forExport e \<and> upscale e \<le> 1 \<and> bitmap e = Some bmp \<longrightarrow> sameFrame bmp cv)
           \<and> opaqueAll (data out) \<and> sameFrame out (resultBitmap resp))"
    by blast
qed

theorem output_alpha_witness:
  "\<exists>resp. onmessage refPlatform (exportRequest (solid 2 2 (opaque white8)) [''velox''] defaultParams)
             = Inr resp
          \<and> opaqueAll (data (resultBitmap resp)) \<and> rasterOk (resultBitmap resp)"
proof -
  define e where "e = exportRequest (solid 2 2 (opaque white8)) [''velox''] defaultParams"
  have h: "forExport e" "upscale e \<le> 1" by (simp_all add: e_def exportRequest_def)
  have c: "complete e" unfolding e_def by (rule complete_defaults) simp_all
  from run_returns [OF c h] output_alpha [of refPlatform e]
  show ?thesis unfolding e_def by blast
qed

section \<open>What the run reads of a request\<close>

text \<open>The print stages read the active list only through the membership of six ids,
  the pre-press stages through that of three.\<close>

lemma print_cong:
  assumes "\<forall>m \<in> set [''dotgain'', ''registration'', ''hickeys'', ''inkskip'', ''inkbleed'',
                      ''paper'']. m \<in> A \<longleftrightarrow> m \<in> B"
  shows "(''dotgain'' \<in> A) = (''dotgain'' \<in> B)"
    "(''registration'' \<in> A) = (''registration'' \<in> B)" "(''hickeys'' \<in> A) = (''hickeys'' \<in> B)"
    "(''inkskip'' \<in> A) = (''inkskip'' \<in> B)" "(''inkbleed'' \<in> A) = (''inkbleed'' \<in> B)"
    "(''paper'' \<in> A) = (''paper'' \<in> B)"
  using assms by simp_all

lemma platePlan_cong:
  assumes "\<forall>m \<in> set [''dotgain'', ''registration'', ''hickeys'', ''inkskip'', ''inkbleed'',
                      ''paper'']. m \<in> A \<longleftrightarrow> m \<in> B"
  shows "platePlan M A P ht w h chs = platePlan M B P ht w h chs"
  unfolding platePlan_def Let_def print_cong [OF assms] ..

lemma halftoneStage_cong:
  assumes "\<forall>m \<in> set [''dotgain'', ''registration'', ''hickeys'', ''inkskip'', ''inkbleed'',
                      ''paper'']. m \<in> A \<longleftrightarrow> m \<in> B"
  shows "halftoneStage M A P cv = halftoneStage M B P cv"
  unfolding halftoneStage_def Let_def platePlan_cong [OF assms] print_cong [OF assms] ..

lemma finishing_cong:
  assumes "\<forall>m \<in> set [''dotgain'', ''registration'', ''hickeys'', ''inkskip'', ''inkbleed'',
                      ''paper'']. m \<in> A \<longleftrightarrow> m \<in> B"
  shows "finishing M A P k out = finishing M B P k out"
  unfolding finishing_def Let_def print_cong [OF assms] ..

lemma request_sel:
  "bitmap (e\<lparr>activeModulesList := act\<rparr>) = bitmap e"
  "params (e\<lparr>activeModulesList := act\<rparr>) = params e"
  "forExport (e\<lparr>activeModulesList := act\<rparr>) = forExport e"
  "previewMaxPx (e\<lparr>activeModulesList := act\<rparr>) = previewMaxPx e"
  "upscale (e\<lparr>activeModulesList := act\<rparr>) = upscale e"
  "taskId (e\<lparr>activeModulesList := act\<rparr>) = taskId e"
  "activeModulesList (e\<lparr>activeModulesList := act\<rparr>) = act"
  by simp_all

lemma prepress_cong:
  assumes "\<forall>m \<in> set [''filmstock'', ''velox'', ''grain''].
             m \<in> set (activeModulesList e) \<longleftrightarrow> m \<in> set act"
  shows "prepress M (e\<lparr>activeModulesList := act\<rparr>) = prepress M e"
proof -
  have m: "(''filmstock'' \<in> set act) = (''filmstock'' \<in> set (activeModulesList e))"
    "(''velox'' \<in> set act) = (''velox'' \<in> set (activeModulesList e))"
    "(''grain'' \<in> set act) = (''grain'' \<in> set (activeModulesList e))"
    using assms by simp_all
  show ?thesis
    unfolding prepress_def Let_def request_sel m ..
qed

lemma onmessage_cong:
  assumes "\<forall>m \<in> set workerModules. m \<in> set (activeModulesList e) \<longleftrightarrow> m \<in> set act"
  shows "onmessage M (e\<lparr>activeModulesList := act\<rparr>) = onmessage M e"
proof -
  have pre: "\<forall>m \<in> set [''filmstock'', ''velox'', ''grain''].
             m \<in> set (activeModulesList e) \<longleftrightarrow> m \<in> set act"
    using assms by (simp add: workerModules_def)
  have prt: "\<forall>m \<in> set [''dotgain'', ''registration'', ''hickeys'', ''inkskip'', ''inkbleed'',
                ''paper'']. m \<in> set act \<longleftrightarrow> m \<in> set (activeModulesList e)"
    using assms by (simp add: workerModules_def)
  show ?thesis
    unfolding onmessage_def Let_def request_sel prepress_cong [OF pre] halftoneStage_cong [OF prt]
      finishing_cong [OF prt] ..
qed

section \<open>Runs that are not rendered, and parameters that are not checked (C5)\<close>





lemma onmessage_prepress_Inl: "prepress M e = Inl err \<Longrightarrow> onmessage M e = Inl err"
  by (simp add: onmessage_def Let_def bindE_def)

lemma onmessage_halftone_Inl:
  "prepress M e = Inr (cv, k) \<Longrightarrow>
   halftoneStage M (set (activeModulesList e)) (params e) cv = Inl err \<Longrightarrow>
   onmessage M e = Inl err"
  by (simp add: onmessage_def Let_def bindE_def)


























section \<open>Absent entries and unknown ids\<close>

text \<open>The record update of the parameter bundle, seen through the selectors.\<close>

lemma params_sel:
  "params (e\<lparr>params := P\<rparr>) = P"
  "bitmap (e\<lparr>params := P\<rparr>) = bitmap e"
  "forExport (e\<lparr>params := P\<rparr>) = forExport e"
  "previewMaxPx (e\<lparr>params := P\<rparr>) = previewMaxPx e"
  "upscale (e\<lparr>params := P\<rparr>) = upscale e"
  "taskId (e\<lparr>params := P\<rparr>) = taskId e"
  "activeModulesList (e\<lparr>params := P\<rparr>) = activeModulesList e"
  by simp_all

lemma prepress_params_cong:
  assumes "filmstock P = filmstock (params e)" "velox P = velox (params e)"
    "grain P = grain (params e)"
  shows "prepress M (e\<lparr>params := P\<rparr>) = prepress M e"
  unfolding prepress_def Let_def params_sel assms ..

text \<open>An absent press entry is the press entry of the defaults.\<close>

lemma press_sel:
  "press (P\<lparr>press := x\<rparr>) = x" "halftone (P\<lparr>press := x\<rparr>) = halftone P"
  "dotgain (P\<lparr>press := x\<rparr>) = dotgain P" "registration (P\<lparr>press := x\<rparr>) = registration P"
  "inkskip (P\<lparr>press := x\<rparr>) = inkskip P" "hickeys (P\<lparr>press := x\<rparr>) = hickeys P"
  "inkbleed (P\<lparr>press := x\<rparr>) = inkbleed P" "paper (P\<lparr>press := x\<rparr>) = paper P"
  "filmstock (P\<lparr>press := x\<rparr>) = filmstock P" "velox (P\<lparr>press := x\<rparr>) = velox P"
  "grain (P\<lparr>press := x\<rparr>) = grain P"
  by simp_all

lemma defaultPress_sel:
  "pr_feed defaultPress = ''vertical''" "pr_pressure defaultPress = 1"
  "pr_slur defaultPress = Some 0" "pr_laydown defaultPress = ''k-c-m-y''"
  by (simp_all add: defaultPress_def)

lemma setupChannels_press: "setupChannels ht reg (Some defaultPress) = setupChannels ht reg None"
  unfolding setupChannels_def laydownOf_def option.case defaultPress_sel ..

lemma platePlan_press:
  assumes "press P = None"
  shows "platePlan M A (P\<lparr>press := Some defaultPress\<rparr>) ht w h chs = platePlan M A P ht w h chs"
  unfolding platePlan_def Let_def press_sel assms option.case defaultPress_sel ..

lemma halftoneStage_press:
  assumes "press P = None"
  shows "halftoneStage M A (P\<lparr>press := Some defaultPress\<rparr>) cv = halftoneStage M A P cv"
  unfolding halftoneStage_def press_sel platePlan_press [OF assms] setupChannels_press assms ..

lemma finishing_press:
  assumes "press P = None"
  shows "finishing M A (P\<lparr>press := Some defaultPress\<rparr>) k out = finishing M A P k out"
  unfolding finishing_def Let_def press_sel assms option.case defaultPress_sel ..

lemma onmessage_press:
  assumes "press (params e) = None"
  shows "onmessage M (e\<lparr>params := (params e)\<lparr>press := Some defaultPress\<rparr>\<rparr>) = onmessage M e"
proof -
  have pre: "prepress M (e\<lparr>params := (params e)\<lparr>press := Some defaultPress\<rparr>\<rparr>) = prepress M e"
    by (rule prepress_params_cong) simp_all
  show ?thesis
    unfolding onmessage_def Let_def params_sel pre halftoneStage_press [OF assms]
      finishing_press [OF assms] ..
qed


lemma halftone_sel:
  "halftone (P\<lparr>halftone := x\<rparr>) = x" "press (P\<lparr>halftone := x\<rparr>) = press P"
  "dotgain (P\<lparr>halftone := x\<rparr>) = dotgain P" "registration (P\<lparr>halftone := x\<rparr>) = registration P"
  "inkskip (P\<lparr>halftone := x\<rparr>) = inkskip P" "hickeys (P\<lparr>halftone := x\<rparr>) = hickeys P"
  "inkbleed (P\<lparr>halftone := x\<rparr>) = inkbleed P" "paper (P\<lparr>halftone := x\<rparr>) = paper P"
  "filmstock (P\<lparr>halftone := x\<rparr>) = filmstock P" "velox (P\<lparr>halftone := x\<rparr>) = velox P"
  "grain (P\<lparr>halftone := x\<rparr>) = grain P"
  by simp_all

text \<open>
  A halftone entry is read through nine of its fields, through \<^verbatim>\<open>dotShape || 'circle'\<close>
  and through \<^verbatim>\<open>masterAngle || 0\<close>: two entries that agree in these give the same run.
\<close>

lemma halftone_entry_cong:
  assumes "halftone (params e) = Some ht"
    and sel: "ht_mode ht' = ht_mode ht" "ht_cellSize ht' = ht_cellSize ht"
      "ht_paperColor ht' = ht_paperColor ht" "ht_angleK ht' = ht_angleK ht"
      "ht_angleC ht' = ht_angleC ht" "ht_angleM ht' = ht_angleM ht"
      "ht_angleY ht' = ht_angleY ht" "ht_duotoneColor1 ht' = ht_duotoneColor1 ht"
      "ht_duotoneColor2 ht' = ht_duotoneColor2 ht"
    and d: "orNum (ht_masterAngle ht') 0 = orNum (ht_masterAngle ht) 0"
      "orString (ht_dotShape ht') ''circle'' = orString (ht_dotShape ht) ''circle''"
  shows "onmessage M (e\<lparr>params := (params e)\<lparr>halftone := Some ht'\<rparr>\<rparr>) = onmessage M e"
proof -
  define P where "P = params e"
  have P: "halftone P = Some ht" using assms(1) by (simp add: P_def)
  have cm: "cmykChannels ht' r mAng = cmykChannels ht r mAng" for r mAng
    unfolding cmykChannels_def sel ..
  have ch: "setupChannels ht' reg ps = setupChannels ht reg ps" for reg ps
    unfolding setupChannels_def d sel cm ..
  have pl: "platePlan M A (P\<lparr>halftone := Some ht'\<rparr>) ht' w h chs = platePlan M A P ht w h chs"
    for A w h chs
    unfolding platePlan_def halftone_sel d sel ..
  have hs: "halftoneStage M A (P\<lparr>halftone := Some ht'\<rparr>) cv = halftoneStage M A P cv" for A cv
    unfolding halftoneStage_def halftone_sel P option.case ch pl sel ..
  have fi: "finishing M A (P\<lparr>halftone := Some ht'\<rparr>) k out = finishing M A P k out" for A k out
    unfolding finishing_def halftone_sel P option.case sel ..
  have pre: "prepress M (e\<lparr>params := P\<lparr>halftone := Some ht'\<rparr>\<rparr>) = prepress M e"
    by (rule prepress_params_cong) (simp_all add: P_def)
  show ?thesis
    unfolding onmessage_def Let_def params_sel pre [unfolded P_def] hs [unfolded P_def]
      fi [unfolded P_def] ..
qed

text \<open>An absent dot shape is the circle.\<close>

lemma absent_dotShape:
  assumes "halftone (params e) = Some ht" and "ht_dotShape ht = None"
  shows "onmessage M (e\<lparr>params := (params e)\<lparr>halftone :=
            Some (ht\<lparr>ht_dotShape := Some ''circle''\<rparr>)\<rparr>\<rparr>) = onmessage M e"
  by (rule halftone_entry_cong [OF assms(1)]) (simp_all add: assms(2) orString_def)

text \<open>An absent master angle is zero.\<close>

lemma absent_masterAngle:
  assumes "halftone (params e) = Some ht" and "ht_masterAngle ht = None"
  shows "onmessage M (e\<lparr>params := (params e)\<lparr>halftone :=
            Some (ht\<lparr>ht_masterAngle := Some 0\<rparr>)\<rparr>\<rparr>) = onmessage M e"
  by (rule halftone_entry_cong [OF assms(1)]) (simp_all add: assms(2) orNum_def)

lemma unknown_module_ignored:
  assumes "m \<notin> set workerModules"
  shows "onmessage M (e\<lparr>activeModulesList := m # activeModulesList e\<rparr>) = onmessage M e"
  by (rule onmessage_cong) (use assms in auto)

lemma missing_halftone_fails:
  assumes "halftone (params e) = None"
  shows "\<exists>err. onmessage M e = Inl err"
proof (cases "prepress M e")
  case (Inl err)
  then show ?thesis using onmessage_prepress_Inl by blast
next
  case (Inr r)
  obtain cv k where r: "r = (cv, k)" by (cases r)
  have "\<exists>err. halftoneStage M (set (activeModulesList e)) (params e) cv = Inl err"
    using assms by (cases "getImageData cv") (simp_all add: halftoneStage_def Let_def bindE_def)
  then show ?thesis using onmessage_halftone_Inl [OF Inr [unfolded r]] by blast
qed

text \<open>
  C2, as stated, fails: with the halftone entry absent from the parameter bundle the run
  of a white 1\<times>1 source ends with a \<^verbatim>\<open>TypeError\<close>, and nothing is posted.
\<close>

theorem parameter_defaults_counterexample:
  "onmessage refPlatform
     (exportRequest (solid 1 1 (opaque white8)) [] (defaultParams\<lparr>halftone := None\<rparr>))
   = Inl TypeError"
  by (simp add: onmessage_def prepress_def halftoneStage_def exportRequest_def solid_def
        getImageData_def newCanvas_def bindE_def Let_def)

text \<open>
  C2, amended. A module id the worker does not know is ignored in the active list. An
  absent press entry behaves as the entry \<open>vertical\<close>, \<open>k-c-m-y\<close>, pressure 1, slur 0.
  Within a present halftone entry an absent dot shape behaves as \<open>circle\<close>, and an absent
  master angle behaves as 0, each on its own, whatever the other is. The halftone entry
  itself has no fallback: when it is absent the run throws and posts nothing.
\<close>

theorem parameter_defaults:
  "(\<forall>m. m \<notin> set workerModules \<longrightarrow>
        onmessage M (e\<lparr>activeModulesList := m # activeModulesList e\<rparr>) = onmessage M e)
   \<and> (press (params e) = None \<longrightarrow>
        onmessage M (e\<lparr>params := (params e)\<lparr>press := Some defaultPress\<rparr>\<rparr>) = onmessage M e)
   \<and> (\<forall>ht. halftone (params e) = Some ht \<and> ht_dotShape ht = None \<longrightarrow>
        onmessage M (e\<lparr>params := (params e)\<lparr>halftone :=
            Some (ht\<lparr>ht_dotShape := Some ''circle''\<rparr>)\<rparr>\<rparr>) = onmessage M e)
   \<and> (\<forall>ht. halftone (params e) = Some ht \<and> ht_masterAngle ht = None \<longrightarrow>
        onmessage M (e\<lparr>params := (params e)\<lparr>halftone :=
            Some (ht\<lparr>ht_masterAngle := Some 0\<rparr>)\<rparr>\<rparr>) = onmessage M e)
   \<and> (halftone (params e) = None \<longrightarrow> (\<exists>err. onmessage M e = Inl err))"
  using unknown_module_ignored onmessage_press absent_dotShape absent_masterAngle
    missing_halftone_fails
  by blast

theorem parameter_defaults_witness:
  "''sepia'' \<notin> set workerModules
   \<and> onmessage refPlatform (exportRequest (solid 1 1 (opaque white8)) [''sepia''] defaultParams)
       = onmessage refPlatform (exportRequest (solid 1 1 (opaque white8)) [] defaultParams)
   \<and> onmessage refPlatform (exportRequest (solid 1 1 (opaque white8)) [] defaultParams)
       = onmessage refPlatform
           (exportRequest (solid 1 1 (opaque white8)) [] (defaultParams\<lparr>press := None\<rparr>))
   \<and> onmessage refPlatform (exportRequest (solid 1 1 (opaque white8)) [] defaultParams)
       = onmessage refPlatform
           (exportRequest (solid 1 1 (opaque white8)) []
              (defaultParams\<lparr>halftone := Some (defaultHalftone\<lparr>ht_dotShape := None\<rparr>)\<rparr>))
   \<and> onmessage refPlatform (exportRequest (solid 1 1 (opaque white8)) [] defaultParams)
       = onmessage refPlatform
           (exportRequest (solid 1 1 (opaque white8)) []
              (defaultParams\<lparr>halftone := Some (defaultHalftone\<lparr>ht_masterAngle := None\<rparr>)\<rparr>))
   \<and> (\<exists>err. onmessage refPlatform
               (exportRequest (solid 1 1 (opaque white8)) [] (defaultParams\<lparr>halftone := None\<rparr>))
             = Inl err)"
proof -
  have 0: "''sepia'' \<notin> set workerModules" by (simp add: workerModules_def)
  have 1: "onmessage refPlatform (exportRequest (solid 1 1 (opaque white8)) [''sepia''] defaultParams)
       = onmessage refPlatform (exportRequest (solid 1 1 (opaque white8)) [] defaultParams)"
    using parameter_defaults [where M = refPlatform and e = "exportRequest (solid 1 1 (opaque white8)) [] defaultParams"]
      0 by (simp add: exportRequest_def)
  have 2: "onmessage refPlatform (exportRequest (solid 1 1 (opaque white8)) [] defaultParams)
       = onmessage refPlatform
           (exportRequest (solid 1 1 (opaque white8)) [] (defaultParams\<lparr>press := None\<rparr>))"
    using parameter_defaults [where M = refPlatform and e =
        "exportRequest (solid 1 1 (opaque white8)) [] (defaultParams\<lparr>press := None\<rparr>)"]
    by (simp add: exportRequest_def defaultParams_def)
  have 3: "onmessage refPlatform (exportRequest (solid 1 1 (opaque white8)) [] defaultParams)
       = onmessage refPlatform
           (exportRequest (solid 1 1 (opaque white8)) []
              (defaultParams\<lparr>halftone := Some (defaultHalftone\<lparr>ht_dotShape := None\<rparr>)\<rparr>))"
    using parameter_defaults [where M = refPlatform and e =
        "exportRequest (solid 1 1 (opaque white8)) []
              (defaultParams\<lparr>halftone := Some (defaultHalftone\<lparr>ht_dotShape := None\<rparr>)\<rparr>)"]
    by (simp add: exportRequest_def defaultParams_def defaultHalftone_def)
  have 4: "onmessage refPlatform (exportRequest (solid 1 1 (opaque white8)) [] defaultParams)
       = onmessage refPlatform
           (exportRequest (solid 1 1 (opaque white8)) []
              (defaultParams\<lparr>halftone := Some (defaultHalftone\<lparr>ht_masterAngle := None\<rparr>)\<rparr>))"
    using parameter_defaults [where M = refPlatform and e =
        "exportRequest (solid 1 1 (opaque white8)) []
              (defaultParams\<lparr>halftone := Some (defaultHalftone\<lparr>ht_masterAngle := None\<rparr>)\<rparr>)"]
    by (simp add: exportRequest_def defaultParams_def defaultHalftone_def)
  have 5: "\<exists>err. onmessage refPlatform
               (exportRequest (solid 1 1 (opaque white8)) [] (defaultParams\<lparr>halftone := None\<rparr>))
             = Inl err"
    using parameter_defaults [where M = refPlatform and e =
        "exportRequest (solid 1 1 (opaque white8)) [] (defaultParams\<lparr>halftone := None\<rparr>)"]
    by (simp add: exportRequest_def)
  from 0 1 2 3 4 5 show ?thesis by blast
qed

section \<open>The seeded stages and \<^verbatim>\<open>Math.random\<close>\<close>

text \<open>Replacing the stream of \<^verbatim>\<open>Math.random()\<close> values leaves every other host function
  as it was.\<close>

lemma mrandom_sel:
  "msqrt (M\<lparr>mrandom := r\<rparr>) = msqrt M" "mcos (M\<lparr>mrandom := r\<rparr>) = mcos M"
  "msin (M\<lparr>mrandom := r\<rparr>) = msin M" "mexp (M\<lparr>mrandom := r\<rparr>) = mexp M"
  "mpow2 (M\<lparr>mrandom := r\<rparr>) = mpow2 M" "coverage (M\<lparr>mrandom := r\<rparr>) = coverage M"
  "resample (M\<lparr>mrandom := r\<rparr>) = resample M"
  by simp_all

lemma blobShare_random: "blobShare (M\<lparr>mrandom := r\<rparr>) = blobShare M"
  unfolding blobShare_def mrandom_sel ..

lemma skipValue_random: "skipValue (M\<lparr>mrandom := r\<rparr>) = skipValue M"
  unfolding skipValue_def blobShare_random ..

lemma buildInkSkipMap_random: "buildInkSkipMap (M\<lparr>mrandom := r\<rparr>) = buildInkSkipMap M"
  unfolding buildInkSkipMap_def skipValue_random ..

lemma fillPath_random: "fillPath (M\<lparr>mrandom := r\<rparr>) = fillPath M"
  unfolding fillPath_def mrandom_sel ..

lemma applyPlateHickeys_random: "applyPlateHickeys (M\<lparr>mrandom := r\<rparr>) = applyPlateHickeys M"
  unfolding applyPlateHickeys_def fillPath_random ..

lemma plateOptions_random: "plateOptions (M\<lparr>mrandom := r\<rparr>) = plateOptions M"
  unfolding plateOptions_def buildInkSkipMap_random ..

lemma platePlan_random: "platePlan (M\<lparr>mrandom := r\<rparr>) = platePlan M"
  unfolding platePlan_def plateOptions_random ..

lemma drawScaled_random: "drawScaled (M\<lparr>mrandom := r\<rparr>) = drawScaled M"
  unfolding drawScaled_def mrandom_sel ..

lemma getPreviewCanvas_random: "getPreviewCanvas (M\<lparr>mrandom := r\<rparr>) = getPreviewCanvas M"
  unfolding getPreviewCanvas_def drawScaled_random ..

lemma applyUpscale_random: "applyUpscale (M\<lparr>mrandom := r\<rparr>) = applyUpscale M"
  unfolding applyUpscale_def drawScaled_random ..

lemma filmStockPixels_random: "filmStockPixels (M\<lparr>mrandom := r\<rparr>) = filmStockPixels M"
  unfolding filmStockPixels_def mrandom_sel ..

lemma applyFilmStock_random: "applyFilmStock (M\<lparr>mrandom := r\<rparr>) = applyFilmStock M"
  unfolding applyFilmStock_def filmStockPixels_random ..

lemma veloxLUTEntry_random: "veloxLUTEntry (M\<lparr>mrandom := r\<rparr>) = veloxLUTEntry M"
  unfolding veloxLUTEntry_def mrandom_sel ..

lemma veloxLUT_random: "veloxLUT (M\<lparr>mrandom := r\<rparr>) = veloxLUT M"
  unfolding veloxLUT_def veloxLUTEntry_random ..

lemma veloxPixels_random: "veloxPixels (M\<lparr>mrandom := r\<rparr>) = veloxPixels M"
  unfolding veloxPixels_def veloxLUT_random ..

lemma applyVelox_random: "applyVelox (M\<lparr>mrandom := r\<rparr>) = applyVelox M"
  unfolding applyVelox_def veloxPixels_random ..

text \<open>Grain reads the stream, and only for the colour of its pixels: whether it throws,
  the size of its canvas and the number of values it draws are those of any other
  stream.\<close>

lemma applyGrain_random:
  "(\<exists>err. applyGrain (M\<lparr>mrandom := r\<rparr>) k c g = Inl err \<and> applyGrain M k c g = Inl err)
   \<or> (\<exists>cv' cv k'. applyGrain (M\<lparr>mrandom := r\<rparr>) k c g = Inr (cv', k')
          \<and> applyGrain M k c g = Inr (cv, k')
          \<and> width cv' = width cv \<and> height cv' = height cv)"
  by (cases g)
    (simp_all add: applyGrain_def copyCanvas_def getImageData_def putImageData_def newCanvas_def
      bindE_def)

lemma bindE_alike:
  assumes "\<And>c. (\<exists>err. f c = Inl err \<and> g c = Inl err)
              \<or> (\<exists>cv' cv k. f c = Inr (cv', k) \<and> g c = Inr (cv, k)
                    \<and> width cv' = width cv \<and> height cv' = height cv)"
  shows "(\<exists>err. bindE x f = Inl err \<and> bindE x g = Inl err)
         \<or> (\<exists>cv' cv k. bindE x f = Inr (cv', k) \<and> bindE x g = Inr (cv, k)
               \<and> width (cv' :: canvas) = width (cv :: canvas) \<and> height cv' = height cv)"
  using assms by (cases x) (simp_all add: bindE_def)

lemma prepress_random:
  "(\<exists>err. prepress (M\<lparr>mrandom := r\<rparr>) e = Inl err \<and> prepress M e = Inl err)
   \<or> (\<exists>cv' cv k. prepress (M\<lparr>mrandom := r\<rparr>) e = Inr (cv', k) \<and> prepress M e = Inr (cv, k)
          \<and> width cv' = width cv \<and> height cv' = height cv)"
proof (cases "bitmap e")
  case None
  then show ?thesis by (simp add: prepress_def Let_def)
next
  case (Some bmp)
  have tail: "(\<exists>err. (if b then applyGrain (M\<lparr>mrandom := r\<rparr>) 0 c g else Inr (c, 0)) = Inl err
                   \<and> (if b then applyGrain M 0 c g else Inr (c, 0)) = Inl err)
     \<or> (\<exists>cv' cv k. (if b then applyGrain (M\<lparr>mrandom := r\<rparr>) 0 c g else Inr (c, 0)) = Inr (cv', k)
            \<and> (if b then applyGrain M 0 c g else Inr (c, 0)) = Inr (cv, k)
            \<and> width cv' = width cv \<and> height cv' = height cv)" for b c g
    using applyGrain_random [where M = M and r = r and k = 0 and c = c and g = g]
    by (cases b) simp_all
  show ?thesis
    unfolding prepress_def Let_def Some option.case getPreviewCanvas_random applyUpscale_random
      applyFilmStock_random applyVelox_random
    by (intro bindE_alike tail)
qed

text \<open>The seeded artefacts of a run are those of the run under any other stream.\<close>

lemma seededArtefacts_random:
  "seededArtefacts (M\<lparr>mrandom := r\<rparr>) e = seededArtefacts M e"
proof -
  have body: "bindE (getImageData cv') (\<lambda>srcData. F (width cv') (height cv'))
              = bindE (getImageData cv) (\<lambda>srcData. F (width cv) (height cv))"
    if "width cv' = width cv" "height cv' = height cv"
    for cv' cv :: canvas and F :: "nat \<Rightarrow> nat \<Rightarrow> error + 'a"
    using that by (simp add: getImageData_def bindE_def)
  from prepress_random [where M = M and r = r and e = e] show ?thesis
  proof (elim disjE exE conjE)
    fix err
    assume "prepress (M\<lparr>mrandom := r\<rparr>) e = Inl err" "prepress M e = Inl err"
    then show ?thesis by (simp add: seededArtefacts_def Let_def bindE_def)
  next
    fix cv' cv k
    assume p: "prepress (M\<lparr>mrandom := r\<rparr>) e = Inr (cv', k)" "prepress M e = Inr (cv, k)"
      and d: "width cv' = width cv" "height cv' = height cv"
    show ?thesis
      unfolding seededArtefacts_def Let_def p bindE_Inr prod.case platePlan_random
      by (rule body [OF d])
  qed
qed

text \<open>A complete export request has seeded artefacts: one entry per plate.\<close>

lemma seededArtefacts_returns:
  assumes "complete e" and "forExport e" and "upscale e \<le> 1"
  shows "\<exists>xs. seededArtefacts M e = Inr xs"
proof -
  from prepress_returns [OF assms] obtain cv k where p: "prepress M e = Inr (cv, k)" by blast
  from assms(1) obtain bmp where bmp: "bitmap e = Some bmp" "0 < width bmp" "0 < height bmp"
    by (auto simp: complete_def Let_def split: option.splits)
  from prepress_frame [OF p assms(2,3) bmp(1)] bmp(2,3) have pos: "0 < width cv" "0 < height cv"
    using sameFrame_pos by blast+
  from assms(1) obtain ht where ht: "halftone (params e) = Some ht"
    by (auto simp: complete_def Let_def split: option.splits)
  from assms(1) have ent: "''registration'' \<in> set (activeModulesList e)
      \<longrightarrow> registration (params e) \<noteq> None"
    by (auto simp: complete_def Let_def)
  define reg where "reg = (if ''registration'' \<in> set (activeModulesList e)
      then registration (params e) else Some defaultRegistration)"
  from ent obtain rg where rg: "reg = Some rg"
    by (cases "''registration'' \<in> set (activeModulesList e)") (auto simp: reg_def)
  from setupChannels_returns [where needColor = False and ht = ht and r = rg
      and ps = "press (params e)"]
  obtain chs where chs: "setupChannels ht reg (press (params e)) = Inr chs"
    unfolding rg by auto
  show ?thesis
    using pos ht chs
    by (simp add: seededArtefacts_def Let_def p bindE_def getImageData_def reg_def [symmetric])
qed

text \<open>The exemption of grain is a real one: on a mid-grey pixel, with amount \<open>1\<close> and no
  luminance weighting, a stream of zeros and a stream of halves give different rasters.\<close>

lemma lit_half: "lit (1 / 2) = 1 / 2" by code_simp
lemma grain_noise_sub: "fsub 0 (1 / 2) = - (1 / 2)" by code_simp
lemma grain_noise_max: "fmul (fmul 2 1) 255 = 510" by code_simp
lemma grain_noise_low: "fmul (fmul (- (1 / 2)) 510) 1 = - 255" by code_simp
lemma grain_noise_none: "fmul (fmul (fsub (1 / 2) (1 / 2)) 510) 1 = 0" by code_simp
lemma grain_noise_add: "fadd 128 (- 255) = - 127" "fadd 128 0 = 128" by code_simp+
lemma bnum_128: "bnum 128 = 128" by (simp add: bnum_def)

lemma grain_reads_stream:
  "grainPixels (M\<lparr>mrandom := \<lambda>k. 0\<rparr>) 0 \<lparr>gr_amount = 1, gr_weighted = ''off''\<rparr>
     [opaque (128, 128, 128)]
   \<noteq> grainPixels (M\<lparr>mrandom := \<lambda>k. 1 / 2\<rparr>) 0 \<lparr>gr_amount = 1, gr_weighted = ''off''\<rparr>
     [opaque (128, 128, 128)]"
  by (simp add: grainPixels_def Let_def enumerate_eq_zip opaque_def setRGB_def lit_half grain_noise_sub grain_noise_max grain_noise_low grain_noise_none grain_noise_add
      bnum_128 clamp8_def rne_def)

text \<open>
  C4. Two runs on the same active set, parameter bundle and source have the same ink-skip
  maps and the same hickeys, plate by plate, whatever \<^verbatim>\<open>Math.random()\<close> returns in
  either: \<^verbatim>\<open>buildInkSkipMap\<close> is a function of its arguments alone, and so is what
  \<^verbatim>\<open>applyPlateHickeys\<close> stamps; both draw only from the generator seeded by the plate
  index. Grain and paper texture, which read \<^verbatim>\<open>Math.random()\<close>, are outside the claim.
\<close>

theorem seeded_determinism:
  "seededArtefacts (M\<lparr>mrandom := r\<rparr>) e = seededArtefacts M e
   \<and> buildInkSkipMap (M\<lparr>mrandom := r\<rparr>) w h intensity scale seedOffset fd
       = buildInkSkipMap M w h intensity scale seedOffset fd
   \<and> applyPlateHickeys (M\<lparr>mrandom := r\<rparr>) cv w h ps inkColor idx
       = applyPlateHickeys M cv w h ps inkColor idx"
  unfolding seededArtefacts_random buildInkSkipMap_random applyPlateHickeys_random by simp

theorem seeded_determinism_witness:
  "seededArtefacts (refPlatform\<lparr>mrandom := \<lambda>k. 0\<rparr>)
       (exportRequest (solid 2 2 (opaque white8)) [''grain'', ''inkskip'', ''hickeys''] defaultParams)
     = seededArtefacts refPlatform
         (exportRequest (solid 2 2 (opaque white8)) [''grain'', ''inkskip'', ''hickeys''] defaultParams)
   \<and> (\<exists>xs. seededArtefacts refPlatform
         (exportRequest (solid 2 2 (opaque white8)) [''grain'', ''inkskip'', ''hickeys''] defaultParams)
       = Inr xs)"
proof -
  define e where
    "e = exportRequest (solid 2 2 (opaque white8)) [''grain'', ''inkskip'', ''hickeys''] defaultParams"
  have h: "forExport e" "upscale e \<le> 1" by (simp_all add: e_def exportRequest_def)
  have c: "complete e" unfolding e_def by (rule complete_defaults) simp_all
  from seededArtefacts_returns [OF c h]
    seeded_determinism [where M = refPlatform and r = "\<lambda>k. 0" and e = e]
  show ?thesis unfolding e_def by blast
qed

end
